theory Spec2Isabelle
  imports Complex_Main "HOL-Library.AList"
begin

section \<open>Python values\<close>

text \<open>
  A Python \<open>str\<close> is a sequence of Unicode code points, and the sources compare, strip
  and slice by code point, so a text is modelled as the list of its code points.
  \<open>asc\<close> embeds an ASCII literal.
\<close>

type_synonym pystr = "nat list"

definition asc :: "string \<Rightarrow> pystr" where
  "asc s = map of_char s"

text \<open>The classes of the exceptions that the modelled code and its library calls raise.\<close>

datatype error =
    ValueError | TypeError | OverflowError | ZeroDivisionError | JSONDecodeError
  | KeyError | AttributeError | ValidationError

text \<open>
  A Python \<open>float\<close> is an IEEE 754 binary64 number: a finite value, an infinity or a NaN.
  A finite float is the real number it denotes (the two zeros are one value).
\<close>

datatype pyfloat = Finite real | PosInf | NegInf | NaN

text \<open>
  Every float operation of the interpreter (a division, the conversion of an int, the
  reading of a decimal literal) gives the exact result rounded to the nearest double, a tie
  going to the even mantissa. \<open>ilog2 n\<close> is the position of the leading bit of \<open>n > 0\<close>, and
  \<open>float_exponent x\<close> the integer \<open>e\<close> with \<open>2^e \<le> |x| < 2^(e+1)\<close>. The doubles next to \<open>x\<close>
  are the multiples of \<open>float_quantum x\<close>: of \<open>2^(e-52)\<close> (53 bits of mantissa) and, below
  \<open>2^-1022\<close>, of \<open>2^-1074\<close> (the subnormal numbers). \<open>round_to_double x\<close> is the nearest such
  multiple; when it reaches \<open>2^1024\<close> the result is an infinity.
\<close>

fun ilog2 :: "nat \<Rightarrow> nat" where
  "ilog2 n = (if n < 2 then 0 else Suc (ilog2 (n div 2)))"

declare ilog2.simps [simp del]

definition float_exponent :: "real \<Rightarrow> int" where
  "float_exponent x =
     (if 1 \<le> \<bar>x\<bar> then int (ilog2 (nat \<lfloor>\<bar>x\<bar>\<rfloor>))
      else - int (Suc (ilog2 (nat \<lceil>1 / \<bar>x\<bar>\<rceil> - 1))))"

definition round_half_even :: "real \<Rightarrow> int" where
  "round_half_even r =
     (let f = \<lfloor>r\<rfloor>
      in if r - of_int f < 1 / 2 then f
         else if 1 / 2 < r - of_int f then f + 1
         else if even f then f else f + 1)"

definition float_quantum :: "real \<Rightarrow> real" where
  "float_quantum x = 2 powi (max (float_exponent x) (- 1022) - 52)"

definition round_to_double :: "real \<Rightarrow> real" where
  "round_to_double x =
     (if x = 0 then 0 else of_int (round_half_even (x / float_quantum x)) * float_quantum x)"

definition float_of_real :: "real \<Rightarrow> pyfloat" where
  "float_of_real x =
     (let y = round_to_double x
      in if 2 ^ 1024 \<le> y then PosInf else if y \<le> - (2 ^ 1024) then NegInf else Finite y)"

text \<open>
  \<open>float(n)\<close> of an int, which is also the conversion of an int operand of a float
  operation: an int that rounds beyond the largest double raises OverflowError. \<open>a / b\<close> of
  two ints is the correctly rounded quotient; it raises ZeroDivisionError, and
  OverflowError when the quotient rounds beyond the largest double.
\<close>

definition int_to_float :: "int \<Rightarrow> error + real" where
  "int_to_float n =
     (case float_of_real (of_int n) of Finite r \<Rightarrow> Inr r | _ \<Rightarrow> Inl OverflowError)"

definition int_truediv :: "int \<Rightarrow> int \<Rightarrow> error + real" where
  "int_truediv a b =
     (if b = 0 then Inl ZeroDivisionError
      else (case float_of_real (of_int a / of_int b) of
              Finite r \<Rightarrow> Inr r
            | _ \<Rightarrow> Inl OverflowError))"

text \<open>
  The values \<open>json.loads\<close> produces, which are the values the coordinate code handles.
  A \<open>dict\<close> is an association list with distinct keys, in insertion order.
\<close>

datatype pyval =
    PNone
  | PBool bool
  | PInt int
  | PFloat pyfloat
  | PStr pystr
  | PList "pyval list"
  | PDict "(pystr \<times> pyval) list"

text \<open>\<open>int(x)\<close> on a finite float truncates toward zero.\<close>

definition py_int :: "real \<Rightarrow> int" where
  "py_int x = (if 0 \<le> x then \<lfloor>x\<rfloor> else \<lceil>x\<rceil>)"

text \<open>What iterating (and \<open>len\<close>) gives on a value; a value with no length raises.\<close>

fun py_iter :: "pyval \<Rightarrow> error + pyval list" where
  "py_iter (PList xs) = Inr xs"
| "py_iter (PStr s) = Inr (map (\<lambda>c. PStr [c]) s)"
| "py_iter (PDict d) = Inr (map (\<lambda>kv. PStr (fst kv)) d)"
| "py_iter _ = Inl TypeError"

text \<open>
  \<open>x / s\<close> for a finite float \<open>s\<close>. The left operand is converted to a float first
  (\<open>py_num\<close>: an int or a bool is converted, a float is taken as it is, anything else is a
  TypeError); then a zero divisor raises ZeroDivisionError; the quotient of two finite
  floats is rounded, and is an infinity when it is too large (a float division does not
  raise OverflowError).
\<close>

fun float_div :: "pyfloat \<Rightarrow> real \<Rightarrow> pyfloat" where
  "float_div (Finite r) s = float_of_real (r / s)"
| "float_div PosInf s = (if 0 < s then PosInf else NegInf)"
| "float_div NegInf s = (if 0 < s then NegInf else PosInf)"
| "float_div NaN s = NaN"

fun py_num :: "pyval \<Rightarrow> error + pyfloat" where
  "py_num (PInt n) = (case int_to_float n of Inl e \<Rightarrow> Inl e | Inr r \<Rightarrow> Inr (Finite r))"
| "py_num (PBool b) = Inr (Finite (if b then 1 else 0))"
| "py_num (PFloat f) = Inr f"
| "py_num _ = Inl TypeError"

definition py_truediv :: "pyval \<Rightarrow> real \<Rightarrow> error + pyfloat" where
  "py_truediv x s =
     (case py_num x of
        Inl e \<Rightarrow> Inl e
      | Inr f \<Rightarrow> if s = 0 then Inl ZeroDivisionError else Inr (float_div f s))"

text \<open>
  Python's \<open>min(a, b)\<close> is \<open>b\<close> when \<open>b < a\<close> and \<open>a\<close> otherwise; \<open>max(a, b)\<close> is \<open>b\<close> when
  \<open>b > a\<close> and \<open>a\<close> otherwise; every comparison with a NaN is false. \<open>clamp_coord w v\<close> is
  \<open>max(0, min(v, w))\<close> for a float \<open>v\<close> and an int \<open>w\<close>.
\<close>

fun int_lt_float :: "int \<Rightarrow> pyfloat \<Rightarrow> bool" where
  "int_lt_float w (Finite r) = (of_int w < r)"
| "int_lt_float w PosInf = True"
| "int_lt_float w NegInf = False"
| "int_lt_float w NaN = False"

fun float_gt_zero :: "pyfloat \<Rightarrow> bool" where
  "float_gt_zero (Finite r) = (0 < r)"
| "float_gt_zero PosInf = True"
| "float_gt_zero NegInf = False"
| "float_gt_zero NaN = False"

definition clamp_coord :: "int \<Rightarrow> pyfloat \<Rightarrow> pyval" where
  "clamp_coord w v =
     (if int_lt_float w v
      then (if 0 < w then PInt w else PInt 0)
      else (if float_gt_zero v then PFloat v else PInt 0))"

section \<open>Utiles/ImagePreprocessor.py\<close>

text \<open>
  An image is its size and its pixel data; the resampling filter of the imaging library
  is a parameter \<open>resample\<close>, which may raise.
\<close>

record 'p image =
  img_size :: "int \<times> int"
  pixels :: 'p

record image_preprocessor =
  original_size :: "(int \<times> int) option"
  processed_size :: "(int \<times> int) option"
  scale_factor :: "real option"

definition init_preprocessor :: image_preprocessor where
  "init_preprocessor = \<lparr>original_size = None, processed_size = None, scale_factor = None\<rparr>"

text \<open>
  \<open>resize_image\<close> returns the updated preprocessor with the image or the exception.
  \<open>int(height * max_size / width)\<close> is a true division of two ints, rounded to a float,
  followed by a truncation; \<open>max_size / width\<close> is the rounded quotient, a float. An
  exception of a division leaves the function before the fields are assigned.
\<close>

definition resize_image ::
  "('p image \<Rightarrow> int \<times> int \<Rightarrow> error + 'p image) \<Rightarrow> image_preprocessor \<Rightarrow> 'p image \<Rightarrow> int
     \<Rightarrow> image_preprocessor \<times> (error + 'p image)" where
  "resize_image resample self img max_size =
     (let (width, height) = img_size img;
          self1 = self\<lparr>original_size := Some (width, height)\<rparr>
      in if width \<le> max_size \<and> height \<le> max_size
         then (self1\<lparr>processed_size := Some (width, height), scale_factor := Some 1\<rparr>, Inr img)
         else if width > height
         then (case int_truediv (height * max_size) width of
                 Inl e \<Rightarrow> (self1, Inl e)
               | Inr ratio \<Rightarrow>
                   (case int_truediv max_size width of
                      Inl e \<Rightarrow> (self1, Inl e)
                    | Inr factor \<Rightarrow>
                        let new_width = max_size;
                            new_height = py_int ratio;
                            self2 = self1\<lparr>scale_factor := Some factor\<rparr>;
                            self3 = self2\<lparr>processed_size := Some (new_width, new_height)\<rparr>
                        in (self3, resample img (new_width, new_height))))
         else (case int_truediv (width * max_size) height of
                 Inl e \<Rightarrow> (self1, Inl e)
               | Inr ratio \<Rightarrow>
                   (case int_truediv max_size height of
                      Inl e \<Rightarrow> (self1, Inl e)
                    | Inr factor \<Rightarrow>
                        let new_height = max_size;
                            new_width = py_int ratio;
                            self2 = self1\<lparr>scale_factor := Some factor\<rparr>;
                            self3 = self2\<lparr>processed_size := Some (new_width, new_height)\<rparr>
                        in (self3, resample img (new_width, new_height)))))"

text \<open>\<open>get_scale_info\<close>: the dictionary of the three recorded fields.\<close>

record scale_info =
  info_original_size :: "(int \<times> int) option"
  info_processed_size :: "(int \<times> int) option"
  info_scale_factor :: "real option"

definition get_scale_info :: "image_preprocessor \<Rightarrow> scale_info" where
  "get_scale_info self =
     \<lparr>info_original_size = original_size self,
      info_processed_size = processed_size self,
      info_scale_factor = scale_factor self\<rparr>"

text \<open>
  \<open>convert_coordinates_to_original\<close>: the two guards, the unpacking of the four
  coordinates, the four divisions in order, the four clamps.
\<close>

definition convert_coordinates_to_original :: "image_preprocessor \<Rightarrow> pyval \<Rightarrow> error + pyval" where
  "convert_coordinates_to_original self bbox =
     (case (scale_factor self, original_size self) of
        (Some s, Some (original_width, original_height)) \<Rightarrow>
          (case py_iter bbox of
             Inl e \<Rightarrow> Inl e
           | Inr xs \<Rightarrow>
               (case xs of
                  [x1, y1, x2, y2] \<Rightarrow>
                    (case py_truediv x1 s of Inl e \<Rightarrow> Inl e | Inr original_x1 \<Rightarrow>
                    (case py_truediv y1 s of Inl e \<Rightarrow> Inl e | Inr original_y1 \<Rightarrow>
                    (case py_truediv x2 s of Inl e \<Rightarrow> Inl e | Inr original_x2 \<Rightarrow>
                    (case py_truediv y2 s of Inl e \<Rightarrow> Inl e | Inr original_y2 \<Rightarrow>
                       Inr (PList [clamp_coord original_width original_x1,
                                   clamp_coord original_height original_y1,
                                   clamp_coord original_width original_x2,
                                   clamp_coord original_height original_y2])))))
                | _ \<Rightarrow> Inl ValueError))
      | _ \<Rightarrow> Inl ValueError)"

text \<open>The batch form: a list comprehension, which stops at the first exception.\<close>

fun convert_coordinates_list_to_original :: "image_preprocessor \<Rightarrow> pyval list \<Rightarrow> error + pyval list" where
  "convert_coordinates_list_to_original self [] = Inr []"
| "convert_coordinates_list_to_original self (bbox # rest) =
     (case convert_coordinates_to_original self bbox of
        Inl e \<Rightarrow> Inl e
      | Inr b \<Rightarrow>
          (case convert_coordinates_list_to_original self rest of
             Inl e \<Rightarrow> Inl e
           | Inr bs \<Rightarrow> Inr (b # bs)))"


text \<open>A resampling filter for evaluation: it changes the size and keeps the pixel data.\<close>

definition plain_resample :: "unit image \<Rightarrow> int \<times> int \<Rightarrow> error + unit image" where
  "plain_resample img sz = Inr (img\<lparr>img_size := sz\<rparr>)"

text \<open>
  Reading a returned coordinate: \<open>num_in_range lo hi v\<close> holds when \<open>v\<close> is an int or a
  finite float within \<open>[lo, hi]\<close>; \<open>num_value\<close> is the number an int or a finite float
  denotes.
\<close>

fun num_in_range :: "real \<Rightarrow> real \<Rightarrow> pyval \<Rightarrow> bool" where
  "num_in_range lo hi (PInt n) = (lo \<le> of_int n \<and> of_int n \<le> hi)"
| "num_in_range lo hi (PFloat (Finite r)) = (lo \<le> r \<and> r \<le> hi)"
| "num_in_range lo hi _ = False"

fun num_value :: "pyval \<Rightarrow> real" where
  "num_value (PInt n) = of_int n"
| "num_value (PFloat (Finite r)) = r"
| "num_value _ = 0"

section \<open>Agents/PreciseSegmentationAgent.py: coordinate conversion\<close>

text \<open>
  The fields of the agent the conversion reads: its preprocessor and the scale information
  saved by the last local-file encoding (\<open>None\<close> until then, and for an image given by URL).
\<close>

record precise_segmentation_agent =
  image_preprocessor :: image_preprocessor
  agent_scale_info :: "scale_info option"

definition init_agent :: precise_segmentation_agent where
  "init_agent = \<lparr>image_preprocessor = init_preprocessor, agent_scale_info = None\<rparr>"

text \<open>
  The loop of the agent's \<open>convert_coordinates_to_original\<close>: a dict with a \<open>bbox_2d\<close> key
  is copied with the converted box, anything else is kept as it is; an exception of the
  preprocessor leaves the loop.
\<close>

fun convert_results :: "image_preprocessor \<Rightarrow> pyval list \<Rightarrow> error + pyval list" where
  "convert_results pp [] = Inr []"
| "convert_results pp (result # rest) =
     (case result of
        PDict d \<Rightarrow>
          (case map_of d (asc ''bbox_2d'') of
             Some bbox \<Rightarrow>
               (case convert_coordinates_to_original pp bbox of
                  Inl e \<Rightarrow> Inl e
                | Inr original_bbox \<Rightarrow>
                    (case convert_results pp rest of
                       Inl e \<Rightarrow> Inl e
                     | Inr converted \<Rightarrow>
                         Inr (PDict (AList.update (asc ''bbox_2d'') original_bbox d) # converted)))
           | None \<Rightarrow>
               (case convert_results pp rest of
                  Inl e \<Rightarrow> Inl e
                | Inr converted \<Rightarrow> Inr (result # converted)))
      | _ \<Rightarrow>
          (case convert_results pp rest of
             Inl e \<Rightarrow> Inl e
           | Inr converted \<Rightarrow> Inr (result # converted)))"

text \<open>
  The agent's \<open>convert_coordinates_to_original\<close>: without scale information it prints a
  warning and returns its argument.
\<close>

definition agent_convert_coordinates_to_original ::
  "precise_segmentation_agent \<Rightarrow> pyval list \<Rightarrow> error + pyval list" where
  "agent_convert_coordinates_to_original self segmentation_results =
     (case agent_scale_info self of
        None \<Rightarrow> Inr segmentation_results
      | Some _ \<Rightarrow> convert_results (image_preprocessor self) segmentation_results)"


section \<open>Strings and dictionaries\<close>

text \<open>
  The characters \<open>str.strip()\<close> removes: the code points for which \<open>str.isspace\<close> holds.
\<close>

definition py_isspace :: "nat \<Rightarrow> bool" where
  "py_isspace c =
     ((0x09 \<le> c \<and> c \<le> 0x0D) \<or> (0x1C \<le> c \<and> c \<le> 0x20) \<or> c = 0x85 \<or> c = 0xA0
      \<or> c = 0x1680 \<or> (0x2000 \<le> c \<and> c \<le> 0x200A) \<or> c = 0x2028 \<or> c = 0x2029
      \<or> c = 0x202F \<or> c = 0x205F \<or> c = 0x3000)"

definition py_strip :: "pystr \<Rightarrow> pystr" where
  "py_strip s = rev (dropWhile py_isspace (rev (dropWhile py_isspace s)))"

text \<open>\<open>s.lstrip('.')\<close>\<close>

definition lstrip_dot :: "pystr \<Rightarrow> pystr" where
  "lstrip_dot s = dropWhile (\<lambda>c. c = 0x2E) s"

text \<open>
  \<open>d.get(key, default)\<close> and \<open>d[key]\<close> for a string key; \<open>get\<close> exists on a dict only, and
  only a dict is subscripted by a string.
\<close>

definition py_get :: "pyval \<Rightarrow> pystr \<Rightarrow> pyval \<Rightarrow> error + pyval" where
  "py_get d key dflt =
     (case d of
        PDict kvs \<Rightarrow> Inr (case map_of kvs key of Some v \<Rightarrow> v | None \<Rightarrow> dflt)
      | _ \<Rightarrow> Inl AttributeError)"

definition py_getitem :: "pyval \<Rightarrow> pystr \<Rightarrow> error + pyval" where
  "py_getitem d key =
     (case d of
        PDict kvs \<Rightarrow> (case map_of kvs key of Some v \<Rightarrow> Inr v | None \<Rightarrow> Inl KeyError)
      | _ \<Rightarrow> Inl TypeError)"

text \<open>The truth value of a Python value (\<open>not x\<close>, \<open>if x\<close>).\<close>

fun py_truthy :: "pyval \<Rightarrow> bool" where
  "py_truthy PNone = False"
| "py_truthy (PBool b) = b"
| "py_truthy (PInt n) = (n \<noteq> 0)"
| "py_truthy (PFloat (Finite r)) = (r \<noteq> 0)"
| "py_truthy (PFloat _) = True"
| "py_truthy (PStr s) = (s \<noteq> [])"
| "py_truthy (PList xs) = (xs \<noteq> [])"
| "py_truthy (PDict kvs) = (kvs \<noteq> [])"

text \<open>
  \<open>max(xs, key=f)\<close> and \<open>min(xs, key=f)\<close> on a non-empty list: the first element whose key
  is largest (smallest).
\<close>

definition py_max_by :: "('a \<Rightarrow> real) \<Rightarrow> 'a \<Rightarrow> 'a list \<Rightarrow> 'a" where
  "py_max_by f x xs = foldl (\<lambda>best y. if f best < f y then y else best) x xs"

definition py_min_by :: "('a \<Rightarrow> real) \<Rightarrow> 'a \<Rightarrow> 'a list \<Rightarrow> 'a" where
  "py_min_by f x xs = foldl (\<lambda>best y. if f y < f best then y else best) x xs"

section \<open>src/models/data_models.py\<close>

datatype object_category =
  CUP | SCISSORS | BOTTLE | KNIFE | FORK | SPOON | PLATE | BOWL | BOOK | PEN | PHONE | UNKNOWN

text \<open>The members' values (lines 16 to 27), as code points.\<close>

fun category_value :: "object_category \<Rightarrow> pystr" where
  "category_value CUP = [0x676F, 0x5B50]"
| "category_value SCISSORS = [0x526A, 0x5200]"
| "category_value BOTTLE = [0x74F6, 0x5B50]"
| "category_value KNIFE = [0x5200]"
| "category_value FORK = [0x53C9, 0x5B50]"
| "category_value SPOON = [0x52FA, 0x5B50]"
| "category_value PLATE = [0x76D8, 0x5B50]"
| "category_value BOWL = [0x7897]"
| "category_value BOOK = [0x4E66]"
| "category_value PEN = [0x7B14]"
| "category_value PHONE = [0x624B, 0x673A]"
| "category_value UNKNOWN = [0x672A, 0x77E5, 0x7269, 0x4F53]"

definition all_categories :: "object_category list" where
  "all_categories = [CUP, SCISSORS, BOTTLE, KNIFE, FORK, SPOON, PLATE, BOWL, BOOK, PEN, PHONE, UNKNOWN]"

text \<open>\<open>ObjectCategory(value)\<close>: the member with that value, or a ValueError.\<close>

definition ObjectCategory :: "pyval \<Rightarrow> error + object_category" where
  "ObjectCategory v =
     (case v of
        PStr s \<Rightarrow>
          (case find (\<lambda>c. category_value c = s) all_categories of
             Some c \<Rightarrow> Inr c
           | None \<Rightarrow> Inl ValueError)
      | _ \<Rightarrow> Inl ValueError)"

record bounding_box =
  bb_x1 :: int
  bb_y1 :: int
  bb_x2 :: int
  bb_y2 :: int
  bb_confidence :: real

record detected_object =
  object_id :: pystr
  obj_label :: pystr
  obj_category :: object_category
  obj_bounding_box :: bounding_box
  obj_confidence :: real
  obj_description :: "pystr option"

record scene_analysis_result =
  scene_image_path :: pystr
  scene_objects :: "detected_object list"
  total_objects :: nat
  analysis_timestamp :: pystr

record user_intent =
  raw_instruction :: pystr
  intent_type :: pystr
  target_object_id :: "pystr option"
  priority_level :: int
  safety_requirements :: "pystr list"

record functional_part =
  part_name :: pystr
  part_function :: pystr
  safety_score :: real
  ergonomic_score :: real
  grasp_priority :: int

record interaction_strategy =
  target_object :: detected_object
  target_part :: functional_part
  strategy_reasoning :: pystr
  safety_considerations :: "pystr list"
  execution_instructions :: pystr

record segmentation_mask =
  mask_array :: "int list list"
  mask_width :: int
  mask_height :: int
  mask_target_object_id :: pystr
  mask_target_part_name :: pystr
  mask_confidence :: real

record segmentation_result =
  seg_image_path :: pystr
  seg_mask :: segmentation_mask
  strategy_used :: interaction_strategy
  processing_time :: real
  success :: bool
  error_message :: "pystr option"
  output_mask_path :: "pystr option"

text \<open>What \<open>current_data\<close> of the pipeline state holds under its keys.\<close>

datatype stage_data =
    SceneData scene_analysis_result
  | IntentData user_intent
  | StrategyData interaction_strategy
  | SegmentationData segmentation_result

record processing_pipeline =
  stage :: pystr
  completed_stages :: "pystr list"
  current_data :: "(pystr \<times> stage_data) list"
  errors :: "pystr list"
  warnings :: "pystr list"

text \<open>
  The models validate their fields when they are built. The field validators of the
  modelling library are parameters; \<open>exact_types\<close> are validators that accept a value of
  exactly the declared type (and an int for a float field).
\<close>

record pydantic =
  val_int :: "pyval \<Rightarrow> int option"
  val_float :: "pyval \<Rightarrow> real option"
  val_str :: "pyval \<Rightarrow> pystr option"

definition exact_types :: pydantic where
  "exact_types =
     \<lparr>val_int = (\<lambda>v. case v of PInt n \<Rightarrow> Some n | _ \<Rightarrow> None),
      val_float = (\<lambda>v. case v of PFloat (Finite r) \<Rightarrow> Some r | PInt n \<Rightarrow> Some (of_int n) | _ \<Rightarrow> None),
      val_str = (\<lambda>v. case v of PStr s \<Rightarrow> Some s | _ \<Rightarrow> None)\<rparr>"

text \<open>
  \<open>SceneAnalysisResult(image_path=..., objects=..., analysis_timestamp=...)\<close>:
  \<open>model_post_init\<close> sets \<open>total_objects\<close> to the number of objects.
\<close>

definition SceneAnalysisResult :: "pystr \<Rightarrow> detected_object list \<Rightarrow> pystr \<Rightarrow> scene_analysis_result" where
  "SceneAnalysisResult path objs ts =
     \<lparr>scene_image_path = path, scene_objects = objs, total_objects = length objs,
      analysis_timestamp = ts\<rparr>"

text \<open>
  \<open>DetectedObject(object_id=..., label=..., category=..., bounding_box=..., confidence=...,
  description=...)\<close> on arguments already of the string and float types: \<open>category\<close> must be
  the value of a member of \<open>ObjectCategory\<close>, and \<open>bounding_box\<close>, a required field of type
  \<open>BoundingBox\<close>, must not be \<open>None\<close>; otherwise the construction raises a ValidationError.
\<close>

definition DetectedObject ::
  "pystr \<Rightarrow> pystr \<Rightarrow> pyval \<Rightarrow> bounding_box option \<Rightarrow> real \<Rightarrow> pystr option \<Rightarrow> error + detected_object" where
  "DetectedObject oid lbl cat bbox conf descr =
     (case (ObjectCategory cat, bbox) of
        (Inr c, Some b) \<Rightarrow>
          Inr \<lparr>object_id = oid, obj_label = lbl, obj_category = c, obj_bounding_box = b,
               obj_confidence = conf, obj_description = descr\<rparr>
      | _ \<Rightarrow> Inl ValidationError)"

section \<open>The literals of the pipeline and of the agents\<close>

definition name_init :: pystr where
  \<comment> \<open>the literal of pipeline.py 117\<close>
  "name_init = [0x521D, 0x59CB, 0x5316]"

definition name_scene_analysis :: pystr where
  \<comment> \<open>the literal of pipeline.py 245, 258\<close>
  "name_scene_analysis = [0x573A, 0x666F, 0x5206, 0x6790]"

definition name_strategy_planning :: pystr where
  \<comment> \<open>the literal of pipeline.py 282, 305\<close>
  "name_strategy_planning = [0x7B56, 0x7565, 0x89C4, 0x5212]"

definition name_precision_segmentation :: pystr where
  \<comment> \<open>the literal of pipeline.py 330, 345\<close>
  "name_precision_segmentation = [0x7CBE, 0x51C6, 0x5206, 0x5272]"

definition scene_analysis_failed :: pystr where
  \<comment> \<open>the literal of pipeline.py 264\<close>
  "scene_analysis_failed = [0x573A, 0x666F, 0x5206, 0x6790, 0x5931, 0x8D25, 0x3A, 0x20]"

definition strategy_planning_failed :: pystr where
  \<comment> \<open>the literal of pipeline.py 312\<close>
  "strategy_planning_failed = [0x7B56, 0x7565, 0x89C4, 0x5212, 0x5931, 0x8D25, 0x3A, 0x20]"

definition precision_segmentation_failed :: pystr where
  \<comment> \<open>the literal of pipeline.py 351\<close>
  "precision_segmentation_failed = [0x7CBE, 0x51C6, 0x5206, 0x5272, 0x5931, 0x8D25, 0x3A, 0x20]"

definition msg_input_validation_failed :: pystr where
  \<comment> \<open>the literal of pipeline.py 131\<close>
  "msg_input_validation_failed = [0x8F93, 0x5165, 0x9A8C, 0x8BC1, 0x5931, 0x8D25]"

definition msg_no_valid_strategy :: pystr where
  \<comment> \<open>the literal of pipeline.py 300\<close>
  "msg_no_valid_strategy = [0x65E0, 0x6CD5, 0x5236, 0x5B9A, 0x6709, 0x6548, 0x7684, 0x4EA4, 0x4E92, 0x7B56, 0x7565]"

definition msg_segmentation_failed :: pystr where
  \<comment> \<open>the literal of pipeline.py 340\<close>
  "msg_segmentation_failed = [0x5206, 0x5272, 0x5931, 0x8D25]"

definition txt_error :: pystr where
  \<comment> \<open>the literal of pipeline.py 167, 172, 173\<close>
  "txt_error = [0x9519, 0x8BEF]"

definition txt_unknown :: pystr where
  \<comment> \<open>the literal of pipeline.py 169\<close>
  "txt_unknown = [0x672A, 0x77E5]"

definition txt_processing_failed :: pystr where
  \<comment> \<open>the literal of pipeline.py 175\<close>
  "txt_processing_failed = [0x5904, 0x7406, 0x5931, 0x8D25]"

definition txt_cannot_execute :: pystr where
  \<comment> \<open>the literal of pipeline.py 176\<close>
  "txt_cannot_execute = [0x65E0, 0x6CD5, 0x6267, 0x884C]"

definition txt_unknown_intent :: pystr where
  \<comment> \<open>the literal of interaction_strategist.py 185\<close>
  "txt_unknown_intent = [0x672A, 0x77E5, 0x610F, 0x56FE]"

definition txt_ensure_safety :: pystr where
  \<comment> \<open>the literal of interaction_strategist.py 187\<close>
  "txt_ensure_safety = [0x786E, 0x4FDD, 0x64CD, 0x4F5C, 0x5B89, 0x5168]"

definition txt_main_body :: pystr where
  \<comment> \<open>the literal of interaction_strategist.py 342\<close>
  "txt_main_body = [0x4E3B, 0x4F53]"

definition txt_main_part :: pystr where
  \<comment> \<open>the literal of interaction_strategist.py 343\<close>
  "txt_main_part = [0x7269, 0x4F53, 0x7684, 0x4E3B, 0x8981, 0x90E8, 0x5206]"

definition intent_drink :: pystr where
  \<comment> \<open>the literal of interaction_strategist.py 311\<close>
  "intent_drink = [0x996E, 0x6C34]"

definition intent_eat :: pystr where
  \<comment> \<open>the literal of interaction_strategist.py 312\<close>
  "intent_eat = [0x7528, 0x9910]"

definition intent_cut :: pystr where
  \<comment> \<open>the literal of interaction_strategist.py 313\<close>
  "intent_cut = [0x526A, 0x5207]"

definition intent_write :: pystr where
  \<comment> \<open>the literal of interaction_strategist.py 314\<close>
  "intent_write = [0x5199, 0x4F5C]"

definition intent_read :: pystr where
  \<comment> \<open>the literal of interaction_strategist.py 315\<close>
  "intent_read = [0x9605, 0x8BFB]"

definition intent_call :: pystr where
  \<comment> \<open>the literal of interaction_strategist.py 316\<close>
  "intent_call = [0x901A, 0x8BAF]"


section \<open>src/agents/scene_analyst.py\<close>

text \<open>
  The exceptions of the pipeline code: \<open>Exception(message)\<close>, raised by the repository's
  code, or an exception of a library class. Every handler is \<open>except Exception\<close> and reads
  \<open>str(e)\<close> only.
\<close>

datatype exc = Exception pystr | Raised error

text \<open>
  A call whose exception is caught, logged and dropped by the caller either raises or
  returns.
\<close>

datatype 'a attempt = Raises | Returns 'a

text \<open>
  What the scene analyst uses of its image processor, its vision tool and the clock.
\<close>

record 'img analyst_env =
  load_image :: "pystr \<Rightarrow> 'img option attempt"
  validate_image_quality :: "'img \<Rightarrow> pyval attempt"
  detect_objects :: "pystr \<Rightarrow> pyval attempt"
  timestamp :: pystr
  validators :: pydantic

text \<open>
  The body of the inner \<open>try\<close> of \<open>analyze_scene\<close> for one \<open>obj_data\<close>: \<open>None\<close> when any
  step raises (the item is skipped).
\<close>

definition parse_bounding_box :: "pydantic \<Rightarrow> pyval \<Rightarrow> bounding_box option" where
  "parse_bounding_box pyd bbox_data =
     (case (py_getitem bbox_data (asc ''x1''), py_getitem bbox_data (asc ''y1''),
            py_getitem bbox_data (asc ''x2''), py_getitem bbox_data (asc ''y2''),
            py_get bbox_data (asc ''confidence'') (PFloat (Finite 1))) of
        (Inr vx1, Inr vy1, Inr vx2, Inr vy2, Inr vc) \<Rightarrow>
          (case (val_int pyd vx1, val_int pyd vy1, val_int pyd vx2, val_int pyd vy2, val_float pyd vc) of
             (Some a, Some b, Some c, Some d, Some cf) \<Rightarrow>
               Some \<lparr>bb_x1 = a, bb_y1 = b, bb_x2 = c, bb_y2 = d, bb_confidence = cf\<rparr>
           | _ \<Rightarrow> None)
      | _ \<Rightarrow> None)"

definition parse_object :: "pydantic \<Rightarrow> pyval \<Rightarrow> detected_object option" where
  "parse_object pyd obj_data =
     (case py_getitem obj_data (asc ''bounding_box'') of
        Inl _ \<Rightarrow> None
      | Inr bbox_data \<Rightarrow>
          (case parse_bounding_box pyd bbox_data of
             None \<Rightarrow> None
           | Some bbox \<Rightarrow>
               (case py_get obj_data (asc ''category'') (PStr (category_value UNKNOWN)) of
                  Inl _ \<Rightarrow> None
                | Inr cat \<Rightarrow>
                    (case ObjectCategory cat of
                       Inl _ \<Rightarrow> None
                     | Inr category \<Rightarrow>
                         (case (py_getitem obj_data (asc ''object_id''),
                                py_getitem obj_data (asc ''label''),
                                py_get obj_data (asc ''confidence'') (PFloat (Finite 1)),
                                py_get obj_data (asc ''description'') PNone) of
                            (Inr voi, Inr vl, Inr vc, Inr vd) \<Rightarrow>
                              (case (val_str pyd voi, val_str pyd vl, val_float pyd vc,
                                     (if vd = PNone then Some None else map_option Some (val_str pyd vd))) of
                                 (Some oid, Some lbl, Some conf, Some descr) \<Rightarrow>
                                   (case DetectedObject oid lbl (PStr (category_value category))
                                           (Some bbox) conf descr of
                                      Inl _ \<Rightarrow> None
                                    | Inr detected_obj \<Rightarrow> Some detected_obj)
                               | _ \<Rightarrow> None)
                          | _ \<Rightarrow> None)))))"

text \<open>The loop over the detected items: an item that fails to parse is skipped.\<close>

fun parse_objects :: "pydantic \<Rightarrow> pyval list \<Rightarrow> detected_object list" where
  "parse_objects pyd [] = []"
| "parse_objects pyd (obj_data # rest) =
     (case parse_object pyd obj_data of
        None \<Rightarrow> parse_objects pyd rest
      | Some detected_obj \<Rightarrow> detected_obj # parse_objects pyd rest)"

text \<open>
  The body of the outer \<open>try\<close> of \<open>analyze_scene\<close>: it raises when the image cannot be
  loaded, when a helper raises, when the detection does not report success, or when the
  detection result has not the shape of a dict with a list of objects.
\<close>

definition analyze_scene_body :: "'img analyst_env \<Rightarrow> pystr \<Rightarrow> scene_analysis_result attempt" where
  "analyze_scene_body env image_path =
     (case load_image env image_path of
        Raises \<Rightarrow> Raises
      | Returns None \<Rightarrow> Raises
      | Returns (Some img) \<Rightarrow>
          (case validate_image_quality env img of
             Raises \<Rightarrow> Raises
           | Returns quality_info \<Rightarrow>
               (case py_get quality_info (asc ''is_good_quality'') (PBool False) of
                  Inl _ \<Rightarrow> Raises
                | Inr _ \<Rightarrow>
                    (case detect_objects env image_path of
                       Raises \<Rightarrow> Raises
                     | Returns detection_result \<Rightarrow>
                         (case py_get detection_result (asc ''success'') (PBool False) of
                            Inl _ \<Rightarrow> Raises
                          | Inr ok \<Rightarrow>
                              if \<not> py_truthy ok then Raises
                              else
                                (case py_get detection_result (asc ''objects'') (PList []) of
                                   Inl _ \<Rightarrow> Raises
                                 | Inr objs \<Rightarrow>
                                     (case py_iter objs of
                                        Inl _ \<Rightarrow> Raises
                                      | Inr items \<Rightarrow>
                                          Returns (SceneAnalysisResult image_path
                                                     (parse_objects (validators env) items)
                                                     (timestamp env)))))))))"

text \<open>
  \<open>analyze_scene\<close>: the handler of the outer \<open>try\<close> logs the exception and returns a result
  with no objects.
\<close>

definition analyze_scene :: "'img analyst_env \<Rightarrow> pystr \<Rightarrow> exc + scene_analysis_result" where
  "analyze_scene env image_path =
     (case analyze_scene_body env image_path of
        Returns scene_result \<Rightarrow> Inr scene_result
      | Raises \<Rightarrow> Inr (SceneAnalysisResult image_path [] (timestamp env)))"

section \<open>src/agents/interaction_strategist.py\<close>

text \<open>
  What the strategist uses from outside: the knowledge table built at construction, the
  language model behind \<open>analyze_user_intent\<close> (prompt, call and parsing of the answer,
  which raises or gives an intent), and the three texts it formats for a strategy.
\<close>

record strategist_env =
  functional_parts_knowledge :: "object_category \<Rightarrow> functional_part list"
  ask_intent :: "pystr \<Rightarrow> scene_analysis_result \<Rightarrow> user_intent attempt"
  reasoning_text :: "user_intent \<Rightarrow> detected_object \<Rightarrow> functional_part \<Rightarrow> pystr"
  safety_text :: "detected_object \<Rightarrow> functional_part \<Rightarrow> pystr list"
  instructions_text :: "detected_object \<Rightarrow> functional_part \<Rightarrow> pystr"

definition default_intent :: "pystr \<Rightarrow> user_intent" where
  "default_intent instruction =
     \<lparr>raw_instruction = instruction, intent_type = txt_unknown_intent, target_object_id = None,
      priority_level = 1, safety_requirements = [txt_ensure_safety]\<rparr>"

text \<open>
  \<open>analyze_user_intent\<close>: after the answer is parsed into a \<open>UserIntent\<close>, the log line
  subscripts that model object (\<open>intent_data['intent_type']\<close>), which raises a TypeError;
  the handler returns the default intent, as it does for every other exception.
\<close>

definition analyze_user_intent_body :: "strategist_env \<Rightarrow> pystr \<Rightarrow> scene_analysis_result \<Rightarrow> user_intent attempt" where
  "analyze_user_intent_body env instruction scene_result =
     (case ask_intent env instruction scene_result of
        Raises \<Rightarrow> Raises
      | Returns intent_data \<Rightarrow> Raises)"

definition analyze_user_intent :: "strategist_env \<Rightarrow> pystr \<Rightarrow> scene_analysis_result \<Rightarrow> exc + user_intent" where
  "analyze_user_intent env instruction scene_result =
     (case analyze_user_intent_body env instruction scene_result of
        Returns intent_data \<Rightarrow> Inr intent_data
      | Raises \<Rightarrow> Inr (default_intent instruction))"

definition intent_to_category :: "(pystr \<times> object_category list) list" where
  "intent_to_category =
     [(intent_drink, [CUP, BOTTLE]),
      (intent_eat, [FORK, SPOON, KNIFE]),
      (intent_cut, [SCISSORS]),
      (intent_write, [PEN]),
      (intent_read, [BOOK]),
      (intent_call, [PHONE])]"

text \<open>The two nested loops of \<open>_select_target_object\<close>.\<close>

fun first_of_categories :: "object_category list \<Rightarrow> detected_object list \<Rightarrow> detected_object option" where
  "first_of_categories [] objs = None"
| "first_of_categories (category # rest) objs =
     (case find (\<lambda>obj. obj_category obj = category) objs of
        Some obj \<Rightarrow> Some obj
      | None \<Rightarrow> first_of_categories rest objs)"

definition select_target_object :: "user_intent \<Rightarrow> scene_analysis_result \<Rightarrow> detected_object option" where
  "select_target_object user_intent scene_result =
     (case (case target_object_id user_intent of
              None \<Rightarrow> None
            | Some tid \<Rightarrow>
                if tid = [] then None
                else find (\<lambda>obj. object_id obj = tid) (scene_objects scene_result)) of
        Some obj \<Rightarrow> Some obj
      | None \<Rightarrow>
          (let target_categories =
                 (case map_of intent_to_category (intent_type user_intent) of
                    Some cs \<Rightarrow> cs
                  | None \<Rightarrow> [])
           in case first_of_categories target_categories (scene_objects scene_result) of
                Some obj \<Rightarrow> Some obj
              | None \<Rightarrow>
                  (case scene_objects scene_result of
                     [] \<Rightarrow> None
                   | obj # objs \<Rightarrow> Some (py_max_by obj_confidence obj objs))))"

definition select_functional_part ::
  "strategist_env \<Rightarrow> detected_object \<Rightarrow> user_intent \<Rightarrow> functional_part option" where
  "select_functional_part env target user_intent =
     (let available_parts = functional_parts_knowledge env (obj_category target)
      in if available_parts = []
         then Some \<lparr>part_name = txt_main_body, part_function = txt_main_part,
                    safety_score = 0.7, ergonomic_score = 0.7, grasp_priority = 1\<rparr>
         else
           (case filter (\<lambda>part. 0.5 < safety_score part) available_parts of
              part # parts \<Rightarrow> Some (py_min_by (\<lambda>x. of_int (grasp_priority x)) part parts)
            | [] \<Rightarrow> Some (py_max_by safety_score (hd available_parts) (tl available_parts))))"

text \<open>
  \<open>create_interaction_strategy\<close>: \<open>None\<close> when no target object or no part is found. The
  steps of its \<open>try\<close> do not raise.
\<close>

definition create_interaction_strategy ::
  "strategist_env \<Rightarrow> user_intent \<Rightarrow> scene_analysis_result \<Rightarrow> exc + interaction_strategy option" where
  "create_interaction_strategy env user_intent scene_result =
     (case select_target_object user_intent scene_result of
        None \<Rightarrow> Inr None
      | Some target \<Rightarrow>
          (case select_functional_part env target user_intent of
             None \<Rightarrow> Inr None
           | Some part \<Rightarrow>
               Inr (Some \<lparr>target_object = target, target_part = part,
                          strategy_reasoning = reasoning_text env user_intent target part,
                          safety_considerations = safety_text env target part,
                          execution_instructions = instructions_text env target part\<rparr>)))"

section \<open>src/core/pipeline.py\<close>

text \<open>
  The three agents as the pipeline calls them (each call returns or raises), and what
  \<open>_validate_inputs\<close> and the handlers use from outside: the file system, the path and
  string library, the configured formats, and the text \<open>str(e)\<close> of a library exception.
\<close>

record agents =
  ag_analyze_scene :: "pystr \<Rightarrow> exc + scene_analysis_result"
  ag_analyze_user_intent :: "pystr \<Rightarrow> scene_analysis_result \<Rightarrow> exc + user_intent"
  ag_create_interaction_strategy ::
    "user_intent \<Rightarrow> scene_analysis_result \<Rightarrow> exc + interaction_strategy option"
  ag_segment_target_part :: "pystr \<Rightarrow> interaction_strategy \<Rightarrow> exc + segmentation_result"

record pipeline_env =
  path_exists :: "pystr \<Rightarrow> bool attempt"
  path_is_file :: "pystr \<Rightarrow> bool attempt"
  path_suffix :: "pystr \<Rightarrow> pystr"
  str_lower :: "pystr \<Rightarrow> pystr"
  supported_formats :: "pystr list"
  error_text :: "error \<Rightarrow> pystr"

definition exc_str :: "pipeline_env \<Rightarrow> exc \<Rightarrow> pystr" where
  "exc_str env e = (case e of Exception msg \<Rightarrow> msg | Raised k \<Rightarrow> error_text env k)"

definition validate_inputs :: "pipeline_env \<Rightarrow> pystr \<Rightarrow> pystr \<Rightarrow> bool" where
  "validate_inputs env image_path user_instruction =
     (case path_exists env image_path of
        Raises \<Rightarrow> False
      | Returns ex \<Rightarrow>
          if \<not> ex then False
          else
            (case path_is_file env image_path of
               Raises \<Rightarrow> False
             | Returns is_file \<Rightarrow>
                 if \<not> is_file then False
                 else if lstrip_dot (str_lower env (path_suffix env image_path))
                           \<notin> set (supported_formats env) then False
                 else if user_instruction = [] \<or> py_strip user_instruction = [] then False
                 else True))"

definition init_pipeline :: processing_pipeline where
  "init_pipeline =
     \<lparr>stage = name_init, completed_stages = [], current_data = [], errors = [], warnings = []\<rparr>"

text \<open>
  Each stage sets \<open>pipeline.stage\<close> on entry; on success it appends its name to
  \<open>completed_stages\<close> and stores its output; on an exception it appends the message to
  \<open>errors\<close> and raises the exception again.
\<close>

definition stage_scene_analysis ::
  "pipeline_env \<Rightarrow> agents \<Rightarrow> pystr \<Rightarrow> processing_pipeline
     \<Rightarrow> (exc + scene_analysis_result) \<times> processing_pipeline" where
  "stage_scene_analysis env ags image_path pipeline =
     (let pl = pipeline\<lparr>stage := name_scene_analysis\<rparr>
      in case ag_analyze_scene ags image_path of
           Inr scene_result \<Rightarrow>
             (Inr scene_result,
              pl\<lparr>completed_stages := completed_stages pl @ [name_scene_analysis],
                 current_data := AList.update (asc ''scene_result'') (SceneData scene_result)
                                   (current_data pl)\<rparr>)
         | Inl e \<Rightarrow> (Inl e, pl\<lparr>errors := errors pl @ [scene_analysis_failed @ exc_str env e]\<rparr>))"

definition stage_strategy_planning ::
  "pipeline_env \<Rightarrow> agents \<Rightarrow> pystr \<Rightarrow> scene_analysis_result \<Rightarrow> processing_pipeline
     \<Rightarrow> (exc + interaction_strategy) \<times> processing_pipeline" where
  "stage_strategy_planning env ags user_instruction scene_result pipeline =
     (let pl = pipeline\<lparr>stage := name_strategy_planning\<rparr>;
          body =
            (case ag_analyze_user_intent ags user_instruction scene_result of
               Inl e \<Rightarrow> Inl e
             | Inr user_intent \<Rightarrow>
                 (case ag_create_interaction_strategy ags user_intent scene_result of
                    Inl e \<Rightarrow> Inl e
                  | Inr None \<Rightarrow> Inl (Exception msg_no_valid_strategy)
                  | Inr (Some strategy) \<Rightarrow> Inr (user_intent, strategy)))
      in case body of
           Inr (user_intent, strategy) \<Rightarrow>
             (Inr strategy,
              pl\<lparr>completed_stages := completed_stages pl @ [name_strategy_planning],
                 current_data := AList.update (asc ''strategy'') (StrategyData strategy)
                                   (AList.update (asc ''user_intent'') (IntentData user_intent)
                                      (current_data pl))\<rparr>)
         | Inl e \<Rightarrow> (Inl e, pl\<lparr>errors := errors pl @ [strategy_planning_failed @ exc_str env e]\<rparr>))"

definition stage_precision_segmentation ::
  "pipeline_env \<Rightarrow> agents \<Rightarrow> pystr \<Rightarrow> interaction_strategy \<Rightarrow> processing_pipeline
     \<Rightarrow> (exc + segmentation_result) \<times> processing_pipeline" where
  "stage_precision_segmentation env ags image_path strategy pipeline =
     (let pl = pipeline\<lparr>stage := name_precision_segmentation\<rparr>;
          body =
            (case ag_segment_target_part ags image_path strategy of
               Inl e \<Rightarrow> Inl e
             | Inr segmentation_result \<Rightarrow>
                 if \<not> success segmentation_result
                 then Inl (Exception (case error_message segmentation_result of
                                        None \<Rightarrow> msg_segmentation_failed
                                      | Some m \<Rightarrow> if m = [] then msg_segmentation_failed else m))
                 else Inr segmentation_result)
      in case body of
           Inr segmentation_result \<Rightarrow>
             (Inr segmentation_result,
              pl\<lparr>completed_stages := completed_stages pl @ [name_precision_segmentation],
                 current_data := AList.update (asc ''segmentation_result'')
                                   (SegmentationData segmentation_result) (current_data pl)\<rparr>)
         | Inl e \<Rightarrow>
             (Inl e, pl\<lparr>errors := errors pl @ [precision_segmentation_failed @ exc_str env e]\<rparr>))"

text \<open>The body of the \<open>try\<close> of \<open>process\<close>: the validation, then the three stages in order.\<close>

definition run_stages ::
  "pipeline_env \<Rightarrow> agents \<Rightarrow> pystr \<Rightarrow> pystr \<Rightarrow> processing_pipeline
     \<Rightarrow> (exc + segmentation_result) \<times> processing_pipeline" where
  "run_stages env ags image_path user_instruction pipeline =
     (if \<not> validate_inputs env image_path user_instruction
      then (Inl (Exception msg_input_validation_failed), pipeline)
      else
        (case stage_scene_analysis env ags image_path pipeline of
           (Inl e, pl1) \<Rightarrow> (Inl e, pl1)
         | (Inr scene_result, pl1) \<Rightarrow>
             (case stage_strategy_planning env ags user_instruction scene_result pl1 of
                (Inl e, pl2) \<Rightarrow> (Inl e, pl2)
              | (Inr strategy, pl2) \<Rightarrow>
                  stage_precision_segmentation env ags image_path strategy pl2)))"

text \<open>
  The handler of \<open>process\<close>. The result it builds from the image path, the elapsed time
  and the message, given the placeholder target object:
\<close>

definition failure_result :: "pystr \<Rightarrow> real \<Rightarrow> pystr \<Rightarrow> detected_object \<Rightarrow> segmentation_result" where
  "failure_result image_path total_time msg dummy_object =
     \<lparr>seg_image_path = image_path,
      seg_mask = \<lparr>mask_array = [], mask_width = 0, mask_height = 0,
                  mask_target_object_id = asc ''error'', mask_target_part_name = asc ''error'',
                  mask_confidence = 1\<rparr>,
      strategy_used =
        \<lparr>target_object = dummy_object,
         target_part = \<lparr>part_name = txt_error, part_function = txt_error, safety_score = 1,
                        ergonomic_score = 1, grasp_priority = 1\<rparr>,
         strategy_reasoning = txt_processing_failed,
         safety_considerations = [],
         execution_instructions = txt_cannot_execute\<rparr>,
      processing_time = total_time,
      success = False,
      error_message = Some msg,
      output_mask_path = None\<rparr>"

text \<open>
  The placeholder target object is built first, by
  \<open>DetectedObject(object_id="error", label=..., bounding_box=None, category=...)\<close>; an
  exception of that construction leaves \<open>process\<close>.
\<close>

definition report_failure :: "pystr \<Rightarrow> real \<Rightarrow> pystr \<Rightarrow> exc + segmentation_result" where
  "report_failure image_path total_time msg =
     (case DetectedObject (asc ''error'') txt_error (PStr txt_unknown) None 1 None of
        Inl k \<Rightarrow> Inl (Raised k)
      | Inr dummy_object \<Rightarrow> Inr (failure_result image_path total_time msg dummy_object))"

text \<open>
  \<open>process\<close>, with the elapsed time the clock gives: what it returns or raises, and the
  pipeline state at the end of the run.
\<close>

definition process ::
  "pipeline_env \<Rightarrow> agents \<Rightarrow> pystr \<Rightarrow> pystr \<Rightarrow> real
     \<Rightarrow> (exc + segmentation_result) \<times> processing_pipeline" where
  "process env ags image_path user_instruction total_time =
     (case run_stages env ags image_path user_instruction init_pipeline of
        (Inr segmentation_result, pl) \<Rightarrow> (Inr segmentation_result, pl)
      | (Inl e, pl) \<Rightarrow> (report_failure image_path total_time (exc_str env e), pl))"

text \<open>The pipeline with the repository's scene analyst and strategist.\<close>

definition repo_agents ::
  "'img analyst_env \<Rightarrow> strategist_env
     \<Rightarrow> (pystr \<Rightarrow> interaction_strategy \<Rightarrow> exc + segmentation_result) \<Rightarrow> agents" where
  "repo_agents aenv senv segmenter =
     \<lparr>ag_analyze_scene = analyze_scene aenv,
      ag_analyze_user_intent = analyze_user_intent senv,
      ag_create_interaction_strategy = create_interaction_strategy senv,
      ag_segment_target_part = segmenter\<rparr>"



section \<open>The standard library's JSON decoder\<close>

text \<open>
  \<open>json.loads\<close> on a \<open>str\<close>, following the grammar its scanner accepts: the
  four whitespace characters, objects, arrays, strings with escapes (strict mode: no
  control character in a string), numbers, \<open>true\<close>, \<open>false\<close>, \<open>null\<close>, and the constants
  \<open>NaN\<close>, \<open>Infinity\<close> and \<open>-Infinity\<close>. The text is cut into tokens, then the tokens are
  parsed with a stack of open containers.
\<close>

definition is_json_ws :: "nat \<Rightarrow> bool" where
  "is_json_ws c = (c = 0x20 \<or> c = 0x09 \<or> c = 0x0A \<or> c = 0x0D)"

definition is_digit :: "nat \<Rightarrow> bool" where
  "is_digit c = (0x30 \<le> c \<and> c \<le> 0x39)"

definition digits_value :: "pystr \<Rightarrow> nat" where
  "digits_value ds = foldl (\<lambda>a c. 10 * a + (c - 0x30)) 0 ds"

definition hex_digit :: "nat \<Rightarrow> nat option" where
  "hex_digit c =
     (if 0x30 \<le> c \<and> c \<le> 0x39 then Some (c - 0x30)
      else if 0x41 \<le> c \<and> c \<le> 0x46 then Some (c - 0x41 + 10)
      else if 0x61 \<le> c \<and> c \<le> 0x66 then Some (c - 0x61 + 10)
      else None)"

text \<open>The four hexadecimal digits of a \<open>\uXXXX\<close> escape: the code unit and the rest.\<close>

fun hex4 :: "pystr \<Rightarrow> (nat \<times> pystr) option" where
  "hex4 (a # b # c # d # rest) =
     (case (hex_digit a, hex_digit b, hex_digit c, hex_digit d) of
        (Some x, Some y, Some z, Some w) \<Rightarrow> Some (((x * 16 + y) * 16 + z) * 16 + w, rest)
      | _ \<Rightarrow> None)"
| "hex4 _ = None"

text \<open>The character a one-letter escape denotes.\<close>

definition unescape :: "nat \<Rightarrow> nat option" where
  "unescape e =
     (if e = 0x22 then Some 0x22
      else if e = 0x5C then Some 0x5C
      else if e = 0x2F then Some 0x2F
      else if e = 0x62 then Some 0x08
      else if e = 0x66 then Some 0x0C
      else if e = 0x6E then Some 0x0A
      else if e = 0x72 then Some 0x0D
      else if e = 0x74 then Some 0x09
      else None)"

text \<open>
  A \<open>\uXXXX\<close> escape, after the \<open>u\<close>: a high surrogate followed by an escaped low surrogate
  is one character.
\<close>

definition unicode_escape :: "pystr \<Rightarrow> (nat \<times> pystr) option" where
  "unicode_escape cs =
     (case hex4 cs of
        None \<Rightarrow> None
      | Some (uni, rest) \<Rightarrow>
          if 0xD800 \<le> uni \<and> uni \<le> 0xDBFF
          then (case rest of
                  b # u # rest2 \<Rightarrow>
                    if b = 0x5C \<and> u = 0x75
                    then (case hex4 rest2 of
                            None \<Rightarrow> None
                          | Some (uni2, rest3) \<Rightarrow>
                              if 0xDC00 \<le> uni2 \<and> uni2 \<le> 0xDFFF
                              then Some (0x10000 + (uni - 0xD800) * 0x400 + (uni2 - 0xDC00), rest3)
                              else Some (uni, rest))
                    else Some (uni, rest)
                | _ \<Rightarrow> Some (uni, rest))
          else Some (uni, rest))"

lemma hex4_length: "hex4 cs = Some (u, rest) \<Longrightarrow> length rest < length cs"
  by (induction cs rule: hex4.induct) (auto split: option.splits)

lemma unicode_escape_length: "unicode_escape cs = Some (u, rest) \<Longrightarrow> length rest < length cs"
  by (auto simp: unicode_escape_def split: option.splits if_splits list.splits dest!: hex4_length)

text \<open>
  The body of a string, after the opening quote: the decoded characters (collected in
  reverse) and the text after the closing quote.
\<close>

function scan_string :: "pystr \<Rightarrow> pystr \<Rightarrow> (pystr \<times> pystr) option" where
  "scan_string [] acc = None"
| "scan_string (c # cs) acc =
     (if c = 0x22 then Some (rev acc, cs)
      else if c = 0x5C then
        (case cs of
           [] \<Rightarrow> None
         | e # cs' \<Rightarrow>
             if e = 0x75
             then (case unicode_escape cs' of
                     None \<Rightarrow> None
                   | Some (uni, rest) \<Rightarrow> scan_string rest (uni # acc))
             else (case unescape e of
                     None \<Rightarrow> None
                   | Some ch \<Rightarrow> scan_string cs' (ch # acc)))
      else if c < 0x20 then None
      else scan_string cs (c # acc))"
  by pat_completeness auto
termination
  by (relation "measure (\<lambda>(cs, acc). length cs)") (auto dest: unicode_escape_length)



lemma scan_string_length: "scan_string cs acc = Some (s, rest) \<Longrightarrow> length rest < length cs"
proof (induction cs acc rule: scan_string.induct)
  case (1 acc)
  then show ?case by simp
next
  case (2 c cs acc)
  show ?case
  proof (cases "c = 0x22")
    case True
    then show ?thesis using "2.prems" by simp
  next
    case q: False
    show ?thesis
    proof (cases "c = 0x5C")
      case True
      then obtain e cs' where cs: "cs = e # cs'"
        using "2.prems" q by (cases cs) auto
      show ?thesis
      proof (cases "e = 0x75")
        case u: True
        then obtain uni r where ue: "unicode_escape cs' = Some (uni, r)"
          and sr: "scan_string r (uni # acc) = Some (s, rest)"
          using "2.prems" q True cs by (auto split: option.splits)
        have "length rest < length r"
          using "2.IH"(1) [OF q True cs u ue refl sr] .
        moreover have "length r < length cs'" using unicode_escape_length [OF ue] .
        ultimately show ?thesis using cs by simp
      next
        case nu: False
        then obtain ch where ue: "unescape e = Some ch"
          and sr: "scan_string cs' (ch # acc) = Some (s, rest)"
          using "2.prems" q True cs by (auto split: option.splits)
        have "length rest < length cs'"
          using "2.IH"(2) [OF q True cs nu ue sr] .
        then show ?thesis using cs by simp
      qed
    next
      case b: False
      then have c20: "\<not> c < 0x20" and sr: "scan_string cs (c # acc) = Some (s, rest)"
        using "2.prems" q by (auto split: if_splits)
      have "length rest < length cs" using "2.IH"(3) [OF q b c20 sr] .
      then show ?thesis by simp
    qed
  qed
qed


text \<open>
  A number, by the scanner's pattern \<open>-?(0|[1-9][0-9]*)(\.[0-9]+)?([eE][-+]?[0-9]+)?\<close>:
  without fraction and exponent it is an int, otherwise a float: the decimal value rounded
  to the nearest double, an infinity when that is beyond the largest double.
\<close>

definition scan_int_part :: "pystr \<Rightarrow> (pystr \<times> pystr) option" where
  "scan_int_part cs =
     (case cs of
        [] \<Rightarrow> None
      | c # r \<Rightarrow>
          if c = 0x30 then Some ([c], r)
          else if is_digit c then Some (takeWhile is_digit cs, dropWhile is_digit cs)
          else None)"

definition scan_frac :: "pystr \<Rightarrow> pystr \<times> pystr" where
  "scan_frac cs =
     (case cs of
        [] \<Rightarrow> ([], cs)
      | c # r \<Rightarrow>
          if c = 0x2E \<and> takeWhile is_digit r \<noteq> []
          then (takeWhile is_digit r, dropWhile is_digit r)
          else ([], cs))"

definition scan_exp :: "pystr \<Rightarrow> int option \<times> pystr" where
  "scan_exp cs =
     (case cs of
        [] \<Rightarrow> (None, cs)
      | c # r \<Rightarrow>
          if c = 0x65 \<or> c = 0x45
          then
            (let (neg, r2) =
                   (case r of
                      [] \<Rightarrow> (False, r)
                    | sg # r' \<Rightarrow>
                        if sg = 0x2D then (True, r')
                        else if sg = 0x2B then (False, r')
                        else (False, r))
             in if takeWhile is_digit r2 = [] then (None, cs)
                else (Some ((if neg then - 1 else 1) * int (digits_value (takeWhile is_digit r2))),
                      dropWhile is_digit r2))
          else (None, cs))"

definition scale10 :: "real \<Rightarrow> int \<Rightarrow> real" where
  "scale10 m e = (if 0 \<le> e then m * 10 ^ nat e else m / 10 ^ nat (- e))"

definition scan_number :: "pystr \<Rightarrow> (pyval \<times> pystr) option" where
  "scan_number cs =
     (let (neg, cs1) =
            (case cs of
               [] \<Rightarrow> (False, cs)
             | c # r \<Rightarrow> if c = 0x2D then (True, r) else (False, cs))
      in case scan_int_part cs1 of
           None \<Rightarrow> None
         | Some (ip, cs2) \<Rightarrow>
             (let (fp, cs3) = scan_frac cs2;
                  (ex, cs4) = scan_exp cs3
              in if fp = [] \<and> ex = None
                 then Some (PInt ((if neg then - 1 else 1) * int (digits_value ip)), cs4)
                 else Some (PFloat (float_of_real
                              ((if neg then - 1 else 1)
                               * scale10 (of_nat (digits_value ip)
                                          + of_nat (digits_value fp) / 10 ^ length fp)
                                   (case ex of None \<Rightarrow> 0 | Some e \<Rightarrow> e))),
                            cs4)))"

text \<open>The literal names.\<close>

definition strip_prefix :: "pystr \<Rightarrow> pystr \<Rightarrow> pystr option" where
  "strip_prefix p cs = (if take (length p) cs = p then Some (drop (length p) cs) else None)"

definition literals :: "(pystr \<times> pyval) list" where
  "literals =
     [(asc ''null'', PNone), (asc ''true'', PBool True), (asc ''false'', PBool False),
      (asc ''NaN'', PFloat NaN), (asc ''Infinity'', PFloat PosInf),
      (asc ''-Infinity'', PFloat NegInf)]"

fun scan_literal_of :: "(pystr \<times> pyval) list \<Rightarrow> pystr \<Rightarrow> (pyval \<times> pystr) option" where
  "scan_literal_of [] cs = None"
| "scan_literal_of ((p, v) # others) cs =
     (case strip_prefix p cs of
        Some rest \<Rightarrow> (if p = [] then None else Some (v, rest))
      | None \<Rightarrow> scan_literal_of others cs)"

definition scan_atom :: "pystr \<Rightarrow> (pyval \<times> pystr) option" where
  "scan_atom cs =
     (case scan_literal_of literals cs of
        Some r \<Rightarrow> Some r
      | None \<Rightarrow> scan_number cs)"

lemma scan_int_part_length: "scan_int_part cs = Some (ip, r) \<Longrightarrow> length r < length cs"
proof -
  assume a: "scan_int_part cs = Some (ip, r)"
  then obtain c t where cs: "cs = c # t" by (cases cs) (auto simp: scan_int_part_def)
  show ?thesis
  proof (cases "c = 0x30")
    case True
    then show ?thesis using a cs by (simp add: scan_int_part_def)
  next
    case False
    then have d: "is_digit c" and r: "r = dropWhile is_digit t"
      using a cs by (auto simp: scan_int_part_def split: if_splits)
    have "length (dropWhile is_digit t) \<le> length t" by (rule length_dropWhile_le)
    then show ?thesis using r cs by simp
  qed
qed

lemma scan_frac_length: "length (snd (scan_frac cs)) \<le> length cs"
proof (cases cs)
  case Nil
  then show ?thesis by (simp add: scan_frac_def)
next
  case (Cons c r)
  have "length (dropWhile is_digit r) \<le> length r" by (rule length_dropWhile_le)
  then show ?thesis using Cons by (simp add: scan_frac_def)
qed

lemma scan_exp_length: "length (snd (scan_exp cs)) \<le> length cs"
proof (cases cs)
  case Nil
  then show ?thesis by (simp add: scan_exp_def)
next
  case (Cons c r)
  have 1: "length (dropWhile is_digit r) \<le> length r" by (rule length_dropWhile_le)
  have 2: "\<And>r'. length (dropWhile is_digit r') \<le> length r'" by (rule length_dropWhile_le)
  show ?thesis
  proof (cases r)
    case Nil
    then show ?thesis using Cons by (simp add: scan_exp_def)
  next
    case (Cons sg r')
    have "length (dropWhile is_digit r') \<le> length r'" by (rule length_dropWhile_le)
    then show ?thesis using \<open>cs = c # r\<close> Cons 1
      by (simp add: scan_exp_def Let_def)
  qed
qed

lemma scan_number_length: "scan_number cs = Some (v, rest) \<Longrightarrow> length rest < length cs"
proof -
  assume a: "scan_number cs = Some (v, rest)"
  define cs1 where "cs1 = snd (case cs of [] \<Rightarrow> (False, cs) | c # r \<Rightarrow> if c = 0x2D then (True, r) else (False, cs))"
  have l1: "length cs1 \<le> length cs" by (cases cs) (simp_all add: cs1_def)
  obtain ip cs2 where ip: "scan_int_part cs1 = Some (ip, cs2)"
    using a by (auto simp: scan_number_def cs1_def Let_def split: prod.splits option.splits list.splits if_splits)
  have l2: "length cs2 < length cs1" by (rule scan_int_part_length [OF ip])
  have r: "rest = snd (scan_exp (snd (scan_frac cs2)))"
    using a ip by (auto simp: scan_number_def cs1_def Let_def split: prod.splits option.splits list.splits if_splits)
  have "length rest \<le> length cs2"
    using scan_exp_length [of "snd (scan_frac cs2)"] scan_frac_length [of cs2] r by simp
  then show ?thesis using l1 l2 by simp
qed

lemma scan_literal_of_length:
  "scan_literal_of ps cs = Some (v, rest) \<Longrightarrow> length rest < length cs"
proof (induction ps)
  case Nil
  then show ?case by simp
next
  case (Cons pv ps)
  obtain p w where pv: "pv = (p, w)" by (cases pv)
  show ?case
  proof (cases "strip_prefix p cs")
    case None
    then show ?thesis using Cons pv by simp
  next
    case (Some r)
    then have pne: "p \<noteq> []" and rr: "rest = r" using Cons.prems pv by (auto split: if_splits)
    have "take (length p) cs = p" and "r = drop (length p) cs"
      using Some by (auto simp: strip_prefix_def split: if_splits)
    then have "cs \<noteq> []" and "length r = length cs - length p" using pne by auto
    then show ?thesis using pne rr by (cases p) auto
  qed
qed

lemma scan_atom_length: "scan_atom cs = Some (v, rest) \<Longrightarrow> length rest < length cs"
  by (auto simp: scan_atom_def split: option.splits dest: scan_literal_of_length scan_number_length)

text \<open>The tokens of a text; \<open>None\<close> when some character starts no token.\<close>

datatype token = TLBrace | TRBrace | TLBracket | TRBracket | TComma | TColon | TValue pyval

function lex :: "pystr \<Rightarrow> token list option" where
  "lex [] = Some []"
| "lex (c # cs) =
     (if is_json_ws c then lex cs
      else if c = 0x7B then map_option (Cons TLBrace) (lex cs)
      else if c = 0x7D then map_option (Cons TRBrace) (lex cs)
      else if c = 0x5B then map_option (Cons TLBracket) (lex cs)
      else if c = 0x5D then map_option (Cons TRBracket) (lex cs)
      else if c = 0x2C then map_option (Cons TComma) (lex cs)
      else if c = 0x3A then map_option (Cons TColon) (lex cs)
      else if c = 0x22 then
        (case scan_string cs [] of
           None \<Rightarrow> None
         | Some (s, rest) \<Rightarrow> map_option (Cons (TValue (PStr s))) (lex rest))
      else
        (case scan_atom (c # cs) of
           None \<Rightarrow> None
         | Some (v, rest) \<Rightarrow> map_option (Cons (TValue v)) (lex rest)))"
  by pat_completeness auto
termination
  by (relation "measure length")
     (auto dest: scan_string_length scan_atom_length)

text \<open>
  The parser: the stack of open containers (an array with its items so far, in reverse;
  an object with its pairs so far and the key that waits for its value), and what may come
  next. A repeated key keeps its first position and takes the last value, as in a \<open>dict\<close>.
\<close>

datatype frame = ArrayFrame "pyval list" | ObjectFrame "(pystr \<times> pyval) list" "pystr option"

datatype expect =
    ExpValue
  | ExpValueOrEnd
  | ExpKeyOrEnd
  | ExpKey
  | ExpColon
  | ExpCommaOrEnd

datatype pstate = Parsing "frame list" expect | Done pyval | Failed

text \<open>A value is complete: it closes the text, or goes into the innermost open container.\<close>

fun complete :: "pyval \<Rightarrow> frame list \<Rightarrow> pstate" where
  "complete v [] = Done v"
| "complete v (ArrayFrame items # st) = Parsing (ArrayFrame (v # items) # st) ExpCommaOrEnd"
| "complete v (ObjectFrame pairs (Some k) # st) =
     Parsing (ObjectFrame (AList.update k v pairs) None # st) ExpCommaOrEnd"
| "complete v (ObjectFrame pairs None # st) = Failed"

fun start_value :: "token \<Rightarrow> frame list \<Rightarrow> pstate" where
  "start_value (TValue v) st = complete v st"
| "start_value TLBracket st = Parsing (ArrayFrame [] # st) ExpValueOrEnd"
| "start_value TLBrace st = Parsing (ObjectFrame [] None # st) ExpKeyOrEnd"
| "start_value _ st = Failed"

fun take_key :: "token \<Rightarrow> frame list \<Rightarrow> pstate" where
  "take_key (TValue (PStr k)) (ObjectFrame pairs None # st) =
     Parsing (ObjectFrame pairs (Some k) # st) ExpColon"
| "take_key _ _ = Failed"

fun parse_step :: "pstate \<Rightarrow> token \<Rightarrow> pstate" where
  "parse_step (Parsing st ExpValue) t = start_value t st"
| "parse_step (Parsing st ExpValueOrEnd) t =
     (case (t, st) of
        (TRBracket, ArrayFrame items # st') \<Rightarrow> complete (PList (rev items)) st'
      | _ \<Rightarrow> start_value t st)"
| "parse_step (Parsing st ExpKeyOrEnd) t =
     (case (t, st) of
        (TRBrace, ObjectFrame pairs None # st') \<Rightarrow> complete (PDict pairs) st'
      | _ \<Rightarrow> take_key t st)"
| "parse_step (Parsing st ExpKey) t = take_key t st"
| "parse_step (Parsing st ExpColon) t = (if t = TColon then Parsing st ExpValue else Failed)"
| "parse_step (Parsing st ExpCommaOrEnd) t =
     (case (t, st) of
        (TComma, ArrayFrame items # st') \<Rightarrow> Parsing st ExpValue
      | (TRBracket, ArrayFrame items # st') \<Rightarrow> complete (PList (rev items)) st'
      | (TComma, ObjectFrame pairs None # st') \<Rightarrow> Parsing st ExpKey
      | (TRBrace, ObjectFrame pairs None # st') \<Rightarrow> complete (PDict pairs) st'
      | _ \<Rightarrow> Failed)"
| "parse_step (Done v) t = Failed"
| "parse_step Failed t = Failed"

definition parse_tokens :: "token list \<Rightarrow> pyval option" where
  "parse_tokens ts =
     (case foldl parse_step (Parsing [] ExpValue) ts of
        Done v \<Rightarrow> Some v
      | _ \<Rightarrow> None)"

text \<open>
  \<open>json.loads(s)\<close>. A text that is not one JSON value raises JSONDecodeError. (The limits
  of the interpreter, on nesting depth and on the digits of an int, are not modelled.)
\<close>

definition json_loads :: "pystr \<Rightarrow> error + pyval" where
  "json_loads s =
     (case lex s of
        None \<Rightarrow> Inl JSONDecodeError
      | Some ts \<Rightarrow>
          (case parse_tokens ts of
             None \<Rightarrow> Inl JSONDecodeError
           | Some v \<Rightarrow> Inr v))"

section \<open>PreciseSegmentationTest.py\<close>

text \<open>\<open>text.split('\n')\<close> and \<open>'\n'.join(lines)\<close>.\<close>

fun split_lines :: "pystr \<Rightarrow> pystr list" where
  "split_lines [] = [[]]"
| "split_lines (c # cs) =
     (if c = 0x0A then [] # split_lines cs
      else (case split_lines cs of
              [] \<Rightarrow> [[c]]
            | l # ls \<Rightarrow> (c # l) # ls))"

fun join_lines :: "pystr list \<Rightarrow> pystr" where
  "join_lines [] = []"
| "join_lines [l] = l"
| "join_lines (l # ls) = l @ [0x0A] @ join_lines ls"

text \<open>
  The loop of \<open>clean_json_from_markdown\<close> over the lines, with its flag \<open>start_found\<close>:
  the lines after a line that is the opening fence, up to the next line that is the
  closing fence.
\<close>

definition fence :: pystr where
  "fence = [0x60, 0x60, 0x60]"

definition fence_json :: pystr where
  "fence_json = [0x60, 0x60, 0x60] @ asc ''json''"

fun fenced_lines :: "bool \<Rightarrow> pystr list \<Rightarrow> pystr list" where
  "fenced_lines start_found [] = []"
| "fenced_lines start_found (line # rest) =
     (if py_strip line = fence_json then fenced_lines True rest
      else if py_strip line = fence \<and> start_found then []
      else if start_found then line # fenced_lines start_found rest
      else fenced_lines start_found rest)"

definition startswith :: "pystr \<Rightarrow> pystr \<Rightarrow> bool" where
  "startswith s p = (take (length p) s = p)"

definition endswith :: "pystr \<Rightarrow> pystr \<Rightarrow> bool" where
  "endswith s p = (length p \<le> length s \<and> drop (length s - length p) s = p)"

text \<open>
  \<open>clean_json_from_markdown\<close> (the agent's \<open>_clean_json_from_markdown\<close> is the same code).
  \<open>text[3:-3]\<close> is empty for a text shorter than six characters.
\<close>

definition clean_json_from_markdown :: "pystr \<Rightarrow> pystr" where
  "clean_json_from_markdown text0 =
     (let text1 = py_strip text0
      in if startswith text1 fence_json
         then join_lines (fenced_lines False (split_lines text1))
         else if startswith text1 fence \<and> endswith text1 fence
         then py_strip (take (length text1 - 6) (drop 3 text1))
         else text1)"

text \<open>
  \<open>float(x)\<close> for the elements of a box. \<open>float\<close> of a \<open>str\<close> is the interpreter's parser of
  float literals, a parameter \<open>float_of_str\<close> (\<open>None\<close>: ValueError). An int is rounded to
  the nearest double, and raises OverflowError beyond the largest double.
\<close>

definition py_float :: "(pystr \<Rightarrow> pyfloat option) \<Rightarrow> pyval \<Rightarrow> error + pyfloat" where
  "py_float float_of_str x =
     (case x of
        PInt n \<Rightarrow> (case int_to_float n of Inl e \<Rightarrow> Inl e | Inr r \<Rightarrow> Inr (Finite r))
      | PBool b \<Rightarrow> Inr (Finite (if b then 1 else 0))
      | PFloat f \<Rightarrow> Inr f
      | PStr s \<Rightarrow> (case float_of_str s of None \<Rightarrow> Inl ValueError | Some f \<Rightarrow> Inr f)
      | _ \<Rightarrow> Inl TypeError)"

text \<open>\<open>a > b\<close> on floats, and \<open>int(x)\<close> of a float.\<close>

fun float_gt :: "pyfloat \<Rightarrow> pyfloat \<Rightarrow> bool" where
  "float_gt (Finite a) (Finite b) = (b < a)"
| "float_gt (Finite a) NegInf = True"
| "float_gt PosInf (Finite b) = True"
| "float_gt PosInf NegInf = True"
| "float_gt _ _ = False"

fun int_of_float :: "pyfloat \<Rightarrow> error + int" where
  "int_of_float (Finite r) = Inr (py_int r)"
| "int_of_float NaN = Inl ValueError"
| "int_of_float _ = Inl OverflowError"

text \<open>
  One item of the parsed list in \<open>sentence_to_dict\<close>: it is skipped (with a warning), kept
  with its corrected box, or an exception other than ValueError and TypeError leaves the
  loop.
\<close>

datatype 'a step = Skip | Keep 'a | Escape error

definition caught :: "error \<Rightarrow> pyval step" where
  "caught e = (if e = ValueError \<or> e = TypeError then Skip else Escape e)"

definition validate_box :: "(pystr \<Rightarrow> pyfloat option) \<Rightarrow> pyval list \<Rightarrow> error + pyval" where
  "validate_box float_of_str bbox =
     (case bbox of
        [a, b, c, d] \<Rightarrow>
          (case py_float float_of_str a of Inl e \<Rightarrow> Inl e | Inr fa \<Rightarrow>
          (case py_float float_of_str b of Inl e \<Rightarrow> Inl e | Inr fb \<Rightarrow>
          (case py_float float_of_str c of Inl e \<Rightarrow> Inl e | Inr fc \<Rightarrow>
          (case py_float float_of_str d of Inl e \<Rightarrow> Inl e | Inr fd \<Rightarrow>
             (let (x1, x2) = (if float_gt fa fc then (fc, fa) else (fa, fc));
                  (y1, y2) = (if float_gt fb fd then (fd, fb) else (fb, fd))
              in (case int_of_float x1 of Inl e \<Rightarrow> Inl e | Inr ix1 \<Rightarrow>
                 (case int_of_float y1 of Inl e \<Rightarrow> Inl e | Inr iy1 \<Rightarrow>
                 (case int_of_float x2 of Inl e \<Rightarrow> Inl e | Inr ix2 \<Rightarrow>
                 (case int_of_float y2 of Inl e \<Rightarrow> Inl e | Inr iy2 \<Rightarrow>
                    Inr (PList [PInt ix1, PInt iy1, PInt ix2, PInt iy2]))))))))))
      | _ \<Rightarrow> Inl ValueError)"

definition validate_item :: "(pystr \<Rightarrow> pyfloat option) \<Rightarrow> pyval \<Rightarrow> pyval step" where
  "validate_item float_of_str item =
     (case item of
        PDict d \<Rightarrow>
          (case (case map_of d (asc ''bbox_2d'') of Some b \<Rightarrow> b | None \<Rightarrow> PList []) of
             PList bbox \<Rightarrow>
               if length bbox \<noteq> 4 then Skip
               else (case validate_box float_of_str bbox of
                       Inl e \<Rightarrow> caught e
                     | Inr box \<Rightarrow> Keep (PDict (AList.update (asc ''bbox_2d'') box d)))
           | _ \<Rightarrow> Skip)
      | _ \<Rightarrow> Skip)"

fun validate_items :: "(pystr \<Rightarrow> pyfloat option) \<Rightarrow> pyval list \<Rightarrow> error + pyval list" where
  "validate_items float_of_str [] = Inr []"
| "validate_items float_of_str (item # rest) =
     (case validate_item float_of_str item of
        Escape e \<Rightarrow> Inl e
      | Skip \<Rightarrow> validate_items float_of_str rest
      | Keep item' \<Rightarrow>
          (case validate_items float_of_str rest of
             Inl e \<Rightarrow> Inl e
           | Inr validated \<Rightarrow> Inr (item' # validated)))"

text \<open>
  The body of the \<open>try\<close> of \<open>sentence_to_dict\<close>, for a \<open>str\<close> argument, and the function:
  both handlers return the empty dict.
\<close>

definition sentence_to_dict_body :: "(pystr \<Rightarrow> pyfloat option) \<Rightarrow> pystr \<Rightarrow> error + pyval" where
  "sentence_to_dict_body float_of_str sentence =
     (if py_strip sentence = [] then Inr (PDict [])
      else
        (case json_loads (clean_json_from_markdown sentence) of
           Inl e \<Rightarrow> Inl e
         | Inr parsed_result \<Rightarrow>
             (case parsed_result of
                PList items \<Rightarrow>
                  (case validate_items float_of_str items of
                     Inl e \<Rightarrow> Inl e
                   | Inr validated_results \<Rightarrow>
                       Inr (PDict [(asc ''segmentation_results'', PList validated_results)]))
              | _ \<Rightarrow> Inr parsed_result)))"

definition sentence_to_dict :: "(pystr \<Rightarrow> pyfloat option) \<Rightarrow> pystr \<Rightarrow> pyval" where
  "sentence_to_dict float_of_str sentence =
     (case sentence_to_dict_body float_of_str sentence of
        Inl e \<Rightarrow> PDict []
      | Inr result \<Rightarrow> result)"

text \<open>
  \<open>ask_about_image_with_coordinate_conversion\<close> of the agent, given what
  \<open>ask_about_image\<close> returned or raised (an exception of the request leaves the function)
  and the agent as that call left it; \<open>json.dumps\<close> is a parameter.
\<close>

definition ask_about_image_with_coordinate_conversion ::
  "(pyval \<Rightarrow> pystr) \<Rightarrow> precise_segmentation_agent \<Rightarrow> exc + pystr \<Rightarrow> exc + pystr" where
  "ask_about_image_with_coordinate_conversion dumps self asked =
     (case asked of
        Inl e \<Rightarrow> Inl e
      | Inr raw_result \<Rightarrow>
          (case json_loads (clean_json_from_markdown raw_result) of
             Inl e \<Rightarrow> Inr raw_result
           | Inr segmentation_results \<Rightarrow>
               (case segmentation_results of
                  PList results \<Rightarrow>
                    (case agent_convert_coordinates_to_original self results of
                       Inl e \<Rightarrow> Inr raw_result
                     | Inr converted_results \<Rightarrow> Inr (dumps (PList converted_results)))
                | _ \<Rightarrow> Inr raw_result)))"


section \<open>Environments and agents for evaluation\<close>

text \<open>
  A file system in which every path is an existing \<open>.jpg\<close> file; a strategist with an empty
  knowledge table and no language model; analysts that raise or see nothing.
\<close>

definition jpg_world :: pipeline_env where
  "jpg_world =
     \<lparr>path_exists = (\<lambda>p. Returns True), path_is_file = (\<lambda>p. Returns True),
      path_suffix = (\<lambda>p. asc ''.jpg''), str_lower = (\<lambda>s. s),
      supported_formats = [asc ''jpg'', asc ''jpeg'', asc ''png'', asc ''bmp''],
      error_text = (\<lambda>k. [])\<rparr>"

definition no_knowledge :: strategist_env where
  "no_knowledge =
     \<lparr>functional_parts_knowledge = (\<lambda>c. []), ask_intent = (\<lambda>i s. Raises),
      reasoning_text = (\<lambda>i t p. []), safety_text = (\<lambda>t p. []),
      instructions_text = (\<lambda>t p. [])\<rparr>"


definition empty_analyst :: "pystr \<Rightarrow> exc + scene_analysis_result" where
  "empty_analyst p = Inr (SceneAnalysisResult p [] (asc ''2024-01-01T00:00:00''))"

text \<open>A segmenter that reports a failure with a message, as \<open>segment_target_part\<close> does.\<close>

definition refusing_segmenter :: "pystr \<Rightarrow> pystr \<Rightarrow> interaction_strategy \<Rightarrow> exc + segmentation_result" where
  "refusing_segmenter msg p strategy =
     Inr \<lparr>seg_image_path = p,
          seg_mask = \<lparr>mask_array = [], mask_width = 0, mask_height = 0,
                      mask_target_object_id = object_id (target_object strategy),
                      mask_target_part_name = part_name (target_part strategy),
                      mask_confidence = 1\<rparr>,
          strategy_used = strategy, processing_time = 0, success = False,
          error_message = Some msg, output_mask_path = None\<rparr>"

definition test_agents ::
  "(pystr \<Rightarrow> exc + scene_analysis_result) \<Rightarrow> (pystr \<Rightarrow> interaction_strategy \<Rightarrow> exc + segmentation_result) \<Rightarrow> agents" where
  "test_agents analyst segmenter =
     \<lparr>ag_analyze_scene = analyst,
      ag_analyze_user_intent = analyze_user_intent no_knowledge,
      ag_create_interaction_strategy = create_interaction_strategy no_knowledge,
      ag_segment_target_part = segmenter\<rparr>"

text \<open>An analyst environment whose image cannot be loaded.\<close>

definition unreadable_image :: "unit analyst_env" where
  "unreadable_image =
     \<lparr>load_image = (\<lambda>p. Returns None), validate_image_quality = (\<lambda>i. Returns (PDict [])),
      detect_objects = (\<lambda>p. Raises), timestamp = asc ''2024-01-01T00:00:00'',
      validators = exact_types\<rparr>"

text \<open>A scene whose detection succeeds with the given items.\<close>

definition detected :: "pyval list \<Rightarrow> unit analyst_env" where
  "detected items =
     \<lparr>load_image = (\<lambda>p. Returns (Some ())),
      validate_image_quality = (\<lambda>i. Returns (PDict [(asc ''is_good_quality'', PBool True)])),
      detect_objects = (\<lambda>p. Returns (PDict [(asc ''objects'', PList items),
                                             (asc ''total_objects'', PInt (int (length items))),
                                             (asc ''success'', PBool True)])),
      timestamp = asc ''2024-01-01T00:00:00'',
      validators = exact_types\<rparr>"



text \<open>
  For the parsing code: a \<open>float\<close> that accepts no string, a \<open>json.dumps\<close> that writes
  nothing, a response with a box whose x coordinates are out of order, the same region
  followed by one with an infinite coordinate, and a detected object with such a box, as
  the vision tool hands it to the scene analyst.
\<close>

definition no_float_strings :: "pystr \<Rightarrow> pyfloat option" where
  "no_float_strings s = None"

definition no_dumps :: "pyval \<Rightarrow> pystr" where
  "no_dumps v = []"

text \<open>
  A region of a parsed response is ordered when its \<open>bbox_2d\<close> is a list of four ints with
  \<open>x1 \<le> x2\<close> and \<open>y1 \<le> y2\<close>.
\<close>

fun ordered_box :: "pyval \<Rightarrow> bool" where
  "ordered_box (PList [PInt x1, PInt y1, PInt x2, PInt y2]) = (x1 \<le> x2 \<and> y1 \<le> y2)"
| "ordered_box _ = False"

definition ordered_region :: "pyval \<Rightarrow> bool" where
  "ordered_region v =
     (case v of
        PDict d \<Rightarrow> (case map_of d (asc ''bbox_2d'') of Some b \<Rightarrow> ordered_box b | None \<Rightarrow> False)
      | _ \<Rightarrow> False)"

text \<open>
  The regions of a parsed response, for stating what \<open>sentence_to_dict\<close> does with them.
  \<open>region_box item\<close> is the \<open>bbox_2d\<close> of a dict when it is a list of four elements. A
  coordinate is finite when \<open>float\<close> gives it a finite value, and tame when \<open>float\<close> neither
  gives it an infinity nor raises OverflowError. \<open>swap_normalize\<close> is the normalization in
  the words of the specification, not taken from the code: the coordinates of a box of four
  finite numbers put in order (the smaller x first, the smaller y first), as ints.
\<close>

definition region_box :: "pyval \<Rightarrow> pyval list option" where
  "region_box item =
     (case item of
        PDict d \<Rightarrow>
          (case map_of d (asc ''bbox_2d'') of
             Some (PList bbox) \<Rightarrow> if length bbox = 4 then Some bbox else None
           | _ \<Rightarrow> None)
      | _ \<Rightarrow> None)"

definition finite_coordinate :: "(pystr \<Rightarrow> pyfloat option) \<Rightarrow> pyval \<Rightarrow> bool" where
  "finite_coordinate fos c = (case py_float fos c of Inr (Finite r) \<Rightarrow> True | _ \<Rightarrow> False)"

definition tame_coordinate :: "(pystr \<Rightarrow> pyfloat option) \<Rightarrow> pyval \<Rightarrow> bool" where
  "tame_coordinate fos c = (py_float fos c \<notin> {Inr PosInf, Inr NegInf, Inl OverflowError})"

definition finite_region :: "(pystr \<Rightarrow> pyfloat option) \<Rightarrow> pyval \<Rightarrow> bool" where
  "finite_region fos item =
     (case region_box item of Some bbox \<Rightarrow> list_all (finite_coordinate fos) bbox | None \<Rightarrow> False)"

definition tame_region :: "(pystr \<Rightarrow> pyfloat option) \<Rightarrow> pyval \<Rightarrow> bool" where
  "tame_region fos item =
     (case region_box item of Some bbox \<Rightarrow> list_all (tame_coordinate fos) bbox | None \<Rightarrow> True)"

definition coordinate_value :: "(pystr \<Rightarrow> pyfloat option) \<Rightarrow> pyval \<Rightarrow> real" where
  "coordinate_value fos c = (case py_float fos c of Inr (Finite r) \<Rightarrow> r | _ \<Rightarrow> 0)"

definition swap_normalize :: "(pystr \<Rightarrow> pyfloat option) \<Rightarrow> pyval \<Rightarrow> pyval" where
  "swap_normalize fos item =
     (case item of
        PDict d \<Rightarrow>
          (case region_box item of
             Some [a, b, c, e] \<Rightarrow>
               (let x1 = coordinate_value fos a; y1 = coordinate_value fos b;
                    x2 = coordinate_value fos c; y2 = coordinate_value fos e
                in PDict (AList.update (asc ''bbox_2d'')
                            (PList [PInt (py_int (min x1 x2)), PInt (py_int (min y1 y2)),
                                    PInt (py_int (max x1 x2)), PInt (py_int (max y1 y2))]) d))
           | _ \<Rightarrow> item)
      | _ \<Rightarrow> item)"

definition swapped_response :: pystr where
  "swapped_response = asc ''[{\"bbox_2d\": [300, 50, 100, 200], \"label\": \"handle\"}]''"

definition infinite_sibling_response :: pystr where
  "infinite_sibling_response =
     asc ''[{\"bbox_2d\": [300, 50, 100, 200]}, {\"bbox_2d\": [Infinity, 0, 1, 1]}]''"

definition swapped_detection :: pyval where
  "swapped_detection =
     PDict [(asc ''object_id'', PStr (asc ''obj_1'')),
            (asc ''label'', PStr (asc ''mug'')),
            (asc ''category'', PStr (category_value CUP)),
            (asc ''bounding_box'',
               PDict [(asc ''x1'', PInt 300), (asc ''y1'', PInt 50),
                      (asc ''x2'', PInt 100), (asc ''y2'', PInt 200),
                      (asc ''confidence'', PFloat (Finite 0.5))]),
            (asc ''confidence'', PFloat (Finite 0.5)),
            (asc ''description'', PNone)]"



section \<open>Binary floating point\<close>

text \<open>
  The exponent brackets the number, the rounding is within half a quantum, and it keeps
  the integers that bound its argument.
\<close>

lemma ilog2_bounds: "0 < n \<Longrightarrow> 2 ^ ilog2 n \<le> n \<and> n < 2 ^ Suc (ilog2 n)"
proof (induction n rule: ilog2.induct)
  case (1 n)
  show ?case
  proof (cases "n < 2")
    case True
    then have "n = 1" using 1 by simp
    then show ?thesis by (simp add: ilog2.simps)
  next
    case False
    then have h: "0 < n div 2" by simp
    have ih: "2 ^ ilog2 (n div 2) \<le> n div 2 \<and> n div 2 < 2 ^ Suc (ilog2 (n div 2))"
      using 1 False h by simp
    have e: "ilog2 n = Suc (ilog2 (n div 2))" using False by (subst ilog2.simps) simp
    have a: "2 * (n div 2) \<le> n" by simp
    have b: "n < 2 * (n div 2) + 2" by presburger
    have c: "2 * 2 ^ ilog2 (n div 2) \<le> n" using ih a by linarith
    have ih2: "n div 2 < 2 * 2 ^ ilog2 (n div 2)" using ih by simp
    have d: "n < 2 * (2 * 2 ^ ilog2 (n div 2))" using ih2 b by linarith
    show ?thesis using c d unfolding e by simp
  qed
qed

lemma float_exponent_bounds:
  assumes x: "x \<noteq> 0"
  shows "2 powi float_exponent x \<le> \<bar>x\<bar> \<and> \<bar>x\<bar> < 2 powi (float_exponent x + 1)"
proof (cases "1 \<le> \<bar>x\<bar>")
  case True
  define n where "n = nat \<lfloor>\<bar>x\<bar>\<rfloor>"
  have f1: "1 \<le> \<lfloor>\<bar>x\<bar>\<rfloor>" using True by simp
  have n1: "0 < n" using f1 by (simp add: n_def)
  have rn: "real n = of_int \<lfloor>\<bar>x\<bar>\<rfloor>" using f1 by (simp add: n_def)
  have nx: "real n \<le> \<bar>x\<bar>" unfolding rn by simp
  have xn: "\<bar>x\<bar> < real n + 1" unfolding rn by linarith
  have e: "float_exponent x = int (ilog2 n)" using True by (simp add: float_exponent_def n_def)
  have "real (2 ^ ilog2 n) \<le> real n" using ilog2_bounds [OF n1] by (intro of_nat_mono) simp
  then have b1: "(2::real) ^ ilog2 n \<le> real n" by simp
  have "real (n + 1) \<le> real (2 ^ Suc (ilog2 n))"
    using ilog2_bounds [OF n1] by (intro of_nat_mono) simp
  then have b2: "real n + 1 \<le> (2::real) ^ Suc (ilog2 n)" by simp
  have p1: "2 powi float_exponent x = (2::real) ^ ilog2 n" unfolding e by simp
  have p2: "2 powi (float_exponent x + 1) = (2::real) ^ Suc (ilog2 n)"
    unfolding e by (simp add: power_int_add)
  show ?thesis unfolding p1 p2 using b1 b2 nx xn by linarith
next
  case False
  then have x1: "\<bar>x\<bar> < 1" by simp
  have x0: "0 < \<bar>x\<bar>" using x by simp
  define y where "y = 1 / \<bar>x\<bar>"
  have y1: "1 < y" using x0 x1 by (simp add: y_def)
  define c where "c = nat \<lceil>y\<rceil>"
  have c2: "2 \<le> \<lceil>y\<rceil>" using y1 by linarith
  have rc: "real c = of_int \<lceil>y\<rceil>" using c2 by (simp add: c_def)
  have yc: "y \<le> real c" unfolding rc by simp
  have cy: "real c - 1 < y" unfolding rc by linarith
  define m where "m = c - 1"
  have m1: "0 < m" using c2 by (simp add: m_def c_def)
  have rm: "real m = real c - 1" using m1 by (simp add: m_def)
  define k where "k = ilog2 m"
  have e: "float_exponent x = - int (Suc k)"
    using False by (simp add: float_exponent_def k_def m_def c_def y_def)
  have "real (2 ^ k) \<le> real m" using ilog2_bounds [OF m1] unfolding k_def by (intro of_nat_mono) simp
  then have b1: "(2::real) ^ k \<le> real m" by simp
  have "real (m + 1) \<le> real (2 ^ Suc k)"
    using ilog2_bounds [OF m1] unfolding k_def by (intro of_nat_mono) simp
  then have b2: "real m + 1 \<le> (2::real) ^ Suc k" by simp
  have u: "y \<le> 2 ^ Suc k" using b2 yc rm by linarith
  have l: "2 ^ k < y" using b1 cy rm by linarith
  have p1: "2 powi float_exponent x = 1 / (2::real) ^ Suc k"
    unfolding e by (simp only: power_int_minus_divide power_int_of_nat)
  have "float_exponent x + 1 = - int k" unfolding e by simp
  then have p2: "2 powi (float_exponent x + 1) = 1 / (2::real) ^ k"
    by (simp only: power_int_minus_divide power_int_of_nat)
  have a1: "1 / (2::real) ^ Suc k \<le> \<bar>x\<bar>"
  proof -
    have "1 / \<bar>x\<bar> \<le> 2 ^ Suc k" using u by (simp add: y_def)
    then have "1 \<le> 2 ^ Suc k * \<bar>x\<bar>" using x0 by (simp add: field_simps)
    then show ?thesis by (simp add: field_simps)
  qed
  have a2: "\<bar>x\<bar> < 1 / (2::real) ^ k"
  proof -
    have "2 ^ k < 1 / \<bar>x\<bar>" using l by (simp add: y_def)
    then have "2 ^ k * \<bar>x\<bar> < 1" using x0 by (simp add: field_simps)
    then show ?thesis by (simp add: field_simps)
  qed
  show ?thesis unfolding p1 p2 using a1 a2 by simp
qed

lemma round_half_even_error: "\<bar>of_int (round_half_even r) - r\<bar> \<le> 1 / 2"
proof -
  have "of_int \<lfloor>r\<rfloor> \<le> r" "r < of_int \<lfloor>r\<rfloor> + 1" by linarith+
  then show ?thesis by (auto simp: round_half_even_def Let_def)
qed

lemma round_half_even_ge: "of_int m \<le> r \<Longrightarrow> m \<le> round_half_even r"
proof -
  assume "of_int m \<le> r"
  then have "m \<le> \<lfloor>r\<rfloor>" by (simp add: le_floor_iff)
  then show ?thesis by (auto simp: round_half_even_def Let_def)
qed

lemma round_half_even_le: "r \<le> of_int m \<Longrightarrow> round_half_even r \<le> m"
proof (cases "r = of_int \<lfloor>r\<rfloor>")
  case True
  assume a: "r \<le> of_int m"
  have "round_half_even r = \<lfloor>r\<rfloor>" using True by (simp add: round_half_even_def Let_def)
  moreover have "\<lfloor>r\<rfloor> \<le> m" using a by (simp add: floor_le_iff)
  ultimately show ?thesis by simp
next
  case False
  assume a: "r \<le> of_int m"
  have "of_int \<lfloor>r\<rfloor> < r" using False by (metis of_int_floor_le order_le_less)
  then have "of_int \<lfloor>r\<rfloor> < (of_int m :: real)" using a by linarith
  then have "\<lfloor>r\<rfloor> + 1 \<le> m" by simp
  moreover have "round_half_even r \<le> \<lfloor>r\<rfloor> + 1" by (simp add: round_half_even_def Let_def)
  ultimately show ?thesis by simp
qed

lemma round_half_even_int [simp]: "round_half_even (of_int m) = m"
  by (simp add: round_half_even_def)

lemma float_quantum_pos: "0 < float_quantum x"
  by (simp add: float_quantum_def)

lemma round_to_double_error: "\<bar>round_to_double x - x\<bar> \<le> float_quantum x / 2"
proof (cases "x = 0")
  case True
  then show ?thesis using float_quantum_pos [of x] by (simp add: round_to_double_def)
next
  case False
  define q where "q = float_quantum x"
  have q0: "0 < q" unfolding q_def by (rule float_quantum_pos)
  have "\<bar>of_int (round_half_even (x / q)) - x / q\<bar> \<le> 1 / 2" by (rule round_half_even_error)
  then have "\<bar>of_int (round_half_even (x / q)) - x / q\<bar> * q \<le> 1 / 2 * q"
    using q0 by (intro mult_right_mono) simp_all
  moreover have "\<bar>of_int (round_half_even (x / q)) - x / q\<bar> * q
      = \<bar>of_int (round_half_even (x / q)) * q - x\<bar>"
  proof -
    have "\<bar>of_int (round_half_even (x / q)) - x / q\<bar> * q
        = \<bar>(of_int (round_half_even (x / q)) - x / q) * q\<bar>"
      using q0 by (simp add: abs_mult)
    also have "(of_int (round_half_even (x / q)) - x / q) * q = of_int (round_half_even (x / q)) * q - x"
      using q0 by (simp add: field_simps)
    finally show ?thesis .
  qed
  ultimately show ?thesis using False by (simp add: round_to_double_def q_def)
qed

lemma pow2_less_imp_less: "(2::real) powi a < 2 powi b \<Longrightarrow> a < b"
proof (rule ccontr)
  assume l: "(2::real) powi a < 2 powi b" and n: "\<not> a < b"
  have "(2::real) powi b \<le> 2 powi a" using n by (intro power_int_increasing) simp_all
  then show False using l by simp
qed

lemma float_exponent_ge: "x \<noteq> 0 \<Longrightarrow> 2 powi k \<le> \<bar>x\<bar> \<Longrightarrow> k \<le> float_exponent x"
proof -
  assume x: "x \<noteq> 0" and k: "2 powi k \<le> \<bar>x\<bar>"
  have "(2::real) powi k < 2 powi (float_exponent x + 1)"
    using float_exponent_bounds [OF x] k by linarith
  then show ?thesis using pow2_less_imp_less by fastforce
qed

lemma float_exponent_less: "x \<noteq> 0 \<Longrightarrow> \<bar>x\<bar> < 2 powi k \<Longrightarrow> float_exponent x < k"
proof -
  assume x: "x \<noteq> 0" and k: "\<bar>x\<bar> < 2 powi k"
  have "(2::real) powi (float_exponent x) < 2 powi k"
    using float_exponent_bounds [OF x] k by linarith
  then show ?thesis by (rule pow2_less_imp_less)
qed

lemma float_exponent_eq:
  assumes l: "2 powi e \<le> \<bar>x\<bar>" and u: "\<bar>x\<bar> < 2 powi (e + 1)"
  shows "float_exponent x = e"
proof -
  have x: "x \<noteq> 0"
  proof
    assume "x = 0"
    then have "(2::real) powi e \<le> 0" using l by simp
    moreover have "(0::real) < 2 powi e" by simp
    ultimately show False by linarith
  qed
  have "e \<le> float_exponent x" using x l by (rule float_exponent_ge)
  moreover have "float_exponent x < e + 1" using x u by (rule float_exponent_less)
  ultimately show ?thesis by simp
qed

lemma float_quantum_normal:
  assumes "1 / 2 ^ 1022 \<le> \<bar>x\<bar>"
  shows "float_quantum x \<le> \<bar>x\<bar> / 2 ^ 52"
proof -
  have x: "x \<noteq> 0" using assms by auto
  have "(2::real) powi (- 1022) \<le> \<bar>x\<bar>" using assms by (simp add: power_int_minus_divide)
  then have e: "- 1022 \<le> float_exponent x" using x by (rule float_exponent_ge [rotated])
  then have "float_quantum x = 2 powi (float_exponent x - 52)"
    by (simp add: float_quantum_def max_def)
  also have "\<dots> = 2 powi float_exponent x / 2 ^ 52"
    by (simp add: power_int_diff)
  also have "\<dots> \<le> \<bar>x\<bar> / 2 ^ 52"
    using float_exponent_bounds [OF x] by (simp add: divide_right_mono)
  finally show ?thesis .
qed

lemma float_quantum_bound:
  assumes f: "x \<noteq> 0"
  shows "float_quantum x \<le> \<bar>x\<bar> / 2 ^ 52 + 1 / 2 ^ 1074"
proof (cases "1 / 2 ^ 1022 \<le> \<bar>x\<bar>")
  case True
  then show ?thesis using float_quantum_normal [OF True] by simp
next
  case False
  have "\<bar>x\<bar> < 2 powi (- 1022)" using False by (simp add: power_int_minus_divide)
  then have "float_exponent x < - 1022" by (rule float_exponent_less [OF f])
  then have "max (float_exponent x) (- 1022) = - 1022" by simp
  then have "float_quantum x = 1 / 2 ^ 1074"
    by (simp add: float_quantum_def power_int_minus_divide)
  then show ?thesis by simp
qed

lemma round_to_double_normal:
  assumes "1 / 2 ^ 1022 \<le> \<bar>x\<bar>"
  shows "\<bar>round_to_double x - x\<bar> \<le> \<bar>x\<bar> / 2 ^ 53"
  using round_to_double_error [of x] float_quantum_normal [OF assms] by simp

lemma round_to_double_close: "\<bar>round_to_double x - x\<bar> \<le> \<bar>x\<bar> / 2 ^ 53 + 1 / 2 ^ 1075"
proof (cases "x = 0")
  case True
  then show ?thesis by (simp add: round_to_double_def)
next
  case False
  show ?thesis using round_to_double_error [of x] float_quantum_bound [OF False] by simp
qed

lemma float_of_real_finite:
  assumes "\<bar>x\<bar> < 2 ^ 1023"
  shows "float_of_real x = Finite (round_to_double x)"
proof -
  have "\<bar>round_to_double x\<bar> \<le> \<bar>x\<bar> + \<bar>round_to_double x - x\<bar>" by simp
  also have "\<dots> \<le> \<bar>x\<bar> + (\<bar>x\<bar> / 2 ^ 53 + 1 / 2 ^ 1075)"
    using round_to_double_close [of x] by simp
  also have "\<dots> < 2 ^ 1023 + (2 ^ 1023 / 2 ^ 53 + 1 / 2 ^ 1075)"
    using assms by (simp add: add_strict_mono divide_strict_right_mono)
  also have "\<dots> \<le> (2::real) ^ 1024" by simp
  finally have "\<bar>round_to_double x\<bar> < 2 ^ 1024" .
  then show ?thesis by (simp add: float_of_real_def Let_def abs_less_iff not_le) 
qed

lemma float_quantum_small:
  assumes "\<bar>x\<bar> < 2 ^ 53"
  shows "\<exists>j. float_quantum x = 1 / 2 ^ j"
proof -
  have e: "float_exponent x < 53"
  proof (cases "x = 0")
    case True
    then show ?thesis by (simp add: float_exponent_def ilog2.simps)
  next
    case False
    have "\<bar>x\<bar> < 2 powi 53" using assms by simp
    then show ?thesis by (rule float_exponent_less [OF False])
  qed
  define E where "E = max (float_exponent x) (- 1022)"
  have E: "E \<le> 52" using e by (simp add: E_def)
  have "float_quantum x = 2 powi (- int (nat (52 - E)))"
    using E by (simp add: float_quantum_def E_def)
  also have "\<dots> = 1 / 2 ^ nat (52 - E)"
    by (simp only: power_int_minus_divide power_int_of_nat)
  finally show ?thesis by blast
qed

lemma round_to_double_ge_int:
  assumes s: "\<bar>x\<bar> < 2 ^ 53" and n: "of_int n \<le> x"
  shows "of_int n \<le> round_to_double x"
proof (cases "x = 0")
  case True
  then show ?thesis using n by (simp add: round_to_double_def)
next
  case False
  obtain j where q: "float_quantum x = 1 / 2 ^ j" using float_quantum_small [OF s] by blast
  have "of_int (n * 2 ^ j) \<le> x / float_quantum x" using n unfolding q by (simp add: mult_right_mono)
  then have "n * 2 ^ j \<le> round_half_even (x / float_quantum x)" by (rule round_half_even_ge)
  then have "(of_int (n * 2 ^ j) :: real) \<le> of_int (round_half_even (x / float_quantum x))"
    by (simp only: of_int_le_iff)
  then have "of_int (n * 2 ^ j) * (1 / 2 ^ j) \<le> of_int (round_half_even (x / float_quantum x)) * (1 / 2 ^ j :: real)"
    by (intro mult_right_mono) simp_all
  then show ?thesis using False unfolding round_to_double_def q by simp
qed

lemma round_to_double_le_int:
  assumes s: "\<bar>x\<bar> < 2 ^ 53" and n: "x \<le> of_int n"
  shows "round_to_double x \<le> of_int n"
proof (cases "x = 0")
  case True
  then show ?thesis using n by (simp add: round_to_double_def)
next
  case False
  obtain j where q: "float_quantum x = 1 / 2 ^ j" using float_quantum_small [OF s] by blast
  have "x / float_quantum x \<le> of_int (n * 2 ^ j)" using n unfolding q by (simp add: mult_right_mono)
  then have "round_half_even (x / float_quantum x) \<le> n * 2 ^ j" by (rule round_half_even_le)
  then have "(of_int (round_half_even (x / float_quantum x)) :: real) \<le> of_int (n * 2 ^ j)"
    by (simp only: of_int_le_iff)
  then have "of_int (round_half_even (x / float_quantum x)) * (1 / 2 ^ j :: real) \<le> of_int (n * 2 ^ j) * (1 / 2 ^ j)"
    by (intro mult_right_mono) simp_all
  then show ?thesis using False unfolding round_to_double_def q by simp
qed

lemma round_to_double_int:
  assumes "\<bar>n\<bar> < 2 ^ 53"
  shows "round_to_double (of_int n) = of_int n"
proof -
  have "\<bar>of_int n :: real\<bar> < 2 ^ 53"
  proof -
    have "(of_int \<bar>n\<bar> :: real) < of_int (2 ^ 53)" using assms by (simp only: of_int_less_iff)
    then show ?thesis by simp
  qed
  then show ?thesis
    using round_to_double_ge_int [of "of_int n" n] round_to_double_le_int [of "of_int n" n] by simp
qed

lemma round_to_double_eval:
  assumes l: "2 powi e \<le> \<bar>x\<bar>" and u: "\<bar>x\<bar> < 2 powi (e + 1)" and n: "- 1022 \<le> e"
  shows "round_to_double x = of_int (round_half_even (x / 2 powi (e - 52))) * 2 powi (e - 52)"
proof -
  have e: "float_exponent x = e" using l u by (rule float_exponent_eq)
  have x: "x \<noteq> 0"
  proof
    assume "x = 0"
    then have "(2::real) powi e \<le> 0" using l by simp
    moreover have "(0::real) < 2 powi e" by simp
    ultimately show False by linarith
  qed
  have "max e (- 1022) = e" using n by simp
  then show ?thesis using x by (simp add: round_to_double_def float_quantum_def e)
qed

lemma float_of_real_int:
  assumes "\<bar>n\<bar> < 2 ^ 53"
  shows "float_of_real (of_int n) = Finite (of_int n)"
proof -
  have "(of_int \<bar>n\<bar> :: real) < of_int (2 ^ 53)" using assms by (simp only: of_int_less_iff)
  then have "\<bar>of_int n :: real\<bar> < 2 ^ 1023" by simp
  then show ?thesis using round_to_double_int [OF assms] by (simp add: float_of_real_finite)
qed

lemma real_less_two_53: "n < 2 ^ 53 \<Longrightarrow> (of_int n :: real) < 2 ^ 53"
proof -
  assume "n < 2 ^ 53"
  then have "(of_int n :: real) < of_int (2 ^ 53)" by (simp only: of_int_less_iff)
  then show ?thesis by simp
qed

lemma float_of_real_huge:
  assumes "2 ^ 1025 \<le> x"
  shows "float_of_real x = PosInf"
proof -
  have x0: "0 < x"
  proof -
    have "(0::real) < 2 ^ 1025" by simp
    then show ?thesis using assms by linarith
  qed
  have "1 / 2 ^ 1022 \<le> \<bar>x\<bar>"
  proof -
    have "1 / (2::real) ^ 1022 \<le> 2 ^ 1025" by simp
    then show ?thesis using assms by linarith
  qed
  then have a0: "\<bar>round_to_double x - x\<bar> \<le> \<bar>x\<bar> / 2 ^ 53" by (rule round_to_double_normal)
  have ax: "\<bar>x\<bar> = x" using x0 by simp
  have a: "\<bar>round_to_double x - x\<bar> \<le> x / 2 ^ 53" using a0 unfolding ax .
  have b: "x / 2 ^ 53 \<le> x / 2" using x0 by (intro divide_left_mono) simp_all
  have c: "x / 2 \<le> round_to_double x" using a b by linarith
  have d: "(2::real) ^ 1024 \<le> x / 2" using assms by simp
  have "2 ^ 1024 \<le> round_to_double x" using c d by linarith
  then show ?thesis by (simp add: float_of_real_def Let_def)
qed

section \<open>Scale computation\<close>

text \<open>
  C2. When both dimensions of the image are at most \<open>max_size\<close>, \<open>resize_image\<close> returns the
  image itself, records the scale factor 1.0, and records the original size as both the
  original and the processed size.
\<close>

theorem resize_image_noop:
  assumes "fst (img_size img) \<le> max_size" and "snd (img_size img) \<le> max_size"
  shows "resize_image resample self img max_size =
           (self\<lparr>original_size := Some (img_size img),
                 processed_size := Some (img_size img),
                 scale_factor := Some 1\<rparr>, Inr img)"
  using assms by (cases "img_size img") (simp add: resize_image_def Let_def)

theorem resize_image_noop_witness:
  "resize_image plain_resample init_preprocessor \<lparr>img_size = (800, 600), pixels = ()\<rparr> 1024 =
     (\<lparr>original_size = Some (800, 600), processed_size = Some (800, 600), scale_factor = Some 1\<rparr>,
      Inr \<lparr>img_size = (800, 600), pixels = ()\<rparr>)"
  using resize_image_noop [of "\<lparr>img_size = (800, 600), pixels = ()\<rparr>" 1024 plain_resample init_preprocessor]
  by (simp add: init_preprocessor_def)

text \<open>The two divisions of \<open>resize_image\<close>, for sizes below \<open>2^53\<close>.\<close>

lemma int_truediv_floor:
  assumes p0: "0 \<le> p" and w0: "0 < w" and ps: "p < 2 ^ 53" and ws: "w < 2 ^ 53"
  shows "int_truediv p w = Inr (round_to_double (of_int p / of_int w))
       \<and> py_int (round_to_double (of_int p / of_int w)) = p div w"
proof -
  define x :: real where "x = of_int p / of_int w"
  define k where "k = p div w"
  have wr: "(0::real) < of_int w" using w0 by simp
  have pr: "(of_int p :: real) < 2 ^ 53" using ps by (rule real_less_two_53)
  have wl: "(of_int w :: real) < 2 ^ 53" using ws by (rule real_less_two_53)
  have x0: "0 \<le> x" using p0 w0 by (simp add: x_def)
  have w1: "(1::real) \<le> of_int w" using w0 by simp
  have xp: "x \<le> of_int p"
  proof -
    have "of_int p / of_int w \<le> (of_int p :: real) / 1"
      using p0 w1 by (intro divide_left_mono) simp_all
    then show ?thesis by (simp add: x_def)
  qed
  have xs: "\<bar>x\<bar> < 2 ^ 53" using x0 xp pr by simp
  have fin: "float_of_real x = Finite (round_to_double x)"
    using xs by (intro float_of_real_finite) simp
  have r: "int_truediv p w = Inr (round_to_double x)"
    using w0 fin by (simp add: int_truediv_def x_def)
  have kx: "k = \<lfloor>x\<rfloor>" unfolding k_def x_def by (simp add: floor_divide_of_int_eq)
  have k0: "0 \<le> k" using p0 w0 by (simp add: k_def pos_imp_zdiv_nonneg_iff)
  have lo: "of_int k \<le> round_to_double x"
    using xs by (intro round_to_double_ge_int) (simp_all add: kx)
  have hi: "round_to_double x < of_int k + 1"
  proof (cases "p = 0")
    case True
    then have "x = 0" by (simp add: x_def)
    then have "round_to_double x = 0" by (simp add: round_to_double_def)
    then show ?thesis using k0 by simp
  next
    case False
    then have p1: "(1::real) \<le> of_int p" using p0 by simp
    have pk: "p + 1 \<le> (k + 1) * w"
    proof -
      have "p = k * w + p mod w" by (simp add: k_def)
      moreover have "p mod w < w" using w0 by simp
      ultimately have "p < k * w + w" by linarith
      then show ?thesis by (simp add: algebra_simps)
    qed
    then have "(of_int (p + 1) :: real) \<le> of_int ((k + 1) * w)" by (simp only: of_int_le_iff)
    then have pk': "of_int p + 1 \<le> (of_int k + 1) * (of_int w :: real)" by simp
    have xk: "x + 1 / of_int w \<le> of_int k + 1"
    proof -
      have "x + 1 / of_int w = (of_int p + 1) / of_int w" by (simp add: x_def add_divide_distrib)
      also have "\<dots> \<le> ((of_int k + 1) * of_int w) / of_int w"
        using pk' wr by (intro divide_right_mono) simp_all
      also have "\<dots> = of_int k + 1" using wr by simp
      finally show ?thesis .
    qed
    have xl: "1 / of_int w \<le> x"
      using p1 wr by (simp add: x_def divide_right_mono)
    have "1 / (2::real) ^ 53 < 1 / of_int w" using wl wr by (simp add: field_simps)
    then have "1 / (2::real) ^ 1022 \<le> \<bar>x\<bar>" using xl x0
      by (simp add: order_trans [where y = "1 / (2::real) ^ 53"])
    then have e: "\<bar>round_to_double x - x\<bar> \<le> \<bar>x\<bar> / 2 ^ 53" by (rule round_to_double_normal)
    have "x / 2 ^ 53 < 1 / of_int w"
    proof -
      have "x / 2 ^ 53 = (of_int p / 2 ^ 53) / of_int w" by (simp add: x_def)
      also have "\<dots> < 1 / of_int w" using pr wr by (intro divide_strict_right_mono) simp_all
      finally show ?thesis .
    qed
    then show ?thesis using e xk x0 by linarith
  qed
  have rn: "0 \<le> round_to_double x" using lo k0 by (simp add: order_trans [where y = "of_int k"])
  have "\<lfloor>round_to_double x\<rfloor> = k" using lo hi by (intro floor_unique) simp_all
  then have "py_int (round_to_double x) = k" using rn by (simp add: py_int_def)
  then show ?thesis using r unfolding x_def k_def by simp
qed

lemma int_truediv_scale:
  assumes m0: "0 < m" and mM: "m \<le> M" and Ms: "M < 2 ^ 53"
  shows "int_truediv m M = Inr (round_to_double (of_int m / of_int M))
       \<and> 0 < round_to_double (of_int m / of_int M)
       \<and> round_to_double (of_int m / of_int M) \<le> 1
       \<and> 1 / 2 ^ 54 \<le> round_to_double (of_int m / of_int M)
       \<and> \<bar>round_to_double (of_int m / of_int M) - of_int m / of_int M\<bar>
           \<le> of_int m / of_int M / 2 ^ 53"
proof -
  define x :: real where "x = of_int m / of_int M"
  have M0: "0 < M" using m0 mM by simp
  have Mr: "(0::real) < of_int M" using M0 by simp
  have Ml: "(of_int M :: real) < 2 ^ 53" using Ms by (rule real_less_two_53)
  have m1: "(1::real) \<le> of_int m" using m0 by simp
  have x0: "0 < x" using m0 M0 by (simp add: x_def)
  have x1: "x \<le> 1" using mM M0 by (simp add: x_def)
  have xs: "\<bar>x\<bar> < 2 ^ 53" using x0 x1 by simp
  have fin: "float_of_real x = Finite (round_to_double x)"
    using xs by (intro float_of_real_finite) simp
  have r: "int_truediv m M = Inr (round_to_double x)"
    using M0 fin by (simp add: int_truediv_def x_def)
  have xl: "1 / of_int M \<le> x" using m1 Mr by (simp add: x_def divide_right_mono)
  have "1 / (2::real) ^ 53 < 1 / of_int M" using Ml Mr by (simp add: field_simps)
  then have "1 / (2::real) ^ 1022 \<le> \<bar>x\<bar>" using xl x0
    by (simp add: order_trans [where y = "1 / (2::real) ^ 53"])
  then have e: "\<bar>round_to_double x - x\<bar> \<le> \<bar>x\<bar> / 2 ^ 53" by (rule round_to_double_normal)
  have "x / 2 ^ 53 < x" using x0 by simp
  then have pos: "0 < round_to_double x" using e x0 by linarith
  have le: "round_to_double x \<le> 1"
    using round_to_double_le_int [of x 1] xs x1 by simp
  have lo: "1 / 2 ^ 54 \<le> round_to_double x"
  proof -
    have h: "x / 2 ^ 53 \<le> x / 2" using x0 by (intro divide_left_mono) simp_all
    have "1 / (2::real) ^ 53 < x" using \<open>1 / 2 ^ 53 < 1 / real_of_int M\<close> xl by linarith
    then have "1 / (2::real) ^ 54 \<le> x / 2" by simp
    then show ?thesis using e h x0 by linarith
  qed
  show ?thesis using r pos le lo e x0 unfolding x_def by simp
qed

lemma resize_image_value:
  assumes sz: "img_size img = (w, h)" and w0: "0 \<le> w" and h0: "0 \<le> h" and m0: "0 < max_size"
    and big: "max_size < w \<or> max_size < h" and small: "max w h * max_size < 2 ^ 53"
  shows "resize_image resample self img max_size =
           (self\<lparr>original_size := Some (w, h),
                 scale_factor := Some (round_to_double (of_int max_size / of_int (max w h))),
                 processed_size := Some (if h < w then (max_size, (h * max_size) div w)
                                         else ((w * max_size) div h, max_size))\<rparr>,
            resample img (if h < w then (max_size, (h * max_size) div w)
                          else ((w * max_size) div h, max_size)))"
proof (cases "h < w")
  case True
  then have wpos: "0 < w" and wbig: "max_size < w" using h0 big by auto
  have mx: "max w h = w" using True by simp
  have wm: "w * max_size < 2 ^ 53" using small mx by simp
  have "w * 1 \<le> w * max_size" using wpos m0 by (intro mult_left_mono) simp_all
  then have ws: "w < 2 ^ 53" using wm by simp
  have "h * max_size \<le> w * max_size" using True m0 by (intro mult_right_mono) simp_all
  then have ps: "h * max_size < 2 ^ 53" using wm by simp
  have p0: "0 \<le> h * max_size" using h0 m0 by simp
  define ratio where "ratio = round_to_double (of_int (h * max_size) / of_int w)"
  define factor where "factor = round_to_double (of_int max_size / of_int w)"
  have A: "int_truediv (h * max_size) w = Inr ratio" and B: "py_int ratio = (h * max_size) div w"
    using int_truediv_floor [OF p0 wpos ps ws] unfolding ratio_def by simp_all
  have S: "int_truediv max_size w = Inr factor"
    using int_truediv_scale [OF m0 _ ws, of ] wbig unfolding factor_def by simp
  have "resize_image resample self img max_size =
           (self\<lparr>original_size := Some (w, h), scale_factor := Some factor,
                 processed_size := Some (max_size, (h * max_size) div w)\<rparr>,
            resample img (max_size, (h * max_size) div w))"
    using sz True wbig A B S by (simp add: resize_image_def Let_def)
  then show ?thesis using True mx unfolding factor_def by simp
next
  case False
  then have hw: "w \<le> h" by simp
  then have hbig: "max_size < h" using big by auto
  then have hpos: "0 < h" using m0 by simp
  have mx: "max w h = h" using hw by simp
  have hm: "h * max_size < 2 ^ 53" using small mx by simp
  have "h * 1 \<le> h * max_size" using hpos m0 by (intro mult_left_mono) simp_all
  then have hs: "h < 2 ^ 53" using hm by simp
  have "w * max_size \<le> h * max_size" using hw m0 by (intro mult_right_mono) simp_all
  then have ps: "w * max_size < 2 ^ 53" using hm by simp
  have p0: "0 \<le> w * max_size" using w0 m0 by simp
  define ratio where "ratio = round_to_double (of_int (w * max_size) / of_int h)"
  define factor where "factor = round_to_double (of_int max_size / of_int h)"
  have A: "int_truediv (w * max_size) h = Inr ratio" and B: "py_int ratio = (w * max_size) div h"
    using int_truediv_floor [OF p0 hpos ps hs] unfolding ratio_def by simp_all
  have S: "int_truediv max_size h = Inr factor"
    using int_truediv_scale [OF m0 _ hs] hbig unfolding factor_def by simp
  have "resize_image resample self img max_size =
           (self\<lparr>original_size := Some (w, h), scale_factor := Some factor,
                 processed_size := Some ((w * max_size) div h, max_size)\<rparr>,
            resample img ((w * max_size) div h, max_size))"
    using sz False hw hbig A B S by (simp add: resize_image_def Let_def)
  then show ?thesis using False mx unfolding factor_def by simp
qed

text \<open>
  C3, as stated, fails: the non-binding dimension is not rounded to the nearest integer.
  For a 1500 x 1000 image and the bound 1024 the code records the processed size
  (1024, 682), while 1000 * 1024 / 1500 = 682.67 rounds to 683.
\<close>

theorem resize_image_round_counterexample:
  "processed_size
     (fst (resize_image plain_resample init_preprocessor \<lparr>img_size = (1500, 1000), pixels = ()\<rparr> 1024))
     = Some (1024, 682)
   \<and> round (1000 * 1024 / 1500 :: real) = 683"
  using resize_image_value [of "\<lparr>img_size = (1500, 1000), pixels = ()\<rparr>" 1500 1000 1024
      plain_resample init_preprocessor]
  by (simp add: round_def)

text \<open>
  The recorded scale factor is the quotient rounded to a double, so the processed size is
  in general not the original size times the recorded factor, rounded down: for a
  1474 x 1000 image and the bound 1024 the factor is 1564343968258951 / 2^51, just below
  1024 / 1474, and 1474 times it is below the recorded width 1024.
\<close>

lemma resize_image_factor_rounded:
  "fst (resize_image plain_resample init_preprocessor \<lparr>img_size = (1474, 1000), pixels = ()\<rparr> 1024)
     = \<lparr>original_size = Some (1474, 1000), processed_size = Some (1024, 694),
        scale_factor = Some (1564343968258951 / 2 ^ 51)\<rparr>
   \<and> \<lfloor>1474 * (1564343968258951 / 2 ^ 51 :: real)\<rfloor> = 1023"
proof -
  have e: "float_exponent (1024 / 1474) = - 1"
    by (rule float_exponent_eq) simp_all
  have r: "round_to_double (1024 / 1474) = 1564343968258951 / 2 ^ 51"
    unfolding round_to_double_def float_quantum_def e
    by (simp add: round_half_even_def Let_def)
  show ?thesis
    using resize_image_value [of "\<lparr>img_size = (1474, 1000), pixels = ()\<rparr>" 1474 1000 1024
        plain_resample init_preprocessor] r
    by (simp add: init_preprocessor_def)
qed

text \<open>
  C3, amended. For an image of non-negative size with a dimension above a positive bound
  \<open>max_size\<close>, the sizes being such that \<open>max(dim) * max_size < 2^53\<close>, \<open>resize_image\<close>
  records the larger (binding) dimension as exactly \<open>max_size\<close> and the other one as
  \<open>int(dim * max_size / max(dim))\<close>, which is the quotient truncated (rounded down), and
  passes that size to the resampling filter; the recorded working size is the floor of the
  original size times \<open>max_size / max(dim)\<close>. The recorded scale factor is
  \<open>max_size / max(dim)\<close> as a float, the double nearest to the quotient (within the relative
  error \<open>2^-53\<close>), and lies in (0, 1], not below \<open>2^-54\<close>.
\<close>

theorem resize_image_scaled:
  assumes sz: "img_size img = (w, h)" and w0: "0 \<le> w" and h0: "0 \<le> h" and m0: "0 < max_size"
    and big: "max_size < w \<or> max_size < h" and small: "max w h * max_size < 2 ^ 53"
  shows "\<exists>s. resize_image resample self img max_size =
           (self\<lparr>original_size := Some (w, h),
                 scale_factor := Some s,
                 processed_size := Some (if h < w then (max_size, (h * max_size) div w)
                                         else ((w * max_size) div h, max_size))\<rparr>,
            resample img (if h < w then (max_size, (h * max_size) div w)
                          else ((w * max_size) div h, max_size)))
         \<and> s = round_to_double (of_int max_size / of_int (max w h))
         \<and> \<bar>s - of_int max_size / of_int (max w h)\<bar> \<le> of_int max_size / of_int (max w h) / 2 ^ 53
         \<and> 0 < s \<and> s \<le> 1 \<and> 1 / 2 ^ 54 \<le> s
         \<and> (if h < w then (max_size, (h * max_size) div w) else ((w * max_size) div h, max_size))
             = (\<lfloor>of_int w * (of_int max_size / of_int (max w h) :: real)\<rfloor>,
                \<lfloor>of_int h * (of_int max_size / of_int (max w h) :: real)\<rfloor>)"
proof -
  define M where "M = max w h"
  have Mbig: "max_size < M" using big by (auto simp: M_def)
  have M0: "0 < M" using Mbig m0 by simp
  have "M * 1 \<le> M * max_size" using M0 m0 by (intro mult_left_mono) simp_all
  then have Ms: "M < 2 ^ 53" using small by (simp add: M_def)
  have mM: "max_size \<le> M" using Mbig by simp
  note sc = int_truediv_scale [OF m0 mM Ms]
  have fl: "(if h < w then (max_size, (h * max_size) div w) else ((w * max_size) div h, max_size))
             = (\<lfloor>of_int w * (of_int max_size / of_int M :: real)\<rfloor>,
                \<lfloor>of_int h * (of_int max_size / of_int M :: real)\<rfloor>)"
  proof (cases "h < w")
    case True
    then have mx: "M = w" and wpos: "0 < w" using h0 by (auto simp: M_def)
    have f1: "\<lfloor>of_int w * (of_int max_size / of_int w :: real)\<rfloor> = max_size"
      using wpos by simp
    have f2: "\<lfloor>of_int h * (of_int max_size / of_int w :: real)\<rfloor> = (h * max_size) div w"
      using floor_divide_of_int_eq [of "h * max_size" w, where ?'a = real] by simp
    show ?thesis using True f1 f2 unfolding mx by simp
  next
    case False
    then have mx: "M = h" and hpos: "0 < h" using M0 by (auto simp: M_def)
    have f1: "\<lfloor>of_int h * (of_int max_size / of_int h :: real)\<rfloor> = max_size"
      using hpos by simp
    have f2: "\<lfloor>of_int w * (of_int max_size / of_int h :: real)\<rfloor> = (w * max_size) div h"
      using floor_divide_of_int_eq [of "w * max_size" h, where ?'a = real] by simp
    show ?thesis using False f1 f2 unfolding mx by simp
  qed
  show ?thesis
    using resize_image_value [OF sz w0 h0 m0 big small, of resample self] sc fl
    unfolding M_def by blast
qed

theorem resize_image_scaled_witness:
  "\<exists>s :: real. resize_image plain_resample init_preprocessor \<lparr>img_size = (1600, 1200), pixels = ()\<rparr> 1024 =
     (\<lparr>original_size = Some (1600, 1200), processed_size = Some (1024, 768),
       scale_factor = Some s\<rparr>,
      Inr \<lparr>img_size = (1024, 768), pixels = ()\<rparr>)
   \<and> \<bar>s - 1024 / 1600\<bar> \<le> 1024 / 1600 / 2 ^ 53 \<and> 0 < s \<and> s \<le> 1
   \<and> ((1024, 768) :: int \<times> int) = (\<lfloor>1600 * (1024 / 1600 :: real)\<rfloor>, \<lfloor>1200 * (1024 / 1600 :: real)\<rfloor>)"
  using resize_image_scaled [of "\<lparr>img_size = (1600, 1200), pixels = ()\<rparr>" 1600 1200 1024
      plain_resample init_preprocessor]
  by (simp add: init_preprocessor_def plain_resample_def)

section \<open>Mapping a box back to the original image\<close>

lemma clamp_coord_in_range: "0 < w \<Longrightarrow> num_in_range 0 (of_int w) (clamp_coord w v)"
  by (cases v) (auto simp: clamp_coord_def)

lemma convert_coordinates_no_scale:
  "scale_factor self = None \<or> original_size self = None \<Longrightarrow>
   convert_coordinates_to_original self bbox = Inl ValueError"
  by (auto simp: convert_coordinates_to_original_def split: option.splits)

lemma convert_coordinates_returns_in_range:
  assumes sf: "scale_factor self = Some s" and sz: "original_size self = Some (W, H)"
    and W0: "0 < W" and H0: "0 < H"
    and r: "convert_coordinates_to_original self bbox = Inr res"
  shows "\<exists>a b c d. res = PList [a, b, c, d]
       \<and> num_in_range 0 (of_int W) a \<and> num_in_range 0 (of_int H) b
       \<and> num_in_range 0 (of_int W) c \<and> num_in_range 0 (of_int H) d"
proof -
  obtain xs where xs: "py_iter bbox = Inr xs"
    using r sf sz by (auto simp: convert_coordinates_to_original_def split: sum.splits)
  obtain x1 y1 x2 y2 where l: "xs = [x1, y1, x2, y2]"
    using r sf sz xs by (auto simp: convert_coordinates_to_original_def split: list.splits)
  obtain f1 g1 f2 g2 where d: "py_truediv x1 s = Inr f1" "py_truediv y1 s = Inr g1"
      "py_truediv x2 s = Inr f2" "py_truediv y2 s = Inr g2"
    using r sf sz xs l by (auto simp: convert_coordinates_to_original_def split: sum.splits)
  have "res = PList [clamp_coord W f1, clamp_coord H g1, clamp_coord W f2, clamp_coord H g2]"
    using r sf sz xs l d by (simp add: convert_coordinates_to_original_def)
  then show ?thesis using W0 H0 by (simp add: clamp_coord_in_range)
qed

lemma convert_coordinates_value:
  assumes "scale_factor self = Some s" "original_size self = Some (W, H)"
    "py_truediv x1 s = Inr f1" "py_truediv y1 s = Inr g1"
    "py_truediv x2 s = Inr f2" "py_truediv y2 s = Inr g2"
  shows "convert_coordinates_to_original self (PList [x1, y1, x2, y2]) =
     Inr (PList [clamp_coord W f1, clamp_coord H g1, clamp_coord W f2, clamp_coord H g2])"
  using assms by (simp add: convert_coordinates_to_original_def)

lemma clamp_coord_near:
  assumes "0 \<le> u" "u \<le> of_int w"
  shows "\<bar>num_value (clamp_coord w (Finite r)) - u\<bar> \<le> \<bar>r - u\<bar>"
  using assms by (auto simp: clamp_coord_def)

lemma py_truediv_float: "s \<noteq> 0 \<Longrightarrow> py_truediv (PFloat f) s = Inr (float_div f s)"
  by (simp add: py_truediv_def)

lemma py_truediv_int:
  "\<bar>n\<bar> < 2 ^ 53 \<Longrightarrow> py_truediv (PInt n) s = py_truediv (PFloat (Finite (of_int n))) s"
  by (simp add: py_truediv_def int_to_float_def float_of_real_int)

lemma float_div_close:
  assumes b: "\<bar>t / s\<bar> < 2 ^ 1023"
  shows "float_div (Finite t) s = Finite (round_to_double (t / s))
       \<and> \<bar>round_to_double (t / s) - t / s\<bar> \<le> \<bar>t / s\<bar> / 2 ^ 53 + 1 / 2 ^ 1075"
  using float_of_real_finite [OF b] round_to_double_close [of "t / s"] by simp

lemma roundtrip_coord:
  assumes sl: "1 / 2 ^ 1022 \<le> s" and s1: "s \<le> 1" and U0: "0 \<le> U" and UW: "U \<le> of_int W"
    and Ws: "W < 2 ^ 53"
  shows "\<exists>r. py_truediv (PFloat (float_of_real (U * s))) s = Inr (Finite r)
           \<and> \<bar>num_value (clamp_coord W (Finite r)) - U\<bar> \<le> (U + 1) / 2 ^ 51"
proof -
  define eps :: real where "eps = 1 / 2 ^ 1075"
  define delta where "delta = (U + 1) / 2 ^ 53"
  have s0: "0 < s"
  proof -
    have "(0::real) < 1 / 2 ^ 1022" by simp
    then show ?thesis using sl by linarith
  qed
  have Us: "U < 2 ^ 53" using UW real_less_two_53 [OF Ws] by linarith
  define y where "y = U * s"
  have y0: "0 \<le> y" using U0 s0 by (simp add: y_def)
  have yU: "y \<le> U"
  proof -
    have "U * s \<le> U * 1" using U0 s1 by (intro mult_left_mono) simp_all
    then show ?thesis by (simp add: y_def)
  qed
  have "\<bar>y\<bar> < 2 ^ 1023" using y0 yU Us by simp
  then have ft: "float_of_real y = Finite (round_to_double y)" by (rule float_of_real_finite)
  define t where "t = round_to_double y"
  define z where "z = t / s"
  have ty: "\<bar>t - y\<bar> \<le> y / 2 ^ 53 + eps"
    using round_to_double_close [of y] y0 by (simp add: t_def eps_def)
  have es: "eps / s \<le> 1 / 2 ^ 53"
  proof -
    have "eps / s \<le> eps / (1 / 2 ^ 1022)" using sl by (intro divide_left_mono) (simp_all add: eps_def)
    also have "\<dots> = 1 / 2 ^ 53" by (simp add: eps_def)
    finally show ?thesis .
  qed
  have zU: "\<bar>z - U\<bar> \<le> delta"
  proof -
    have "z - U = (t - y) / s" using s0 by (simp add: z_def y_def field_simps)
    then have "\<bar>z - U\<bar> = \<bar>t - y\<bar> / s" using s0 by simp
    also have "\<dots> \<le> (y / 2 ^ 53 + eps) / s" using ty s0 by (intro divide_right_mono) simp_all
    also have "\<dots> = U / 2 ^ 53 + eps / s" using s0 by (simp add: y_def add_divide_distrib)
    also have "\<dots> \<le> U / 2 ^ 53 + 1 / 2 ^ 53" using es by simp
    also have "\<dots> = delta" by (simp add: delta_def add_divide_distrib)
    finally show ?thesis .
  qed
  have d0: "0 \<le> delta" and dU: "delta \<le> U + 1" and ed: "eps \<le> delta"
  proof -
    show "0 \<le> delta" using U0 by (simp add: delta_def)
    have "(U + 1) / 2 ^ 53 \<le> (U + 1) / 1" using U0 by (intro divide_left_mono) simp_all
    then show "delta \<le> U + 1" by (simp add: delta_def)
    have "eps \<le> 1 / 2 ^ 53" by (simp add: eps_def)
    also have "\<dots> \<le> (U + 1) / 2 ^ 53" using U0 by (intro divide_right_mono) simp_all
    finally show "eps \<le> delta" by (simp add: delta_def)
  qed
  have za: "\<bar>z\<bar> \<le> U + delta" using zU U0 by linarith
  have "\<bar>z\<bar> < 2 ^ 1023"
  proof -
    have "\<bar>z\<bar> < 2 ^ 53 + (2 ^ 53 + 1)" using za dU Us by linarith
    also have "\<dots> \<le> (2::real) ^ 1023" by simp
    finally show ?thesis .
  qed
  then have fz: "float_of_real z = Finite (round_to_double z)" by (rule float_of_real_finite)
  have rz: "\<bar>round_to_double z - z\<bar> \<le> 2 * delta + eps"
  proof -
    have "\<bar>round_to_double z - z\<bar> \<le> \<bar>z\<bar> / 2 ^ 53 + eps"
      using round_to_double_close [of z] by (simp add: eps_def)
    moreover have "\<bar>z\<bar> / 2 ^ 53 \<le> (U + delta) / 2 ^ 53" using za by (intro divide_right_mono) simp_all
    moreover have "(U + delta) / 2 ^ 53 \<le> (U + (U + 1)) / 2 ^ 53"
      using dU by (intro divide_right_mono) simp_all
    moreover have "(U + (U + 1)) / 2 ^ 53 \<le> 2 * delta" using U0 by (simp add: delta_def field_simps)
    ultimately show ?thesis by linarith
  qed
  have "\<bar>round_to_double z - U\<bar> \<le> 4 * delta" using rz zU ed by linarith
  also have "4 * delta = (U + 1) / 2 ^ 51" by (simp add: delta_def)
  finally have rU: "\<bar>round_to_double z - U\<bar> \<le> (U + 1) / 2 ^ 51" .
  have "py_truediv (PFloat (float_of_real (U * s))) s = Inr (Finite (round_to_double z))"
    using ft fz s0 unfolding y_def t_def z_def by (simp add: py_truediv_float)
  moreover have "\<bar>num_value (clamp_coord W (Finite (round_to_double z))) - U\<bar> \<le> (U + 1) / 2 ^ 51"
    using clamp_coord_near [OF U0 UW, of "round_to_double z"] rU by linarith
  ultimately show ?thesis by blast
qed

lemma convert_coordinates_roundtrip:
  assumes sf: "scale_factor self = Some s" and sz: "original_size self = Some (W, H)"
    and sl: "1 / 2 ^ 1022 \<le> s" and s1: "s \<le> 1" and Ws: "W < 2 ^ 53" and Hs: "H < 2 ^ 53"
    and u1: "0 \<le> u1" "u1 \<le> of_int W" and v1: "0 \<le> v1" "v1 \<le> of_int H"
    and u2: "0 \<le> u2" "u2 \<le> of_int W" and v2: "0 \<le> v2" "v2 \<le> of_int H"
  shows "\<exists>a b c d.
      convert_coordinates_to_original self
        (PList [PFloat (float_of_real (u1 * s)), PFloat (float_of_real (v1 * s)),
                PFloat (float_of_real (u2 * s)), PFloat (float_of_real (v2 * s))])
        = Inr (PList [a, b, c, d])
    \<and> \<bar>num_value a - u1\<bar> \<le> (u1 + 1) / 2 ^ 51
    \<and> \<bar>num_value b - v1\<bar> \<le> (v1 + 1) / 2 ^ 51
    \<and> \<bar>num_value c - u2\<bar> \<le> (u2 + 1) / 2 ^ 51
    \<and> \<bar>num_value d - v2\<bar> \<le> (v2 + 1) / 2 ^ 51"
proof -
  obtain r1 where r1: "py_truediv (PFloat (float_of_real (u1 * s))) s = Inr (Finite r1)"
      "\<bar>num_value (clamp_coord W (Finite r1)) - u1\<bar> \<le> (u1 + 1) / 2 ^ 51"
    using roundtrip_coord [OF sl s1 u1 Ws] by blast
  obtain q1 where q1: "py_truediv (PFloat (float_of_real (v1 * s))) s = Inr (Finite q1)"
      "\<bar>num_value (clamp_coord H (Finite q1)) - v1\<bar> \<le> (v1 + 1) / 2 ^ 51"
    using roundtrip_coord [OF sl s1 v1 Hs] by blast
  obtain r2 where r2: "py_truediv (PFloat (float_of_real (u2 * s))) s = Inr (Finite r2)"
      "\<bar>num_value (clamp_coord W (Finite r2)) - u2\<bar> \<le> (u2 + 1) / 2 ^ 51"
    using roundtrip_coord [OF sl s1 u2 Ws] by blast
  obtain q2 where q2: "py_truediv (PFloat (float_of_real (v2 * s))) s = Inr (Finite q2)"
      "\<bar>num_value (clamp_coord H (Finite q2)) - v2\<bar> \<le> (v2 + 1) / 2 ^ 51"
    using roundtrip_coord [OF sl s1 v2 Hs] by blast
  show ?thesis
    using convert_coordinates_value [OF sf sz r1(1) q1(1) r2(1) q2(1)] r1(2) q1(2) r2(2) q2(2)
    by blast
qed

text \<open>
  An int beyond the range of a double does not divide: the conversion of the operand
  raises OverflowError, and no box is returned.
\<close>

lemma huge_int_raises:
  "py_truediv (PInt (10 ^ 400)) s = Inl OverflowError
   \<and> convert_coordinates_to_original
        \<lparr>original_size = Some (2048, 1536), processed_size = Some (1024, 768),
         scale_factor = Some (1 / 2)\<rparr>
        (PList [PInt (10 ^ 400), PInt 0, PInt 1, PInt 1]) = Inl OverflowError"
proof -
  have "float_of_real (of_int (10 ^ 400)) = PosInf"
    by (rule float_of_real_huge) simp
  then have "\<And>s. py_truediv (PInt (10 ^ 400)) s = Inl OverflowError"
    by (simp add: py_truediv_def int_to_float_def)
  then show ?thesis by (simp add: convert_coordinates_to_original_def)
qed

text \<open>
  The tolerance is not zero: with the scale factor recorded for a 1474 x 1000 image and
  the bound 1024, the coordinate 7 scaled is the float 684400486113291 / 2^47, and dividing
  it by the factor gives 7881299347898367 / 2^50, just below 7.
\<close>

lemma roundtrip_not_exact:
  "float_of_real (7 * (1564343968258951 / 2 ^ 51)) = Finite (684400486113291 / 2 ^ 47)
   \<and> py_truediv (PFloat (Finite (684400486113291 / 2 ^ 47))) (1564343968258951 / 2 ^ 51)
       = Inr (Finite (7881299347898367 / 2 ^ 50))
   \<and> (7881299347898367 / 2 ^ 50 :: real) < 7"
proof -
  have a: "round_to_double (7 * (1564343968258951 / 2 ^ 51)) = 684400486113291 / 2 ^ 47"
    by (subst round_to_double_eval [where e = 2]) (simp_all add: round_half_even_def Let_def)
  have b: "round_to_double ((684400486113291 / 2 ^ 47) / (1564343968258951 / 2 ^ 51))
             = 7881299347898367 / 2 ^ 50"
    by (subst round_to_double_eval [where e = 2]) (simp_all add: round_half_even_def Let_def)
  have fa: "float_of_real (7 * (1564343968258951 / 2 ^ 51)) = Finite (684400486113291 / 2 ^ 47)"
    unfolding a [symmetric] by (rule float_of_real_finite) simp
  have fb: "float_of_real ((684400486113291 / 2 ^ 47) / (1564343968258951 / 2 ^ 51))
             = Finite (7881299347898367 / 2 ^ 50)"
    unfolding b [symmetric] by (rule float_of_real_finite) simp
  have "py_truediv (PFloat (Finite (684400486113291 / 2 ^ 47))) (1564343968258951 / 2 ^ 51)
       = Inr (float_of_real ((684400486113291 / 2 ^ 47) / (1564343968258951 / 2 ^ 51)))"
    by (subst py_truediv_float) simp_all
  then show ?thesis using fa fb by simp
qed

text \<open>
  C1. With a recorded scale factor \<open>s > 0\<close> (in particular \<open>s\<close> in (0, 1]) and a recorded
  original size \<open>(W, H)\<close> with \<open>W, H > 0\<close>: whatever box \<open>convert_coordinates_to_original\<close>
  is given, a box it returns has four coordinates, the x coordinates in \<open>[0, W]\<close> and the y
  coordinates in \<open>[0, H]\<close> (a box with an element that is not a number, or an int beyond
  the range of a double, raises and returns nothing). For a box of four elements whose
  divisions by \<open>s\<close> return, it returns the four clamped quotients. A float operand always
  divides, an int below \<open>2^53\<close> in magnitude divides as the float of the same value, and
  the quotient of a finite float \<open>t\<close>, not too large, is \<open>t / s\<close> rounded to a double, within
  the relative error \<open>2^-53\<close> (and \<open>2^-1075\<close>). Round trip: for \<open>s\<close> in \<open>[2^-1022, 1]\<close>
  and \<open>W, H < 2^53\<close>, a box \<open>(u1, v1, u2, v2)\<close> of the original image within the bounds,
  scaled by the float products \<open>u * s\<close>, maps back to a box whose coordinates are within
  \<open>(u + 1) / 2^51\<close> of the coordinates \<open>u\<close> of the box: the rounding tolerance of the two
  float operations. (The factors \<open>resize_image\<close> records are in this range.)
\<close>

theorem convert_coordinates_to_original_bounded:
  assumes sf: "scale_factor self = Some s" and s0: "0 < s"
    and sz: "original_size self = Some (W, H)" and W0: "0 < W" and H0: "0 < H"
  shows "(\<forall>bbox res. convert_coordinates_to_original self bbox = Inr res \<longrightarrow>
          (\<exists>a b c d. res = PList [a, b, c, d]
             \<and> num_in_range 0 (of_int W) a \<and> num_in_range 0 (of_int H) b
             \<and> num_in_range 0 (of_int W) c \<and> num_in_range 0 (of_int H) d))
    \<and> (\<forall>x1 y1 x2 y2 f1 g1 f2 g2.
          py_truediv x1 s = Inr f1 \<and> py_truediv y1 s = Inr g1
          \<and> py_truediv x2 s = Inr f2 \<and> py_truediv y2 s = Inr g2 \<longrightarrow>
          convert_coordinates_to_original self (PList [x1, y1, x2, y2]) =
            Inr (PList [clamp_coord W f1, clamp_coord H g1, clamp_coord W f2, clamp_coord H g2]))
    \<and> (\<forall>f. py_truediv (PFloat f) s = Inr (float_div f s))
    \<and> (\<forall>n. \<bar>n\<bar> < 2 ^ 53 \<longrightarrow> py_truediv (PInt n) s = Inr (float_div (Finite (of_int n)) s))
    \<and> (\<forall>t. \<bar>t / s\<bar> < 2 ^ 1023 \<longrightarrow>
          float_div (Finite t) s = Finite (round_to_double (t / s))
          \<and> \<bar>round_to_double (t / s) - t / s\<bar> \<le> \<bar>t / s\<bar> / 2 ^ 53 + 1 / 2 ^ 1075)
    \<and> (1 / 2 ^ 1022 \<le> s \<and> s \<le> 1 \<and> W < 2 ^ 53 \<and> H < 2 ^ 53 \<longrightarrow>
        (\<forall>u1 v1 u2 v2.
           0 \<le> u1 \<and> u1 \<le> of_int W \<and> 0 \<le> v1 \<and> v1 \<le> of_int H
           \<and> 0 \<le> u2 \<and> u2 \<le> of_int W \<and> 0 \<le> v2 \<and> v2 \<le> of_int H \<longrightarrow>
           (\<exists>a b c d.
              convert_coordinates_to_original self
                (PList [PFloat (float_of_real (u1 * s)), PFloat (float_of_real (v1 * s)),
                        PFloat (float_of_real (u2 * s)), PFloat (float_of_real (v2 * s))])
                = Inr (PList [a, b, c, d])
            \<and> \<bar>num_value a - u1\<bar> \<le> (u1 + 1) / 2 ^ 51
            \<and> \<bar>num_value b - v1\<bar> \<le> (v1 + 1) / 2 ^ 51
            \<and> \<bar>num_value c - u2\<bar> \<le> (u2 + 1) / 2 ^ 51
            \<and> \<bar>num_value d - v2\<bar> \<le> (v2 + 1) / 2 ^ 51)))"
proof (intro conjI)
  show "\<forall>bbox res. convert_coordinates_to_original self bbox = Inr res \<longrightarrow>
          (\<exists>a b c d. res = PList [a, b, c, d]
             \<and> num_in_range 0 (of_int W) a \<and> num_in_range 0 (of_int H) b
             \<and> num_in_range 0 (of_int W) c \<and> num_in_range 0 (of_int H) d)"
    using convert_coordinates_returns_in_range [OF sf sz W0 H0] by blast
  show "\<forall>x1 y1 x2 y2 f1 g1 f2 g2.
          py_truediv x1 s = Inr f1 \<and> py_truediv y1 s = Inr g1
          \<and> py_truediv x2 s = Inr f2 \<and> py_truediv y2 s = Inr g2 \<longrightarrow>
          convert_coordinates_to_original self (PList [x1, y1, x2, y2]) =
            Inr (PList [clamp_coord W f1, clamp_coord H g1, clamp_coord W f2, clamp_coord H g2])"
    using convert_coordinates_value [OF sf sz] by blast
  show "\<forall>f. py_truediv (PFloat f) s = Inr (float_div f s)"
    using s0 by (simp add: py_truediv_float)
  show "\<forall>n. \<bar>n\<bar> < 2 ^ 53 \<longrightarrow> py_truediv (PInt n) s = Inr (float_div (Finite (of_int n)) s)"
    using s0 by (simp add: py_truediv_int py_truediv_float)
  show "\<forall>t. \<bar>t / s\<bar> < 2 ^ 1023 \<longrightarrow>
          float_div (Finite t) s = Finite (round_to_double (t / s))
          \<and> \<bar>round_to_double (t / s) - t / s\<bar> \<le> \<bar>t / s\<bar> / 2 ^ 53 + 1 / 2 ^ 1075"
    using float_div_close by blast
  show "1 / 2 ^ 1022 \<le> s \<and> s \<le> 1 \<and> W < 2 ^ 53 \<and> H < 2 ^ 53 \<longrightarrow>
        (\<forall>u1 v1 u2 v2.
           0 \<le> u1 \<and> u1 \<le> of_int W \<and> 0 \<le> v1 \<and> v1 \<le> of_int H
           \<and> 0 \<le> u2 \<and> u2 \<le> of_int W \<and> 0 \<le> v2 \<and> v2 \<le> of_int H \<longrightarrow>
           (\<exists>a b c d.
              convert_coordinates_to_original self
                (PList [PFloat (float_of_real (u1 * s)), PFloat (float_of_real (v1 * s)),
                        PFloat (float_of_real (u2 * s)), PFloat (float_of_real (v2 * s))])
                = Inr (PList [a, b, c, d])
            \<and> \<bar>num_value a - u1\<bar> \<le> (u1 + 1) / 2 ^ 51
            \<and> \<bar>num_value b - v1\<bar> \<le> (v1 + 1) / 2 ^ 51
            \<and> \<bar>num_value c - u2\<bar> \<le> (u2 + 1) / 2 ^ 51
            \<and> \<bar>num_value d - v2\<bar> \<le> (v2 + 1) / 2 ^ 51))"
    using convert_coordinates_roundtrip [OF sf sz] by blast
qed

theorem convert_coordinates_to_original_bounded_witness:
  "convert_coordinates_to_original
     \<lparr>original_size = Some (2048, 1536), processed_size = Some (1024, 768),
      scale_factor = Some (1 / 2)\<rparr>
     (PList [PInt 100, PInt 100, PInt 200, PInt 200])
   = Inr (PList [PFloat (Finite 200), PFloat (Finite 200),
                 PFloat (Finite 400), PFloat (Finite 400)])
   \<and> num_in_range 0 2048 (PFloat (Finite 200)) \<and> num_in_range 0 1536 (PFloat (Finite 400))
   \<and> (\<exists>a b c d.
         convert_coordinates_to_original
           \<lparr>original_size = Some (2048, 1536), processed_size = Some (1024, 768),
            scale_factor = Some (1 / 2)\<rparr>
           (PList [PFloat (float_of_real (200 * (1 / 2))), PFloat (float_of_real (200 * (1 / 2))),
                   PFloat (float_of_real (400 * (1 / 2))), PFloat (float_of_real (400 * (1 / 2)))])
           = Inr (PList [a, b, c, d])
         \<and> \<bar>num_value a - 200\<bar> \<le> 201 / 2 ^ 51 \<and> \<bar>num_value b - 200\<bar> \<le> 201 / 2 ^ 51
         \<and> \<bar>num_value c - 400\<bar> \<le> 401 / 2 ^ 51 \<and> \<bar>num_value d - 400\<bar> \<le> 401 / 2 ^ 51)"
proof -
  define pp where "pp = \<lparr>original_size = Some (2048, 1536), processed_size = Some (1024, 768),
      scale_factor = Some (1 / 2 :: real)\<rparr>"
  have sf: "scale_factor pp = Some (1 / 2)" and sz: "original_size pp = Some (2048, 1536)"
    by (simp_all add: pp_def)
  have s0: "(0::real) < 1 / 2" and W0: "(0::int) < 2048" and H0: "(0::int) < 1536" by simp_all
  note t = convert_coordinates_to_original_bounded [OF sf s0 sz W0 H0]
  have f200: "float_of_real 200 = Finite 200" and f400: "float_of_real 400 = Finite 400"
    using float_of_real_int [of 200] float_of_real_int [of 400] by simp_all
  have d1: "py_truediv (PInt 100) (1 / 2) = Inr (Finite 200)"
    using t [THEN conjunct2, THEN conjunct2, THEN conjunct2, THEN conjunct1, rule_format, of 100] f200
    by simp
  have d2: "py_truediv (PInt 200) (1 / 2) = Inr (Finite 400)"
    using t [THEN conjunct2, THEN conjunct2, THEN conjunct2, THEN conjunct1, rule_format, of 200] f400
    by simp
  have v: "convert_coordinates_to_original pp (PList [PInt 100, PInt 100, PInt 200, PInt 200])
      = Inr (PList [PFloat (Finite 200), PFloat (Finite 200), PFloat (Finite 400), PFloat (Finite 400)])"
    using t [THEN conjunct2, THEN conjunct1, rule_format, OF conjI [OF d1 conjI [OF d1 conjI [OF d2 d2]]]]
    by (simp add: clamp_coord_def)
  have r: "\<exists>a b c d.
         convert_coordinates_to_original pp
           (PList [PFloat (float_of_real (200 * (1 / 2))), PFloat (float_of_real (200 * (1 / 2))),
                   PFloat (float_of_real (400 * (1 / 2))), PFloat (float_of_real (400 * (1 / 2)))])
           = Inr (PList [a, b, c, d])
         \<and> \<bar>num_value a - 200\<bar> \<le> 201 / 2 ^ 51 \<and> \<bar>num_value b - 200\<bar> \<le> 201 / 2 ^ 51
         \<and> \<bar>num_value c - 400\<bar> \<le> 401 / 2 ^ 51 \<and> \<bar>num_value d - 400\<bar> \<le> 401 / 2 ^ 51"
    using t [THEN conjunct2, THEN conjunct2, THEN conjunct2, THEN conjunct2, THEN conjunct2,
             rule_format, of 200 200 400 400]
    by simp
  show ?thesis using v r unfolding pp_def by simp
qed

text \<open>
  C8, as stated, fails: the agent's conversion does not fail when no scale information is
  available. A fresh agent (no image encoded, as for an image given by URL) returns the
  boxes it was given, unscaled.
\<close>

theorem agent_convert_unscaled_counterexample:
  "agent_convert_coordinates_to_original init_agent
     [PDict [(asc ''bbox_2d'', PList [PInt 10, PInt 20, PInt 30, PInt 40]),
             (asc ''label'', PStr (asc ''handle''))]]
   = Inr [PDict [(asc ''bbox_2d'', PList [PInt 10, PInt 20, PInt 30, PInt 40]),
                 (asc ''label'', PStr (asc ''handle''))]]"
  by (simp add: agent_convert_coordinates_to_original_def init_agent_def)

text \<open>
  C8, amended. The preprocessor's \<open>convert_coordinates_to_original\<close> raises (a ValueError)
  for every box when the scale factor or the original size is not recorded, and returns no
  coordinates; the agent's \<open>convert_coordinates_to_original\<close>, when the agent holds no
  scale information, returns the results it was given unchanged.
\<close>

theorem convert_without_scale:
  "(scale_factor pp = None \<or> original_size pp = None \<longrightarrow>
      convert_coordinates_to_original pp bbox = Inl ValueError)
   \<and> (agent_scale_info ag = None \<longrightarrow>
      agent_convert_coordinates_to_original ag segmentation_results = Inr segmentation_results)"
  by (auto simp: convert_coordinates_no_scale agent_convert_coordinates_to_original_def)

theorem convert_without_scale_witness:
  "scale_factor init_preprocessor = None
   \<and> convert_coordinates_to_original init_preprocessor (PList [PInt 10, PInt 20, PInt 30, PInt 40])
       = Inl ValueError
   \<and> agent_scale_info init_agent = None
   \<and> agent_convert_coordinates_to_original init_agent [PNone] = Inr [PNone]"
  using convert_without_scale
    [of init_preprocessor "PList [PInt 10, PInt 20, PInt 30, PInt 40]" init_agent "[PNone]"]
  by (simp add: init_preprocessor_def init_agent_def)

section \<open>The pipeline\<close>

text \<open>Facts about the strategist and about the handler of \<open>process\<close>.\<close>

lemma report_failure_raises: "report_failure image_path total_time msg = Inl (Raised ValidationError)"
  by (simp add: report_failure_def DetectedObject_def split: sum.splits)

lemma analyze_user_intent_default:
  "analyze_user_intent env instruction scene = Inr (default_intent instruction)"
  by (simp add: analyze_user_intent_def analyze_user_intent_body_def split: attempt.splits)

lemma select_target_object_empty:
  "scene_objects scene = [] \<Longrightarrow> select_target_object intent scene = None"
proof -
  assume e: "scene_objects scene = []"
  have f: "\<And>cs. first_of_categories cs [] = None"
    subgoal for cs by (induction cs) simp_all
    done
  show ?thesis using e f
    by (simp add: select_target_object_def Let_def split: option.splits)
qed

lemma select_target_object_nonempty:
  "scene_objects scene \<noteq> [] \<Longrightarrow> select_target_object intent scene \<noteq> None"
  by (auto simp: select_target_object_def Let_def split: option.splits list.splits)

lemma select_functional_part_some: "select_functional_part env target intent \<noteq> None"
  by (simp add: select_functional_part_def Let_def split: list.splits)

lemma create_none_iff:
  "create_interaction_strategy env intent scene = Inr None \<longleftrightarrow> scene_objects scene = []"
proof (cases "scene_objects scene = []")
  case True
  then show ?thesis
    using select_target_object_empty [of scene intent]
    by (simp add: create_interaction_strategy_def)
next
  case False
  then obtain target where t: "select_target_object intent scene = Some target"
    using select_target_object_nonempty [of scene intent] by auto
  obtain part where p: "select_functional_part env target intent = Some part"
    using select_functional_part_some [of env target intent] by auto
  show ?thesis using False t p by (simp add: create_interaction_strategy_def)
qed


text \<open>What a failed stage leaves in the pipeline state.\<close>

lemma stage_scene_analysis_fail:
  "stage_scene_analysis env ags image_path pl0 = (Inl e, pl) \<Longrightarrow>
     stage pl = name_scene_analysis \<and> errors pl = errors pl0 @ [scene_analysis_failed @ exc_str env e]"
  by (auto simp: stage_scene_analysis_def Let_def split: sum.splits)

lemma stage_scene_analysis_ok:
  "stage_scene_analysis env ags image_path pl0 = (Inr r, pl) \<Longrightarrow> errors pl = errors pl0"
  by (auto simp: stage_scene_analysis_def Let_def split: sum.splits)

lemma stage_strategy_planning_fail:
  "stage_strategy_planning env ags user_instruction r pl0 = (Inl e, pl) \<Longrightarrow>
     stage pl = name_strategy_planning
     \<and> errors pl = errors pl0 @ [strategy_planning_failed @ exc_str env e]"
  by (auto simp: stage_strategy_planning_def Let_def split: sum.splits option.splits)

lemma stage_strategy_planning_ok:
  "stage_strategy_planning env ags user_instruction r pl0 = (Inr s, pl) \<Longrightarrow> errors pl = errors pl0"
  by (auto simp: stage_strategy_planning_def Let_def split: sum.splits option.splits)

lemma stage_precision_segmentation_fail:
  "stage_precision_segmentation env ags image_path s pl0 = (Inl e, pl) \<Longrightarrow>
     stage pl = name_precision_segmentation
     \<and> errors pl = errors pl0 @ [precision_segmentation_failed @ exc_str env e]"
  by (auto simp: stage_precision_segmentation_def Let_def split: sum.splits if_splits)

lemma run_stages_state:
  assumes f: "run_stages env ags image_path user_instruction init_pipeline = (Inl e, pl)"
  shows "(stage pl = name_init \<and> errors pl = [] \<and> e = Exception msg_input_validation_failed)
       \<or> (stage pl = name_scene_analysis \<and> errors pl = [scene_analysis_failed @ exc_str env e])
       \<or> (stage pl = name_strategy_planning \<and> errors pl = [strategy_planning_failed @ exc_str env e])
       \<or> (stage pl = name_precision_segmentation
            \<and> errors pl = [precision_segmentation_failed @ exc_str env e])"
proof (cases "validate_inputs env image_path user_instruction")
  case False
  then show ?thesis using f by (auto simp: run_stages_def init_pipeline_def)
next
  case v: True
  obtain r1 pl1 where s1: "stage_scene_analysis env ags image_path init_pipeline = (r1, pl1)"
    by (cases "stage_scene_analysis env ags image_path init_pipeline") auto
  have e0: "errors init_pipeline = []" by (simp add: init_pipeline_def)
  show ?thesis
  proof (cases r1)
    case (Inl e1)
    then have "e1 = e" "pl1 = pl" using f v s1 by (simp_all add: run_stages_def)
    then show ?thesis using stage_scene_analysis_fail [of env ags image_path init_pipeline e pl] s1 Inl e0
      by simp
  next
    case (Inr scene)
    have e1: "errors pl1 = []" using stage_scene_analysis_ok [of env ags image_path init_pipeline scene pl1] s1 Inr e0
      by simp
    obtain r2 pl2 where s2: "stage_strategy_planning env ags user_instruction scene pl1 = (r2, pl2)"
      by (cases "stage_strategy_planning env ags user_instruction scene pl1") auto
    show ?thesis
    proof (cases r2)
      case (Inl e2)
      then have "e2 = e" "pl2 = pl" using f v s1 s2 Inr by (simp_all add: run_stages_def)
      then show ?thesis
        using stage_strategy_planning_fail [of env ags user_instruction scene pl1 e pl] s2 Inl e1
        by simp
    next
      case (Inr strategy)
      have e2: "errors pl2 = []"
        using stage_strategy_planning_ok [of env ags user_instruction scene pl1 strategy pl2] s2 Inr e1
        by simp
      have "stage_precision_segmentation env ags image_path strategy pl2 = (Inl e, pl)"
        using f v s1 s2 Inr \<open>r1 = Inr scene\<close> by (simp add: run_stages_def)
      then show ?thesis
        using stage_precision_segmentation_fail [of env ags image_path strategy pl2 e pl] e2
        by simp
    qed
  qed
qed


lemma jpg_valid: "validate_inputs jpg_world (asc ''scene.jpg'') (asc ''I am thirsty'')"
  by (simp add: validate_inputs_def jpg_world_def lstrip_dot_def asc_def py_strip_def py_isspace_def)





text \<open>
  C6. When the scene analyst returns a result with no objects in a run whose inputs are
  valid, with the repository's strategist: the scene analysis is recorded as completed and
  its (empty) result is stored and passed on; the run fails in strategy planning, whose
  entry in \<open>errors\<close> carries the cause "no valid interaction strategy". That cause means
  that no candidate object was found: no target object is selected from the empty scene,
  whatever the intent, and the strategist gives no strategy exactly when the scene has no
  objects.
\<close>

theorem empty_scene_fails_in_strategy_planning:
  assumes v: "validate_inputs env image_path user_instruction"
    and a: "ag_analyze_scene ags image_path = Inr scene_result"
    and z: "scene_objects scene_result = []"
    and i: "ag_analyze_user_intent ags = analyze_user_intent senv"
    and c: "ag_create_interaction_strategy ags = create_interaction_strategy senv"
  shows "snd (process env ags image_path user_instruction total_time) =
           \<lparr>stage = name_strategy_planning, completed_stages = [name_scene_analysis],
            current_data = [(asc ''scene_result'', SceneData scene_result)],
            errors = [strategy_planning_failed @ msg_no_valid_strategy], warnings = []\<rparr>
       \<and> (\<forall>intent. select_target_object intent scene_result = None)
       \<and> (\<forall>intent scene. create_interaction_strategy senv intent scene = Inr None
             \<longleftrightarrow> scene_objects scene = [])"
proof -
  have n: "\<And>intent. create_interaction_strategy senv intent scene_result = Inr None"
    using z by (simp add: create_none_iff)
  have "snd (process env ags image_path user_instruction total_time) =
           \<lparr>stage = name_strategy_planning, completed_stages = [name_scene_analysis],
            current_data = [(asc ''scene_result'', SceneData scene_result)],
            errors = [strategy_planning_failed @ msg_no_valid_strategy], warnings = []\<rparr>"
    using v a i c n
    by (simp add: process_def run_stages_def stage_scene_analysis_def stage_strategy_planning_def
        init_pipeline_def Let_def analyze_user_intent_default exc_str_def)
  then show ?thesis
    using z by (simp add: select_target_object_empty create_none_iff)
qed

theorem empty_scene_fails_in_strategy_planning_witness:
  "validate_inputs jpg_world (asc ''scene.jpg'') (asc ''I am thirsty'')
   \<and> ag_analyze_scene (test_agents empty_analyst (refusing_segmenter [])) (asc ''scene.jpg'')
       = Inr (SceneAnalysisResult (asc ''scene.jpg'') [] (asc ''2024-01-01T00:00:00''))
   \<and> scene_objects (SceneAnalysisResult (asc ''scene.jpg'') [] (asc ''2024-01-01T00:00:00'')) = []
   \<and> snd (process jpg_world (test_agents empty_analyst (refusing_segmenter []))
             (asc ''scene.jpg'') (asc ''I am thirsty'') 1) =
           \<lparr>stage = name_strategy_planning, completed_stages = [name_scene_analysis],
            current_data = [(asc ''scene_result'',
               SceneData (SceneAnalysisResult (asc ''scene.jpg'') [] (asc ''2024-01-01T00:00:00'')))],
            errors = [strategy_planning_failed @ msg_no_valid_strategy], warnings = []\<rparr>"
proof -
  have a: "ag_analyze_scene (test_agents empty_analyst (refusing_segmenter [])) (asc ''scene.jpg'')
       = Inr (SceneAnalysisResult (asc ''scene.jpg'') [] (asc ''2024-01-01T00:00:00''))"
    by (simp add: test_agents_def empty_analyst_def)
  have z: "scene_objects (SceneAnalysisResult (asc ''scene.jpg'') [] (asc ''2024-01-01T00:00:00'')) = []"
    by (simp add: SceneAnalysisResult_def)
  have i: "ag_analyze_user_intent (test_agents empty_analyst (refusing_segmenter []))
             = analyze_user_intent no_knowledge"
    by (simp add: test_agents_def)
  have c: "ag_create_interaction_strategy (test_agents empty_analyst (refusing_segmenter []))
             = create_interaction_strategy no_knowledge"
    by (simp add: test_agents_def)
  show ?thesis
    using empty_scene_fails_in_strategy_planning [OF jpg_valid a z i c, where total_time = 1, THEN conjunct1] jpg_valid a z
    by (simp only: simp_thms)
qed


text \<open>
  C9 does not hold of the code. The handler of \<open>process\<close> means to return a result with
  \<open>success\<close> false and the message \<open>str(e)\<close>, but it first builds a placeholder target
  object with no bounding box and a category that is not a member of \<open>ObjectCategory\<close>;
  that construction does not validate, so instead of the result a ValidationError leaves
  \<open>process\<close>: whenever the body of the \<open>try\<close> raises (the input validation or a stage
  fails), the caller receives no result object, and every result \<open>process\<close> does return
  is a successful one. The state of the run is the one the failing stage left: the stage
  that failed is named there, in \<open>pipeline.stage\<close> and in the one entry of \<open>pipeline.errors\<close>
  (none when the input validation fails).
\<close>

theorem process_failure_raises:
  assumes f: "run_stages env ags image_path user_instruction init_pipeline = (Inl e, pl)"
  shows "process env ags image_path user_instruction total_time = (Inl (Raised ValidationError), pl)
       \<and> DetectedObject (asc ''error'') txt_error (PStr txt_unknown) None 1 None = Inl ValidationError
       \<and> (\<forall>env' ags' p u t r. fst (process env' ags' p u t) = Inr r \<longrightarrow> success r)
       \<and> ((stage pl = name_init \<and> errors pl = [] \<and> e = Exception msg_input_validation_failed)
          \<or> (stage pl = name_scene_analysis \<and> errors pl = [scene_analysis_failed @ exc_str env e])
          \<or> (stage pl = name_strategy_planning
               \<and> errors pl = [strategy_planning_failed @ exc_str env e])
          \<or> (stage pl = name_precision_segmentation
               \<and> errors pl = [precision_segmentation_failed @ exc_str env e]))"
proof -
  have 1: "process env ags image_path user_instruction total_time = (Inl (Raised ValidationError), pl)"
    using f by (simp add: process_def report_failure_raises)
  have 2: "DetectedObject (asc ''error'') txt_error (PStr txt_unknown) None 1 None = Inl ValidationError"
    by (simp add: DetectedObject_def split: sum.splits)
  have 3: "\<forall>env' ags' p u t r. fst (process env' ags' p u t) = Inr r \<longrightarrow> success r"
  proof (intro allI impI)
    fix env' :: pipeline_env and ags' p u and t :: real and r
    assume a: "fst (process env' ags' p u t) = Inr r"
    obtain x pl' where rs: "run_stages env' ags' p u init_pipeline = (x, pl')"
      by (cases "run_stages env' ags' p u init_pipeline") auto
    have x: "x = Inr r"
      using a rs by (cases x) (simp_all add: process_def report_failure_raises)
    show "success r"
      using rs x
      by (auto simp: run_stages_def stage_precision_segmentation_def Let_def
          split: if_splits prod.splits sum.splits)
  qed
  show ?thesis using 1 2 3 run_stages_state [OF f] by (simp only: simp_thms)
qed

theorem process_failure_raises_witness:
  "run_stages jpg_world (test_agents empty_analyst (refusing_segmenter []))
       (asc ''scene.jpg'') (asc ''I am thirsty'') init_pipeline
     = (Inl (Exception msg_no_valid_strategy),
        \<lparr>stage = name_strategy_planning, completed_stages = [name_scene_analysis],
         current_data = [(asc ''scene_result'',
            SceneData (SceneAnalysisResult (asc ''scene.jpg'') [] (asc ''2024-01-01T00:00:00'')))],
         errors = [strategy_planning_failed @ msg_no_valid_strategy], warnings = []\<rparr>)
   \<and> process jpg_world (test_agents empty_analyst (refusing_segmenter []))
       (asc ''scene.jpg'') (asc ''I am thirsty'') 1
     = (Inl (Raised ValidationError),
        \<lparr>stage = name_strategy_planning, completed_stages = [name_scene_analysis],
         current_data = [(asc ''scene_result'',
            SceneData (SceneAnalysisResult (asc ''scene.jpg'') [] (asc ''2024-01-01T00:00:00'')))],
         errors = [strategy_planning_failed @ msg_no_valid_strategy], warnings = []\<rparr>)"
proof -
  have e: "create_interaction_strategy no_knowledge (default_intent (asc ''I am thirsty''))
             (SceneAnalysisResult (asc ''scene.jpg'') [] (asc ''2024-01-01T00:00:00'')) = Inr None"
    by (simp add: create_none_iff SceneAnalysisResult_def)
  have f: "run_stages jpg_world (test_agents empty_analyst (refusing_segmenter []))
       (asc ''scene.jpg'') (asc ''I am thirsty'') init_pipeline
     = (Inl (Exception msg_no_valid_strategy),
        \<lparr>stage = name_strategy_planning, completed_stages = [name_scene_analysis],
         current_data = [(asc ''scene_result'',
            SceneData (SceneAnalysisResult (asc ''scene.jpg'') [] (asc ''2024-01-01T00:00:00'')))],
         errors = [strategy_planning_failed @ msg_no_valid_strategy], warnings = []\<rparr>)"
    using jpg_valid e
    by (simp add: run_stages_def stage_scene_analysis_def stage_strategy_planning_def
        init_pipeline_def Let_def analyze_user_intent_default exc_str_def test_agents_def
        empty_analyst_def)
  show ?thesis
    using process_failure_raises [OF f, where total_time = 1, THEN conjunct1] f
    by (simp only: simp_thms)
qed

section \<open>The scene analyst\<close>

lemma analyze_scene_body_shape:
  "analyze_scene_body aenv image_path = Returns r \<Longrightarrow>
   r = SceneAnalysisResult image_path (scene_objects r) (timestamp aenv)"
  by (auto simp: analyze_scene_body_def SceneAnalysisResult_def
      split: attempt.splits option.splits sum.splits if_splits)

lemma analyze_scene_failed_as_empty:
  assumes a: "analyze_scene_body aenv image_path = Raises"
    and b: "analyze_scene_body aenv' image_path = Returns r'"
    and c: "scene_objects r' = []" and d: "timestamp aenv' = timestamp aenv"
  shows "analyze_scene aenv image_path = analyze_scene aenv' image_path"
proof -
  have "r' = SceneAnalysisResult image_path [] (timestamp aenv)"
    using analyze_scene_body_shape [OF b] c d by simp
  then show ?thesis using a b by (simp add: analyze_scene_def)
qed


lemma process_same_analysis:
  assumes a: "ag_analyze_scene ags image_path = ag_analyze_scene ags' image_path"
    and b: "ag_analyze_user_intent ags = ag_analyze_user_intent ags'"
    and c: "ag_create_interaction_strategy ags = ag_create_interaction_strategy ags'"
    and d: "ag_segment_target_part ags = ag_segment_target_part ags'"
  shows "process env ags image_path user_instruction total_time
           = process env ags' image_path user_instruction total_time"
proof -
  have 1: "stage_scene_analysis env ags image_path = stage_scene_analysis env ags' image_path"
    by (intro ext) (simp only: stage_scene_analysis_def a)
  have 2: "stage_strategy_planning env ags = stage_strategy_planning env ags'"
    by (intro ext) (simp only: stage_strategy_planning_def b c)
  have 3: "stage_precision_segmentation env ags = stage_precision_segmentation env ags'"
    by (intro ext) (simp only: stage_precision_segmentation_def d)
  have "run_stages env ags image_path user_instruction init_pipeline
          = run_stages env ags' image_path user_instruction init_pipeline"
    by (simp only: run_stages_def 1 2 3)
  then show ?thesis by (simp only: process_def)
qed

lemma pipeline_failed_as_empty:
  assumes a: "analyze_scene_body aenv image_path = Raises"
    and b: "analyze_scene_body aenv' image_path = Returns r'"
    and c: "scene_objects r' = []" and d: "timestamp aenv' = timestamp aenv"
  shows "process env (repo_agents aenv senv segmenter) image_path user_instruction total_time
           = process env (repo_agents aenv' senv segmenter) image_path user_instruction total_time"
  by (rule process_same_analysis)
     (simp_all add: repo_agents_def analyze_scene_failed_as_empty [OF a b c d])

text \<open>
  C10. \<open>analyze_scene\<close> returns for every image path and every behaviour of its helpers;
  when a step of its body raises (image not loaded, detection failed, malformed detection
  result) it returns the result with no objects, which is the result it returns when the
  detection succeeds with no objects at the same clock reading; the scene-analysis stage
  of a pipeline that uses it completes: it appends its name to \<open>completed_stages\<close> and
  leaves \<open>errors\<close> as they were; and a whole run of \<open>process\<close> after a failed analysis is
  the run after a successful analysis that found nothing.
\<close>

theorem analyze_scene_never_raises:
  "(\<exists>r. analyze_scene aenv image_path = Inr r)
   \<and> (analyze_scene_body aenv image_path = Raises \<longrightarrow>
        analyze_scene aenv image_path = Inr (SceneAnalysisResult image_path [] (timestamp aenv)))
   \<and> (\<forall>aenv' r'. analyze_scene_body aenv image_path = Raises
          \<and> analyze_scene_body aenv' image_path = Returns r' \<and> scene_objects r' = []
          \<and> timestamp aenv' = timestamp aenv
          \<longrightarrow> analyze_scene aenv image_path = analyze_scene aenv' image_path)
   \<and> (ag_analyze_scene ags = analyze_scene aenv \<longrightarrow>
        (\<exists>r. analyze_scene aenv image_path = Inr r
           \<and> stage_scene_analysis env ags image_path pl =
               (Inr r, pl\<lparr>stage := name_scene_analysis,
                          completed_stages := completed_stages pl @ [name_scene_analysis],
                          current_data := AList.update (asc ''scene_result'') (SceneData r)
                                            (current_data pl)\<rparr>)))
   \<and> (\<forall>aenv' r' senv segmenter user_instruction total_time.
          analyze_scene_body aenv image_path = Raises
          \<and> analyze_scene_body aenv' image_path = Returns r' \<and> scene_objects r' = []
          \<and> timestamp aenv' = timestamp aenv
          \<longrightarrow> process env (repo_agents aenv senv segmenter) image_path user_instruction total_time
              = process env (repo_agents aenv' senv segmenter) image_path user_instruction
                  total_time)"
proof (intro conjI)
  show "\<forall>aenv' r' senv segmenter user_instruction total_time.
          analyze_scene_body aenv image_path = Raises
          \<and> analyze_scene_body aenv' image_path = Returns r' \<and> scene_objects r' = []
          \<and> timestamp aenv' = timestamp aenv
          \<longrightarrow> process env (repo_agents aenv senv segmenter) image_path user_instruction total_time
              = process env (repo_agents aenv' senv segmenter) image_path user_instruction
                  total_time"
    using pipeline_failed_as_empty by blast
  show "\<exists>r. analyze_scene aenv image_path = Inr r"
    by (simp add: analyze_scene_def split: attempt.splits)
  show "analyze_scene_body aenv image_path = Raises \<longrightarrow>
        analyze_scene aenv image_path = Inr (SceneAnalysisResult image_path [] (timestamp aenv))"
    by (simp add: analyze_scene_def)
  show "\<forall>aenv' r'. analyze_scene_body aenv image_path = Raises
          \<and> analyze_scene_body aenv' image_path = Returns r' \<and> scene_objects r' = []
          \<and> timestamp aenv' = timestamp aenv
          \<longrightarrow> analyze_scene aenv image_path = analyze_scene aenv' image_path"
    using analyze_scene_failed_as_empty by blast
  show "ag_analyze_scene ags = analyze_scene aenv \<longrightarrow>
        (\<exists>r. analyze_scene aenv image_path = Inr r
           \<and> stage_scene_analysis env ags image_path pl =
               (Inr r, pl\<lparr>stage := name_scene_analysis,
                          completed_stages := completed_stages pl @ [name_scene_analysis],
                          current_data := AList.update (asc ''scene_result'') (SceneData r)
                                            (current_data pl)\<rparr>))"
    by (auto simp: analyze_scene_def stage_scene_analysis_def Let_def split: attempt.splits)
qed

lemma unreadable_raises: "analyze_scene_body unreadable_image (asc ''scene.jpg'') = Raises"
  by (simp add: analyze_scene_body_def unreadable_image_def)

lemma detected_nothing:
  "analyze_scene_body (detected []) (asc ''scene.jpg'')
     = Returns (SceneAnalysisResult (asc ''scene.jpg'') [] (asc ''2024-01-01T00:00:00''))"
  by (simp add: analyze_scene_body_def detected_def py_get_def asc_def)

theorem analyze_scene_never_raises_witness:
  "analyze_scene_body unreadable_image (asc ''scene.jpg'') = Raises
   \<and> analyze_scene unreadable_image (asc ''scene.jpg'')
       = Inr (SceneAnalysisResult (asc ''scene.jpg'') [] (asc ''2024-01-01T00:00:00''))
   \<and> analyze_scene_body (detected []) (asc ''scene.jpg'')
       = Returns (SceneAnalysisResult (asc ''scene.jpg'') [] (asc ''2024-01-01T00:00:00''))
   \<and> analyze_scene unreadable_image (asc ''scene.jpg'') = analyze_scene (detected []) (asc ''scene.jpg'')
   \<and> process jpg_world (repo_agents unreadable_image no_knowledge (refusing_segmenter []))
         (asc ''scene.jpg'') (asc ''I am thirsty'') 1
       = process jpg_world (repo_agents (detected []) no_knowledge (refusing_segmenter []))
           (asc ''scene.jpg'') (asc ''I am thirsty'') 1"
proof -
  have t: "timestamp unreadable_image = asc ''2024-01-01T00:00:00''"
          "timestamp (detected []) = timestamp unreadable_image"
    by (simp_all add: unreadable_image_def detected_def)
  have z: "scene_objects (SceneAnalysisResult (asc ''scene.jpg'') [] (asc ''2024-01-01T00:00:00'')) = []"
    by (simp add: SceneAnalysisResult_def)
  note c = analyze_scene_never_raises [of unreadable_image "asc ''scene.jpg''"]
  have 1: "analyze_scene unreadable_image (asc ''scene.jpg'')
       = Inr (SceneAnalysisResult (asc ''scene.jpg'') [] (asc ''2024-01-01T00:00:00''))"
    using c [THEN conjunct2, THEN conjunct1] unreadable_raises t(1) by simp
  have 2: "analyze_scene unreadable_image (asc ''scene.jpg'') = analyze_scene (detected []) (asc ''scene.jpg'')"
    using c [THEN conjunct2, THEN conjunct2, THEN conjunct1, rule_format,
             of "detected []" "SceneAnalysisResult (asc ''scene.jpg'') [] (asc ''2024-01-01T00:00:00'')"]
      unreadable_raises detected_nothing z t(2) by blast
  have 3: "process jpg_world (repo_agents unreadable_image no_knowledge (refusing_segmenter []))
         (asc ''scene.jpg'') (asc ''I am thirsty'') 1
       = process jpg_world (repo_agents (detected []) no_knowledge (refusing_segmenter []))
           (asc ''scene.jpg'') (asc ''I am thirsty'') 1"
    using analyze_scene_never_raises
             [where aenv = unreadable_image and image_path = "asc ''scene.jpg''" and env = jpg_world,
              THEN conjunct2, THEN conjunct2, THEN conjunct2, THEN conjunct2, rule_format,
              of "detected []" "SceneAnalysisResult (asc ''scene.jpg'') [] (asc ''2024-01-01T00:00:00'')"]
      unreadable_raises detected_nothing z t(2) by blast
  show ?thesis using 1 2 3 unreadable_raises detected_nothing by blast
qed

section \<open>Parsing a response\<close>

lemma not_json: "json_loads (asc ''not json at all'') = Inl JSONDecodeError"
  by (simp add: json_loads_def asc_def is_json_ws_def scan_atom_def literals_def strip_prefix_def
      scan_number_def scan_int_part_def is_digit_def)

lemma clean_not_json: "clean_json_from_markdown (asc ''not json at all'') = asc ''not json at all''"
  by (simp add: clean_json_from_markdown_def asc_def py_strip_def py_isspace_def startswith_def
      endswith_def fence_def fence_json_def Let_def)


text \<open>
  C4, as stated, fails: for the raw text \<open>not json at all\<close>, \<open>sentence_to_dict\<close> returns the
  empty dict and \<open>ask_about_image_with_coordinate_conversion\<close> returns the raw text;
  neither raises.
\<close>

theorem malformed_response_counterexample:
  "sentence_to_dict no_float_strings (asc ''not json at all'') = PDict []
   \<and> ask_about_image_with_coordinate_conversion no_dumps init_agent (Inr (asc ''not json at all''))
       = Inr (asc ''not json at all'')"
  by (simp add: sentence_to_dict_def sentence_to_dict_body_def
      ask_about_image_with_coordinate_conversion_def clean_not_json not_json)


text \<open>
  C4, amended. For every text that \<open>json.loads\<close> rejects after the fenced block is
  stripped, \<open>sentence_to_dict\<close> returns the empty dict, and
  \<open>ask_about_image_with_coordinate_conversion\<close> returns the raw text unchanged; no
  exception carries the raw text.
\<close>

theorem malformed_response_returns_default:
  assumes "json_loads (clean_json_from_markdown s) = Inl e"
  shows "sentence_to_dict float_of_str s = PDict []
       \<and> ask_about_image_with_coordinate_conversion dumps ag (Inr s) = Inr s"
  using assms
  by (simp add: sentence_to_dict_def sentence_to_dict_body_def
      ask_about_image_with_coordinate_conversion_def)

theorem malformed_response_returns_default_witness:
  "json_loads (clean_json_from_markdown (asc ''not json at all'')) = Inl JSONDecodeError
   \<and> sentence_to_dict no_float_strings (asc ''not json at all'') = PDict []
   \<and> ask_about_image_with_coordinate_conversion no_dumps init_agent (Inr (asc ''not json at all''))
       = Inr (asc ''not json at all'')"
proof -
  have j: "json_loads (clean_json_from_markdown (asc ''not json at all'')) = Inl JSONDecodeError"
    by (simp only: clean_not_json not_json)
  show ?thesis
    using malformed_response_returns_default [OF j, of no_float_strings no_dumps init_agent] j by (simp only: simp_thms)
qed


section \<open>Regions\<close>

lemma py_int_mono: "a \<le> b \<Longrightarrow> py_int a \<le> py_int b"
proof -
  assume ab: "a \<le> b"
  show ?thesis
  proof (cases "0 \<le> a")
    case True
    then show ?thesis using ab by (simp add: py_int_def floor_mono)
  next
    case na: False
    show ?thesis
    proof (cases "0 \<le> b")
      case True
      have c: "\<lceil>a\<rceil> \<le> 0" using na by simp
      have f: "0 \<le> \<lfloor>b\<rfloor>" using True by simp
      have "\<lceil>a\<rceil> \<le> \<lfloor>b\<rfloor>" using c f by (rule order_trans)
      then show ?thesis using na True by (simp only: py_int_def if_True if_False)
    next
      case False
      then show ?thesis using na ab by (simp add: py_int_def ceiling_mono)
    qed
  qed
qed

lemma validate_box_finite:
  assumes "py_float fos a = Inr (Finite ra)" "py_float fos b = Inr (Finite rb)"
    "py_float fos c = Inr (Finite rc)" "py_float fos e = Inr (Finite re)"
  shows "validate_box fos [a, b, c, e] =
           Inr (PList [PInt (py_int (min ra rc)), PInt (py_int (min rb re)),
                       PInt (py_int (max ra rc)), PInt (py_int (max rb re))])"
  using assms by (simp add: validate_box_def Let_def min_def max_def)

lemma validate_box_ordered: "validate_box fos bbox = Inr box \<Longrightarrow> ordered_box box"
proof -
  assume v: "validate_box fos bbox = Inr box"
  then obtain a b c e where bb: "bbox = [a, b, c, e]"
    by (auto simp: validate_box_def split: list.splits)
  obtain fa fb fc fe where f: "py_float fos a = Inr fa" "py_float fos b = Inr fb"
      "py_float fos c = Inr fc" "py_float fos e = Inr fe"
    using v bb by (auto simp: validate_box_def split: sum.splits)
  define x1 where "x1 = (if float_gt fa fc then fc else fa)"
  define x2 where "x2 = (if float_gt fa fc then fa else fc)"
  define y1 where "y1 = (if float_gt fb fe then fe else fb)"
  define y2 where "y2 = (if float_gt fb fe then fb else fe)"
  have nx: "\<not> float_gt x1 x2" unfolding x1_def x2_def
    by (cases fa; cases fc) auto
  have ny: "\<not> float_gt y1 y2" unfolding y1_def y2_def
    by (cases fb; cases fe) auto
  obtain i1 j1 i2 j2 where i: "int_of_float x1 = Inr i1" "int_of_float y1 = Inr j1"
      "int_of_float x2 = Inr i2" "int_of_float y2 = Inr j2"
      and box: "box = PList [PInt i1, PInt j1, PInt i2, PInt j2]"
    using v bb f unfolding x1_def x2_def y1_def y2_def
    by (auto simp: validate_box_def Let_def split: sum.splits if_splits)
  have "i1 \<le> i2" using i(1,3) nx by (cases x1; cases x2) (auto simp: py_int_mono)
  moreover have "j1 \<le> j2" using i(2,4) ny by (cases y1; cases y2) (auto simp: py_int_mono)
  ultimately show ?thesis using box by simp
qed

lemma validate_item_ordered: "validate_item fos item = Keep v \<Longrightarrow> ordered_region v"
  by (auto simp: validate_item_def ordered_region_def caught_def update_conv'
      split: pyval.splits option.splits sum.splits if_splits dest: validate_box_ordered)

lemma validate_items_ordered:
  "validate_items fos items = Inr vs \<Longrightarrow> \<forall>v\<in>set vs. ordered_region v"
proof (induction items arbitrary: vs)
  case Nil
  then show ?case by simp
next
  case (Cons item items)
  show ?case
  proof (cases "validate_item fos item")
    case Skip
    then show ?thesis using Cons by simp
  next
    case (Keep v)
    then obtain ws where w: "validate_items fos items = Inr ws" and vs: "vs = v # ws"
      using Cons.prems by (auto split: sum.splits)
    show ?thesis using Cons.IH [OF w] validate_item_ordered [OF Keep] vs by simp
  next
    case (Escape e)
    then show ?thesis using Cons.prems by simp
  qed
qed



text \<open>
  C7, as stated, fails: a region of the pipeline is a \<open>BoundingBox\<close>, which keeps the
  coordinates it is given. A detected object with the box (300, 50, 100, 200) goes through
  the scene analyst into the scene result with \<open>x1 = 300\<close> and \<open>x2 = 100\<close>.
\<close>

theorem bounding_box_not_normalized_counterexample:
  "analyze_scene (detected [swapped_detection]) (asc ''scene.jpg'') =
     Inr (SceneAnalysisResult (asc ''scene.jpg'')
            [\<lparr>object_id = asc ''obj_1'', obj_label = asc ''mug'', obj_category = CUP,
              obj_bounding_box =
                \<lparr>bb_x1 = 300, bb_y1 = 50, bb_x2 = 100, bb_y2 = 200, bb_confidence = 0.5\<rparr>,
              obj_confidence = 0.5, obj_description = None\<rparr>]
            (asc ''2024-01-01T00:00:00''))
   \<and> \<not> ((300::int) \<le> 100)"
  by (simp add: analyze_scene_def analyze_scene_body_def detected_def py_get_def py_getitem_def
      asc_def swapped_detection_def parse_object_def parse_bounding_box_def exact_types_def
      ObjectCategory_def all_categories_def DetectedObject_def SceneAnalysisResult_def)

text \<open>What \<open>sentence_to_dict\<close> does with the regions of a response without infinities.\<close>

lemma py_float_error:
  "py_float fos c = Inl err \<Longrightarrow> err = ValueError \<or> err = TypeError \<or> err = OverflowError"
  by (auto simp: py_float_def int_to_float_def split: pyval.splits option.splits pyfloat.splits)

lemma py_float_small_int:
  "\<bar>n\<bar> < 2 ^ 53 \<Longrightarrow> py_float fos (PInt n) = Inr (Finite (of_int n))"
  by (simp add: py_float_def int_to_float_def float_of_real_int)

text \<open>
  \<open>float\<close> rounds an int that is not a double, and the decoder rounds a decimal literal:
  \<open>float(9007199254740993)\<close> is 9007199254740992.0 and \<open>2.9999999999999999999\<close> reads as
  3.0.
\<close>

lemma py_float_rounds_int:
  "py_float fos (PInt 9007199254740993) = Inr (Finite 9007199254740992)"
proof -
  have r: "round_to_double 9007199254740993 = 9007199254740992"
    by (subst round_to_double_eval [where e = 53]) (simp_all add: round_half_even_def Let_def)
  have "float_of_real 9007199254740993 = Finite (round_to_double 9007199254740993)"
    by (rule float_of_real_finite) simp
  then show ?thesis using r by (simp add: py_float_def int_to_float_def)
qed

lemma json_float_rounds:
  "json_loads (asc ''2.9999999999999999999'') = Inr (PFloat (Finite 3))"
proof -
  have r: "round_to_double (29999999999999999999 / 10 ^ 19) = 3"
    by (subst round_to_double_eval [where e = 1]) (simp_all add: round_half_even_def Let_def)
  have f: "float_of_real (29999999999999999999 / 10 ^ 19) = Finite 3"
    unfolding r [symmetric] by (rule float_of_real_finite) simp
  have s: "scan_number (asc ''2.9999999999999999999'')
             = Some (PFloat (float_of_real (29999999999999999999 / 10 ^ 19)), [])"
    by (simp add: scan_number_def scan_int_part_def scan_frac_def scan_exp_def is_digit_def
        digits_value_def scale10_def asc_def Let_def)
  show ?thesis
    using s f
    by (simp add: json_loads_def lex.simps scan_atom_def literals_def strip_prefix_def
        parse_tokens_def asc_def is_json_ws_def Let_def)
qed

lemma tame_coordinate_cases:
  assumes "tame_coordinate fos c"
  shows "py_float fos c = Inl ValueError \<or> py_float fos c = Inl TypeError
       \<or> py_float fos c = Inr NaN \<or> (\<exists>r. py_float fos c = Inr (Finite r))"
proof (cases "py_float fos c")
  case (Inl err)
  then show ?thesis using assms py_float_error [OF Inl] by (auto simp: tame_coordinate_def)
next
  case (Inr f)
  then show ?thesis using assms by (cases f) (auto simp: tame_coordinate_def)
qed

lemma validate_box_tame:
  assumes t: "tame_coordinate fos a" "tame_coordinate fos b" "tame_coordinate fos c"
      "tame_coordinate fos e"
    and n: "\<not> (finite_coordinate fos a \<and> finite_coordinate fos b \<and> finite_coordinate fos c
              \<and> finite_coordinate fos e)"
  shows "validate_box fos [a, b, c, e] = Inl ValueError \<or> validate_box fos [a, b, c, e] = Inl TypeError"
  using tame_coordinate_cases [OF t(1)] tame_coordinate_cases [OF t(2)]
    tame_coordinate_cases [OF t(3)] tame_coordinate_cases [OF t(4)] n
  by (auto simp: validate_box_def finite_coordinate_def Let_def)

lemma validate_item_tame:
  assumes t: "tame_region fos item"
  shows "validate_item fos item =
           (if finite_region fos item then Keep (swap_normalize fos item) else Skip)"
proof (cases "region_box item")
  case None
  then show ?thesis
    by (auto simp: validate_item_def finite_region_def region_box_def
        split: pyval.splits option.splits if_splits)
next
  case (Some bbox)
  then obtain d where d: "item = PDict d" and m: "map_of d (asc ''bbox_2d'') = Some (PList bbox)"
      and l: "length bbox = 4"
    by (auto simp: region_box_def split: pyval.splits option.splits if_splits)
  obtain a b c e where bb: "bbox = [a, b, c, e]"
    using l by (auto simp: length_Suc_conv numeral_eq_Suc)
  have tm: "tame_coordinate fos a" "tame_coordinate fos b" "tame_coordinate fos c"
      "tame_coordinate fos e"
    using t Some bb by (simp_all add: tame_region_def)
  have vi: "validate_item fos item =
      (case validate_box fos [a, b, c, e] of
         Inl err \<Rightarrow> caught err
       | Inr box \<Rightarrow> Keep (PDict (AList.update (asc ''bbox_2d'') box d)))"
    using d m bb by (simp add: validate_item_def)
  show ?thesis
  proof (cases "finite_region fos item")
    case True
    then have f: "finite_coordinate fos a" "finite_coordinate fos b" "finite_coordinate fos c"
        "finite_coordinate fos e"
      using Some bb by (simp_all add: finite_region_def)
    obtain ra rb rc re where r: "py_float fos a = Inr (Finite ra)" "py_float fos b = Inr (Finite rb)"
        "py_float fos c = Inr (Finite rc)" "py_float fos e = Inr (Finite re)"
      using f by (auto simp: finite_coordinate_def split: sum.splits pyfloat.splits)
    have "swap_normalize fos item =
            PDict (AList.update (asc ''bbox_2d'')
                     (PList [PInt (py_int (min ra rc)), PInt (py_int (min rb re)),
                             PInt (py_int (max ra rc)), PInt (py_int (max rb re))]) d)"
      using d Some bb r by (simp add: swap_normalize_def coordinate_value_def)
    then show ?thesis using True vi validate_box_finite [OF r] by simp
  next
    case False
    then have n: "\<not> (finite_coordinate fos a \<and> finite_coordinate fos b \<and> finite_coordinate fos c
              \<and> finite_coordinate fos e)"
      using Some bb by (simp add: finite_region_def)
    show ?thesis using False vi validate_box_tame [OF tm n] by (auto simp: caught_def)
  qed
qed

lemma validate_items_tame:
  "list_all (tame_region fos) items \<Longrightarrow>
   validate_items fos items = Inr (map (swap_normalize fos) (filter (finite_region fos) items))"
proof (induction items)
  case Nil
  then show ?case by simp
next
  case (Cons item items)
  then show ?case by (simp add: validate_item_tame)
qed

lemma swap_normalize_ordered:
  assumes f: "finite_region fos item"
  shows "ordered_region (swap_normalize fos item)"
proof -
  obtain bbox where rb: "region_box item = Some bbox"
    using f by (auto simp: finite_region_def split: option.splits)
  then obtain d where d: "item = PDict d" and l: "length bbox = 4"
    by (auto simp: region_box_def split: pyval.splits option.splits if_splits)
  obtain a b c e where bb: "bbox = [a, b, c, e]"
    using l by (auto simp: length_Suc_conv numeral_eq_Suc)
  have "py_int (min (coordinate_value fos a) (coordinate_value fos c))
          \<le> py_int (max (coordinate_value fos a) (coordinate_value fos c))"
    by (rule py_int_mono) simp
  moreover have "py_int (min (coordinate_value fos b) (coordinate_value fos e))
          \<le> py_int (max (coordinate_value fos b) (coordinate_value fos e))"
    by (rule py_int_mono) simp
  ultimately show ?thesis
    using d rb bb by (simp add: swap_normalize_def ordered_region_def Let_def update_conv')
qed

lemma blank_not_json: "py_strip s = [] \<Longrightarrow> json_loads (clean_json_from_markdown s) = Inl JSONDecodeError"
proof -
  assume b: "py_strip s = []"
  have c: "clean_json_from_markdown s = []"
    using b by (simp add: clean_json_from_markdown_def Let_def startswith_def endswith_def
        fence_def fence_json_def)
  have "json_loads [] = Inl JSONDecodeError" by code_simp
  then show ?thesis using c by simp
qed

text \<open>
  A region with an infinite coordinate is not skipped: \<open>int\<close> of an infinity raises
  OverflowError, which the handler of the loop does not catch, and the whole response is
  answered with the empty dict, the regions before it included.
\<close>

lemma infinite_sibling_drops_all:
  "sentence_to_dict no_float_strings infinite_sibling_response = PDict []"
proof -
  have p: "json_loads (clean_json_from_markdown infinite_sibling_response) =
     Inr (PList [PDict [(asc ''bbox_2d'', PList [PInt 300, PInt 50, PInt 100, PInt 200])],
                 PDict [(asc ''bbox_2d'', PList [PFloat PosInf, PInt 0, PInt 1, PInt 1])]])"
    by code_simp
  have ne: "py_strip infinite_sibling_response \<noteq> []" by code_simp
  have g: "py_float no_float_strings (PFloat PosInf) = Inr PosInf" by (simp add: py_float_def)
  have v: "validate_items no_float_strings
             [PDict [(asc ''bbox_2d'', PList [PInt 300, PInt 50, PInt 100, PInt 200])],
              PDict [(asc ''bbox_2d'', PList [PFloat PosInf, PInt 0, PInt 1, PInt 1])]]
           = Inl OverflowError"
    using py_float_small_int [of 300 no_float_strings] py_float_small_int [of 50 no_float_strings]
      py_float_small_int [of 100 no_float_strings] py_float_small_int [of 200 no_float_strings]
      py_float_small_int [of 0 no_float_strings] py_float_small_int [of 1 no_float_strings] g
    by (simp add: validate_item_def validate_box_def caught_def py_int_def)
  show ?thesis using p ne v by (simp add: sentence_to_dict_def sentence_to_dict_body_def)
qed

text \<open>
  C7, amended. For a response that parses to a list, in which no box of four elements
  holds a coordinate that \<open>float\<close> turns into an infinity or rejects with OverflowError:
  \<open>sentence_to_dict\<close> returns the regions whose \<open>bbox_2d\<close> is a list of four finite numbers,
  each of them kept, in order, with its box normalized as the specification says
  (coordinates out of order swapped) and truncated to ints; the other items are skipped.
  Such a normalized region is ordered. Whatever the items, the result for a list is the
  empty dict or a dict whose \<open>segmentation_results\<close> are all ordered. The last part spells
  out the normalization for a dict with a box of four finite coordinates. (A response that
  parses to something else is returned as it is; the \<open>BoundingBox\<close> of the pipeline is not
  normalized; with an infinite coordinate in one region the whole response gives the empty
  dict, see \<open>infinite_sibling_drops_all\<close>.)
\<close>

theorem sentence_to_dict_orders_boxes:
  assumes j: "json_loads (clean_json_from_markdown s) = Inr (PList items)"
  shows "(list_all (tame_region fos) items \<longrightarrow>
            sentence_to_dict fos s =
              PDict [(asc ''segmentation_results'',
                      PList (map (swap_normalize fos) (filter (finite_region fos) items)))])
       \<and> (\<forall>item\<in>set items. finite_region fos item \<longrightarrow> ordered_region (swap_normalize fos item))
       \<and> (sentence_to_dict fos s = PDict []
            \<or> (\<exists>vs. sentence_to_dict fos s = PDict [(asc ''segmentation_results'', PList vs)]
                   \<and> (\<forall>v\<in>set vs. ordered_region v)))
       \<and> (\<forall>d a b c e ra rb rc re.
             map_of d (asc ''bbox_2d'') = Some (PList [a, b, c, e])
             \<and> py_float fos a = Inr (Finite ra) \<and> py_float fos b = Inr (Finite rb)
             \<and> py_float fos c = Inr (Finite rc) \<and> py_float fos e = Inr (Finite re)
             \<longrightarrow> finite_region fos (PDict d)
               \<and> swap_normalize fos (PDict d) =
                   PDict (AList.update (asc ''bbox_2d'')
                      (PList [PInt (py_int (min ra rc)), PInt (py_int (min rb re)),
                              PInt (py_int (max ra rc)), PInt (py_int (max rb re))]) d))"
proof -
  have ne: "py_strip s \<noteq> []" using j blank_not_json [of s] by auto
  have 1: "list_all (tame_region fos) items \<longrightarrow>
            sentence_to_dict fos s =
              PDict [(asc ''segmentation_results'',
                      PList (map (swap_normalize fos) (filter (finite_region fos) items)))]"
    using j ne by (simp add: sentence_to_dict_def sentence_to_dict_body_def validate_items_tame)
  have 2: "\<forall>item\<in>set items. finite_region fos item \<longrightarrow> ordered_region (swap_normalize fos item)"
    using swap_normalize_ordered by blast
  have 3: "sentence_to_dict fos s = PDict []
            \<or> (\<exists>vs. sentence_to_dict fos s = PDict [(asc ''segmentation_results'', PList vs)]
                   \<and> (\<forall>v\<in>set vs. ordered_region v))"
  proof (cases "validate_items fos items")
    case (Inl err)
    then show ?thesis using j ne by (simp add: sentence_to_dict_def sentence_to_dict_body_def)
  next
    case (Inr vs)
    have "sentence_to_dict fos s = PDict [(asc ''segmentation_results'', PList vs)]"
      using j ne Inr by (simp add: sentence_to_dict_def sentence_to_dict_body_def)
    then show ?thesis using validate_items_ordered [OF Inr] by blast
  qed
  have 4: "\<forall>d a b c e ra rb rc re.
             map_of d (asc ''bbox_2d'') = Some (PList [a, b, c, e])
             \<and> py_float fos a = Inr (Finite ra) \<and> py_float fos b = Inr (Finite rb)
             \<and> py_float fos c = Inr (Finite rc) \<and> py_float fos e = Inr (Finite re)
             \<longrightarrow> finite_region fos (PDict d)
               \<and> swap_normalize fos (PDict d) =
                   PDict (AList.update (asc ''bbox_2d'')
                      (PList [PInt (py_int (min ra rc)), PInt (py_int (min rb re)),
                              PInt (py_int (max ra rc)), PInt (py_int (max rb re))]) d)"
    by (simp add: finite_region_def region_box_def finite_coordinate_def swap_normalize_def
        coordinate_value_def)
  show ?thesis using 1 2 3 4 by (simp only: simp_thms)
qed

lemma swapped_response_parsed:
  "json_loads (clean_json_from_markdown swapped_response) =
     Inr (PList [PDict [(asc ''bbox_2d'', PList [PInt 300, PInt 50, PInt 100, PInt 200]),
                        (asc ''label'', PStr (asc ''handle''))]])"
  by code_simp

theorem sentence_to_dict_orders_boxes_witness:
  "json_loads (clean_json_from_markdown swapped_response) =
     Inr (PList [PDict [(asc ''bbox_2d'', PList [PInt 300, PInt 50, PInt 100, PInt 200]),
                        (asc ''label'', PStr (asc ''handle''))]])
   \<and> sentence_to_dict no_float_strings swapped_response
       = PDict [(asc ''segmentation_results'',
                 PList [PDict [(asc ''bbox_2d'', PList [PInt 100, PInt 50, PInt 300, PInt 200]),
                               (asc ''label'', PStr (asc ''handle''))]])]
   \<and> ordered_region (PDict [(asc ''bbox_2d'', PList [PInt 100, PInt 50, PInt 300, PInt 200]),
                             (asc ''label'', PStr (asc ''handle''))])"
proof -
  define region where "region = PDict [(asc ''bbox_2d'', PList [PInt 300, PInt 50, PInt 100, PInt 200]),
                        (asc ''label'', PStr (asc ''handle''))]"
  have p: "json_loads (clean_json_from_markdown swapped_response) = Inr (PList [region])"
    unfolding region_def by (rule swapped_response_parsed)
  note t = sentence_to_dict_orders_boxes [OF p, of no_float_strings]
  have f: "py_float no_float_strings (PInt 300) = Inr (Finite 300)"
          "py_float no_float_strings (PInt 50) = Inr (Finite 50)"
          "py_float no_float_strings (PInt 100) = Inr (Finite 100)"
          "py_float no_float_strings (PInt 200) = Inr (Finite 200)"
    using py_float_small_int [of 300 no_float_strings] py_float_small_int [of 50 no_float_strings]
      py_float_small_int [of 100 no_float_strings] py_float_small_int [of 200 no_float_strings]
    by simp_all
  have rb: "region_box region = Some [PInt 300, PInt 50, PInt 100, PInt 200]"
    by (simp add: region_box_def region_def)
  have tame: "list_all (tame_region no_float_strings) [region]"
    by (simp add: tame_region_def rb tame_coordinate_def f)
  have fin: "finite_region no_float_strings region"
    by (simp add: finite_region_def rb finite_coordinate_def f)
  have sn: "swap_normalize no_float_strings region =
      PDict [(asc ''bbox_2d'', PList [PInt 100, PInt 50, PInt 300, PInt 200]),
             (asc ''label'', PStr (asc ''handle''))]"
    unfolding swap_normalize_def rb
    by (simp add: region_def coordinate_value_def f py_int_def)
  have s: "sentence_to_dict no_float_strings swapped_response
       = PDict [(asc ''segmentation_results'',
                 PList [PDict [(asc ''bbox_2d'', PList [PInt 100, PInt 50, PInt 300, PInt 200]),
                               (asc ''label'', PStr (asc ''handle''))]])]"
    using t [THEN conjunct1, rule_format, OF tame] fin sn by simp
  have o: "ordered_region (PDict [(asc ''bbox_2d'', PList [PInt 100, PInt 50, PInt 300, PInt 200]),
                             (asc ''label'', PStr (asc ''handle''))])"
    using t [THEN conjunct2, THEN conjunct1, rule_format, of region] fin sn by simp
  show ?thesis using p s o unfolding region_def by (simp only: simp_thms)
qed

end
